theory Spec2Isabelle
  imports Main "HOL-Library.Sublist" "HOL-Library.AList" "HOL-Library.Multiset"
begin

section \<open>MediVault: record store, consent workflow, storage gateways, ledger client\<close>

text \<open>
  The development embeds the server actions of \<^verbatim>\<open>lib/firebase/firestore.ts\<close>,
  \<^verbatim>\<open>lib/actions.ts\<close>, \<^verbatim>\<open>lib/crypto.ts\<close>, \<^verbatim>\<open>lib/pinata.ts\<close>,
  \<^verbatim>\<open>lib/contract.ts\<close>, the upload route and the two client components that create
  and read attachments. Asynchronous calls are sequenced in program order; every
  \<^verbatim>\<open>throw\<close> is the left injection of a sum, every mutation of the metadata store
  returns the new store.
\<close>

subsection \<open>Errors and results\<close>

text \<open>A JavaScript \<^verbatim>\<open>Error\<close>, identified by its message.\<close>

datatype exn = Error string

fun message :: "exn \<Rightarrow> string" where
  "message (Error m) = m"

text \<open>The object \<^verbatim>\<open>{ success, error? }\<close> returned by the server actions.\<close>

record action_result =
  success :: bool
  error :: "string option"

definition ok_result :: action_result where
  "ok_result = \<lparr>success = True, error = None\<rparr>"

definition fail_result :: "string \<Rightarrow> action_result" where
  "fail_result m = \<lparr>success = False, error = Some m\<rparr>"

subsection \<open>Documents of the metadata store\<close>

type_synonym bytes = "char list"

text \<open>\<^verbatim>\<open>EncryptedBlob\<close> of \<^verbatim>\<open>lib/crypto.ts\<close>; both byte fields are base64 text.\<close>

record EncryptedBlob =
  eb_ciphertext :: string
  eb_iv :: string
  eb_alg :: string
  eb_v :: nat

text \<open>
  A field value of a Firestore document, as far as the code reads or writes one:
  a string, a \<^verbatim>\<open>Timestamp\<close> (held at the millisecond precision of
  \<^verbatim>\<open>Timestamp.fromDate\<close> and \<^verbatim>\<open>toDate\<close>), an encrypted blob, or null.
\<close>

datatype fvalue = FString string | FTimestamp int | FBlob EncryptedBlob | FNull

type_synonym document = "string \<rightharpoonup> fvalue"

datatype role = Patient | Doctor

text \<open>
  \<^verbatim>\<open>UserDocument\<close> of \<^verbatim>\<open>lib/types.ts\<close>. The two connection arrays are optional
  in the interface, hence \<open>option\<close>; the profile fields (weight, height, blood group,
  bmi, createdAt) play no part in any operation below and are left out.
\<close>

record UserDocument =
  uid :: string
  email :: string
  role :: role
  pendingConnections :: "string list option"
  successfulConnections :: "string list option"

text \<open>
  The world the server actions run in: the two Firestore collections (the health
  records as an association list, in the order a query returns them), the fault
  schedule of the store (one flag is consumed by every Firestore call, \<open>True\<close> makes
  that call reject), and the
  access table of the ledger contract, which no server action reads.
\<close>

record world =
  users :: "string \<rightharpoonup> UserDocument"
  healthRecords :: "(string \<times> document) list"
  faults :: "bool list"
  ledger_hasAccess :: "nat \<Rightarrow> string \<Rightarrow> bool"

type_synonym 'a io = "world \<Rightarrow> (exn + 'a) \<times> world"

definition take_fault :: "world \<Rightarrow> bool \<times> world" where
  "take_fault w = (case faults w of [] \<Rightarrow> (False, w) | f # fs \<Rightarrow> (f, w\<lparr>faults := fs\<rparr>))"

definition firestore_unavailable :: exn where
  "firestore_unavailable = Error ''firestore: unavailable''"

definition firestore_not_found :: exn where
  "firestore_not_found = Error ''firestore: not-found''"

text \<open>\<^verbatim>\<open>getDoc(doc(db, 'users', id))\<close>: the snapshot, \<open>None\<close> when it does not exist.\<close>

definition getDoc_user :: "string \<Rightarrow> UserDocument option io" where
  "getDoc_user userId w =
     (case take_fault w of
        (True, w') \<Rightarrow> (Inl firestore_unavailable, w')
      | (False, w') \<Rightarrow> (Inr (users w' userId), w'))"

text \<open>\<^verbatim>\<open>updateDoc\<close> on a user document; it rejects when the document does not exist.\<close>

definition updateDoc_user :: "string \<Rightarrow> (UserDocument \<Rightarrow> UserDocument) \<Rightarrow> unit io" where
  "updateDoc_user userId f w =
     (case take_fault w of
        (True, w') \<Rightarrow> (Inl firestore_unavailable, w')
      | (False, w') \<Rightarrow>
          (case users w' userId of
             None \<Rightarrow> (Inl firestore_not_found, w')
           | Some d \<Rightarrow> (Inr (), w'\<lparr>users := (users w')(userId \<mapsto> f d)\<rparr>)))"

text \<open>\<^verbatim>\<open>arrayUnion(x)\<close> and \<^verbatim>\<open>arrayRemove(x)\<close> applied to an array field that may be absent.\<close>

definition arrayUnion :: "string \<Rightarrow> string list option \<Rightarrow> string list option" where
  "arrayUnion x field =
     (case field of
        None \<Rightarrow> Some [x]
      | Some xs \<Rightarrow> Some (if x \<in> set xs then xs else xs @ [x]))"

definition arrayRemove :: "string \<Rightarrow> string list option \<Rightarrow> string list option" where
  "arrayRemove x field =
     (case field of
        None \<Rightarrow> Some []
      | Some xs \<Rightarrow> Some (filter (\<lambda>y. y \<noteq> x) xs))"

text \<open>\<^verbatim>\<open>arr?.includes(x)\<close>, read as a condition: an absent array gives \<open>False\<close>.\<close>

definition array_includes :: "string list option \<Rightarrow> string \<Rightarrow> bool" where
  "array_includes field x = (case field of None \<Rightarrow> False | Some xs \<Rightarrow> x \<in> set xs)"

subsection \<open>Connection workflow (\<^verbatim>\<open>lib/firebase/firestore.ts\<close>)\<close>

definition getUserDocument :: "string \<Rightarrow> UserDocument option io" where
  "getUserDocument userId w =
     (case getDoc_user userId w of
        (Inl e, w') \<Rightarrow> (Inl (Error ''Failed to fetch user document.''), w')
      | (Inr snap, w') \<Rightarrow> (Inr snap, w'))"

definition createConnectionRequest :: "string \<Rightarrow> string \<Rightarrow> world \<Rightarrow> action_result \<times> world" where
  "createConnectionRequest doctorId patientId w =
     (case getUserDocument doctorId w of
        (Inl e, w1) \<Rightarrow> (fail_result ''Failed to send connection request.'', w1)
      | (Inr doctorDoc, w1) \<Rightarrow>
     (case getUserDocument patientId w1 of
        (Inl e, w2) \<Rightarrow> (fail_result ''Failed to send connection request.'', w2)
      | (Inr patientDoc, w2) \<Rightarrow>
     (case (doctorDoc, patientDoc) of
        (Some dd, Some pd) \<Rightarrow>
          if array_includes (successfulConnections dd) patientId
          then (fail_result ''You are already connected with this patient.'', w2)
          else if array_includes (pendingConnections dd) patientId
          then (fail_result ''A connection request has already been sent.'', w2)
          else
            (case updateDoc_user doctorId
                    (\<lambda>d. d\<lparr>pendingConnections := arrayUnion patientId (pendingConnections d)\<rparr>) w2 of
               (Inl e, w3) \<Rightarrow> (fail_result ''Failed to send connection request.'', w3)
             | (Inr u, w3) \<Rightarrow>
            (case updateDoc_user patientId
                    (\<lambda>d. d\<lparr>pendingConnections := arrayUnion doctorId (pendingConnections d)\<rparr>) w3 of
               (Inl e, w4) \<Rightarrow> (fail_result ''Failed to send connection request.'', w4)
             | (Inr u, w4) \<Rightarrow> (ok_result, w4)))
      | _ \<Rightarrow> (fail_result ''Doctor or patient not found.'', w2))))"

subsection \<open>JSON values and the platform primitives\<close>

text \<open>
  The values \<^verbatim>\<open>JSON.stringify\<close> writes and \<^verbatim>\<open>JSON.parse\<close> returns. Numbers are
  kept to the integers. A JavaScript object whose property is \<^verbatim>\<open>undefined\<close> is
  serialised without that property, so an object under construction is given here
  directly by the properties that are present.
\<close>

datatype json =
    JNull
  | JBool bool
  | JNum int
  | JStr string
  | JArr "json list"
  | JObj "(string \<times> json) list"

text \<open>
  What the runtime supplies and the repository only calls: the process environment,
  Node's \<^verbatim>\<open>Buffer\<close> base64 codec, \<^verbatim>\<open>JSON\<close>, \<^verbatim>\<open>TextEncoder\<close> and
  \<^verbatim>\<open>TextDecoder\<close>, the \<^verbatim>\<open>Date\<close> string parser and WebCrypto's AES-GCM
  (key, nonce, data). Decryption rejects when the tag does not verify.
\<close>

record platform =
  env_ENCRYPTION_KEY :: "string option"
  env_PINATA_GATEWAY_SUBDOMAIN :: "string option"
  base64_encode :: "bytes \<Rightarrow> string"
  base64_decode :: "string \<Rightarrow> bytes"
  json_stringify :: "json \<Rightarrow> string"
  json_parse :: "string \<Rightarrow> exn + json"
  utf8_encode :: "string \<Rightarrow> bytes"
  utf8_decode :: "bytes \<Rightarrow> string"
  date_parse :: "string \<Rightarrow> int option"
  aes_gcm_encrypt :: "bytes \<Rightarrow> bytes \<Rightarrow> bytes \<Rightarrow> bytes"
  aes_gcm_decrypt :: "bytes \<Rightarrow> bytes \<Rightarrow> bytes \<Rightarrow> exn + bytes"

subsection \<open>Application-record cipher (\<^verbatim>\<open>lib/crypto.ts\<close>)\<close>

definition ALGORITHM :: string where
  "ALGORITHM = ''aes-256-gcm''"

definition VERSION :: nat where
  "VERSION = 1"

definition getCryptoKey :: "platform \<Rightarrow> exn + bytes" where
  "getCryptoKey p =
     (case env_ENCRYPTION_KEY p of
        None \<Rightarrow> Inl (Error ''ENCRYPTION_KEY env var is required (base64-encoded 32 bytes).'')
      | Some keyB64 \<Rightarrow>
          if keyB64 = [] then Inl (Error ''ENCRYPTION_KEY env var is required (base64-encoded 32 bytes).'')
          else let raw = base64_decode p keyB64 in
            if length raw \<noteq> 32 then Inl (Error ''ENCRYPTION_KEY must decode to 32 bytes for AES-256-GCM.'')
            else Inr raw)"

text \<open>The argument \<open>iv\<close> is the outcome of \<^verbatim>\<open>crypto.getRandomValues(new Uint8Array(12))\<close>.\<close>

definition encryptObject :: "platform \<Rightarrow> bytes \<Rightarrow> json \<Rightarrow> exn + EncryptedBlob" where
  "encryptObject p iv_rand data =
     (case getCryptoKey p of
        Inl e \<Rightarrow> Inl e
      | Inr key \<Rightarrow>
          let plaintext = utf8_encode p (json_stringify p data);
              ct = aes_gcm_encrypt p key iv_rand plaintext
          in Inr \<lparr>eb_ciphertext = base64_encode p ct, eb_iv = base64_encode p iv_rand,
                   eb_alg = ALGORITHM, eb_v = VERSION\<rparr>)"

definition decryptObject :: "platform \<Rightarrow> EncryptedBlob \<Rightarrow> exn + json" where
  "decryptObject p blob =
     (if eb_alg blob \<noteq> ALGORITHM then Inl (Error ''Unsupported or missing encryption algorithm.'')
      else case getCryptoKey p of
        Inl e \<Rightarrow> Inl e
      | Inr key \<Rightarrow>
          (case aes_gcm_decrypt p key (base64_decode p (eb_iv blob)) (base64_decode p (eb_ciphertext blob)) of
             Inl e \<Rightarrow> Inl e
           | Inr plaintext \<Rightarrow> json_parse p (utf8_decode p plaintext)))"

subsection \<open>Health records (\<^verbatim>\<open>lib/firebase/firestore.ts\<close>)\<close>

text \<open>\<^verbatim>\<open>Diagnosis\<close> without \<^verbatim>\<open>createdAt\<close>, and the form's part of it.\<close>

record DiagnosisData =
  diagnosisText :: string
  treatmentPlan :: string
  recommendations :: string

record Diagnosis = DiagnosisData +
  dg_doctorId :: string
  dg_doctorEmail :: string

text \<open>The \<^verbatim>\<open>recordData\<close> argument of \<^verbatim>\<open>addHealthRecord\<close>; \<open>rd_date\<close> is the instant in ms.\<close>

record RecordData =
  rd_type :: string
  rd_date :: int
  rd_title :: string
  rd_content :: string
  rd_bloodPressure :: "string option"
  rd_pulseRate :: "int option"
  rd_diagnosis :: "json option"
  rd_attachmentUrl :: "string option"
  rd_attachmentCid :: "string option"
  rd_attachmentEncryptionKey :: "string option"
  rd_attachmentEncryptionIv :: "string option"

text \<open>
  The \<^verbatim>\<open>HealthRecord\<close> handed to callers. \<open>hr_date\<close> and \<open>hr_createdAt\<close> stand for
  the ISO strings the code returns and hold the instant (ms) the string denotes. The
  plaintext metadata is whatever the document holds; the decrypted members are whatever
  the payload holds.
\<close>

record HealthRecord =
  hr_id :: string
  hr_userId :: "fvalue option"
  hr_type :: "fvalue option"
  hr_title :: json
  hr_content :: json
  hr_date :: int
  hr_createdAt :: int
  hr_bloodPressure :: "json option"
  hr_pulseRate :: "json option"
  hr_diagnosis :: "json option"
  hr_attachmentUrl :: "json option"
  hr_attachmentCid :: "json option"
  hr_attachmentEncryptionKey :: "json option"
  hr_attachmentEncryptionIv :: "json option"

definition opt_prop :: "string \<Rightarrow> ('a \<Rightarrow> json) \<Rightarrow> 'a option \<Rightarrow> (string \<times> json) list" where
  "opt_prop k f x = (case x of None \<Rightarrow> [] | Some y \<Rightarrow> [(k, f y)])"

text \<open>The object \<^verbatim>\<open>sensitivePayload\<close> of \<^verbatim>\<open>addHealthRecord\<close>.\<close>

definition sensitivePayload :: "RecordData \<Rightarrow> json" where
  "sensitivePayload rd = JObj
     ([(''title'', JStr (rd_title rd)), (''content'', JStr (rd_content rd))]
      @ opt_prop ''bloodPressure'' JStr (rd_bloodPressure rd)
      @ opt_prop ''pulseRate'' JNum (rd_pulseRate rd)
      @ opt_prop ''diagnosis'' (\<lambda>d. d) (rd_diagnosis rd)
      @ opt_prop ''attachmentUrl'' JStr (rd_attachmentUrl rd)
      @ opt_prop ''attachmentCid'' JStr (rd_attachmentCid rd)
      @ opt_prop ''attachmentEncryptionKey'' JStr (rd_attachmentEncryptionKey rd)
      @ opt_prop ''attachmentEncryptionIv'' JStr (rd_attachmentEncryptionIv rd))"

text \<open>
  \<^verbatim>\<open>addDoc(collection(db, 'healthRecords'), data)\<close>; \<open>newId\<close> is the identifier the
  client library draws for the new document.
\<close>

definition addDoc_record :: "string \<Rightarrow> document \<Rightarrow> string io" where
  "addDoc_record newId data w =
     (case take_fault w of
        (True, w') \<Rightarrow> (Inl firestore_unavailable, w')
      | (False, w') \<Rightarrow> (Inr newId, w'\<lparr>healthRecords := AList.update newId data (healthRecords w')\<rparr>))"

definition getDoc_record :: "string \<Rightarrow> document option io" where
  "getDoc_record recordId w =
     (case take_fault w of
        (True, w') \<Rightarrow> (Inl firestore_unavailable, w')
      | (False, w') \<Rightarrow> (Inr (map_of (healthRecords w') recordId), w'))"

text \<open>\<^verbatim>\<open>updateDoc(recordRef, fields)\<close>: the given fields are overwritten, the rest kept.\<close>

definition updateDoc_record :: "string \<Rightarrow> document \<Rightarrow> unit io" where
  "updateDoc_record recordId upd w =
     (case take_fault w of
        (True, w') \<Rightarrow> (Inl firestore_unavailable, w')
      | (False, w') \<Rightarrow>
          (case map_of (healthRecords w') recordId of
             None \<Rightarrow> (Inl firestore_not_found, w')
           | Some d \<Rightarrow>
               (Inr (), w'\<lparr>healthRecords := AList.update recordId (d ++ upd) (healthRecords w')\<rparr>)))"

text \<open>
  \<^verbatim>\<open>Timestamp.fromDate(date)\<close> for a date given by its instant in ms: the client
  library splits it into whole seconds and a remainder and refuses seconds outside the
  years 1 to 9999.
\<close>

definition MIN_SECONDS :: int where
  "MIN_SECONDS = - 62135596800"

definition MAX_SECONDS :: int where
  "MAX_SECONDS = 253402300800"

definition Timestamp_fromDate :: "int \<Rightarrow> exn + fvalue" where
  "Timestamp_fromDate ms =
     (let seconds = ms div 1000 in
      if seconds < MIN_SECONDS \<or> MAX_SECONDS \<le> seconds
      then Inl (Error ''Timestamp seconds out of range'')
      else Inr (FTimestamp ms))"

text \<open>
  \<open>iv_rand\<close> is the nonce drawn by \<^verbatim>\<open>encryptObject\<close>, \<open>now\<close> the value the server
  puts for \<^verbatim>\<open>serverTimestamp()\<close>. The document is built, and so the date converted,
  after the payload is encrypted and before the store is called.
\<close>

definition addHealthRecord ::
  "platform \<Rightarrow> bytes \<Rightarrow> string \<Rightarrow> int \<Rightarrow> string \<Rightarrow> RecordData \<Rightarrow> string io" where
  "addHealthRecord p iv_rand newId now userId recordData w =
     (case encryptObject p iv_rand (sensitivePayload recordData) of
        Inl e \<Rightarrow> (Inl (Error ''Failed to add health record.''), w)
      | Inr encryptedData \<Rightarrow>
          (case Timestamp_fromDate (rd_date recordData) of
             Inl e \<Rightarrow> (Inl (Error ''Failed to add health record.''), w)
           | Inr stamp \<Rightarrow>
               (case addDoc_record newId
                       [''userId'' \<mapsto> FString userId,
                        ''type'' \<mapsto> FString (rd_type recordData),
                        ''date'' \<mapsto> stamp,
                        ''createdAt'' \<mapsto> FTimestamp now,
                        ''encryptedData'' \<mapsto> FBlob encryptedData] w of
                  (Inl e, w') \<Rightarrow> (Inl (Error ''Failed to add health record.''), w')
                | (Inr docId, w') \<Rightarrow> (Inr docId, w'))))"

text \<open>Decimal rendering of a number, as a template literal or a property key gives it.\<close>

fun show_nat :: "nat \<Rightarrow> string" where
  "show_nat n =
     (if n < 10 then [char_of (48 + n)]
      else show_nat (n div 10) @ [char_of (48 + n mod 10)])"

declare show_nat.simps [simp del]

text \<open>
  \<^verbatim>\<open>getDate\<close> inside \<^verbatim>\<open>convertRecordTimestamps\<close>: a falsy field gives null, a
  \<^verbatim>\<open>Timestamp\<close> its date, anything else goes through the \<^verbatim>\<open>Date\<close> constructor
  (an object that is no timestamp makes an invalid date).
\<close>

definition getDate :: "platform \<Rightarrow> fvalue option \<Rightarrow> int option" where
  "getDate p ts =
     (case ts of
        None \<Rightarrow> None
      | Some FNull \<Rightarrow> None
      | Some (FTimestamp t) \<Rightarrow> Some t
      | Some (FString s) \<Rightarrow> (if s = [] then None else date_parse p s)
      | Some (FBlob b) \<Rightarrow> None)"

text \<open>
  Reading one of the payload's members off the decrypted value, when that value is not
  null: only an object has members of these names.
\<close>

fun member :: "json \<Rightarrow> string \<Rightarrow> json option" where
  "member (JObj kvs) k = map_of kvs k"
| "member j k = None"

text \<open>\<^verbatim>\<open>x ?? ''\<close>.\<close>

definition or_empty :: "json option \<Rightarrow> json" where
  "or_empty x = (case x of None \<Rightarrow> JStr [] | Some JNull \<Rightarrow> JStr [] | Some y \<Rightarrow> y)"

text \<open>JavaScript truthiness of a document field.\<close>

definition truthy :: "fvalue option \<Rightarrow> bool" where
  "truthy x =
     (case x of
        None \<Rightarrow> False
      | Some FNull \<Rightarrow> False
      | Some (FString s) \<Rightarrow> s \<noteq> []
      | Some y \<Rightarrow> True)"

text \<open>
  \<^verbatim>\<open>decryptObject(data.encryptedData as EncryptedBlob)\<close>: a field that is no blob has
  no \<^verbatim>\<open>alg\<close> member and is rejected by the algorithm check.
\<close>

definition decrypt_field :: "platform \<Rightarrow> fvalue option \<Rightarrow> exn + json" where
  "decrypt_field p x =
     (case x of
        Some (FBlob b) \<Rightarrow> decryptObject p b
      | y \<Rightarrow> Inl (Error ''Unsupported or missing encryption algorithm.''))"

text \<open>
  The block \<^verbatim>\<open>let decrypted = {}; try { if (data.encryptedData) decrypted = await
  decryptObject(...) } catch (e) { console.error(...) }\<close> of both readers.
\<close>

definition decrypted_or_empty :: "platform \<Rightarrow> document \<Rightarrow> json" where
  "decrypted_or_empty p data =
     (if truthy (data ''encryptedData'')
      then (case decrypt_field p (data ''encryptedData'') of
              Inl e \<Rightarrow> JObj []
            | Inr j \<Rightarrow> j)
      else JObj [])"

text \<open>
  The object literal both readers build. Reading a member of \<^verbatim>\<open>null\<close> throws a
  \<^verbatim>\<open>TypeError\<close>; \<open>now\<close> is \<^verbatim>\<open>new Date()\<close>, used when a date field is unusable.
\<close>

definition build_record :: "platform \<Rightarrow> int \<Rightarrow> string \<Rightarrow> document \<Rightarrow> json \<Rightarrow> exn + HealthRecord" where
  "build_record p now recordId data decrypted =
     (if decrypted = JNull then Inl (Error ''TypeError: Cannot read properties of null'')
      else Inr
        \<lparr>hr_id = recordId,
         hr_userId = data ''userId'',
         hr_type = data ''type'',
         hr_title = or_empty (member decrypted ''title''),
         hr_content = or_empty (member decrypted ''content''),
         hr_date = (case getDate p (data ''date'') of Some d \<Rightarrow> d | None \<Rightarrow> now),
         hr_createdAt = (case getDate p (data ''createdAt'') of Some d \<Rightarrow> d | None \<Rightarrow> now),
         hr_bloodPressure = member decrypted ''bloodPressure'',
         hr_pulseRate = member decrypted ''pulseRate'',
         hr_diagnosis = member decrypted ''diagnosis'',
         hr_attachmentUrl = member decrypted ''attachmentUrl'',
         hr_attachmentCid = member decrypted ''attachmentCid'',
         hr_attachmentEncryptionKey = member decrypted ''attachmentEncryptionKey'',
         hr_attachmentEncryptionIv = member decrypted ''attachmentEncryptionIv''\<rparr>)"

definition read_record :: "platform \<Rightarrow> int \<Rightarrow> string \<Rightarrow> document \<Rightarrow> exn + HealthRecord" where
  "read_record p now recordId data = build_record p now recordId data (decrypted_or_empty p data)"

definition getHealthRecord :: "platform \<Rightarrow> int \<Rightarrow> string \<Rightarrow> HealthRecord option io" where
  "getHealthRecord p now recordId w =
     (case getDoc_record recordId w of
        (Inl e, w') \<Rightarrow> (Inl (Error ''Failed to fetch health record.''), w')
      | (Inr None, w') \<Rightarrow> (Inr None, w')
      | (Inr (Some data), w') \<Rightarrow>
          (case read_record p now recordId data of
             Inl e \<Rightarrow> (Inl (Error ''Failed to fetch health record.''), w')
           | Inr r \<Rightarrow> (Inr (Some r), w')))"

text \<open>\<^verbatim>\<open>getDocs(query(collection, where('userId', '==', userId)))\<close>.\<close>

definition getDocs_by_user :: "string \<Rightarrow> (string \<times> document) list io" where
  "getDocs_by_user userId w =
     (case take_fault w of
        (True, w') \<Rightarrow> (Inl firestore_unavailable, w')
      | (False, w') \<Rightarrow>
          (Inr (filter (\<lambda>(k, d). d ''userId'' = Some (FString userId)) (healthRecords w')), w'))"

text \<open>\<^verbatim>\<open>Promise.all\<close>: all results, or the first rejection.\<close>

fun promise_all :: "(exn + 'a) list \<Rightarrow> exn + 'a list" where
  "promise_all [] = Inr []"
| "promise_all (Inl e # rs) = Inl e"
| "promise_all (Inr x # rs) = (case promise_all rs of Inl e \<Rightarrow> Inl e | Inr xs \<Rightarrow> Inr (x # xs))"

text \<open>
  \<^verbatim>\<open>records.sort((a, b) => new Date(b.date).getTime() - new Date(a.date).getTime())\<close>:
  the stable sort on the instant, latest first.
\<close>

definition sort_by_date_desc :: "HealthRecord list \<Rightarrow> HealthRecord list" where
  "sort_by_date_desc records = sort_key (\<lambda>r. - hr_date r) records"

definition getHealthRecords :: "platform \<Rightarrow> int \<Rightarrow> string \<Rightarrow> HealthRecord list io" where
  "getHealthRecords p now userId w =
     (case getDocs_by_user userId w of
        (Inl e, w') \<Rightarrow> (Inl (Error ''Failed to fetch health records.''), w')
      | (Inr docs, w') \<Rightarrow>
          (case promise_all (map (\<lambda>(k, d). read_record p now k d) docs) of
             Inl e \<Rightarrow> (Inl (Error ''Failed to fetch health records.''), w')
           | Inr records \<Rightarrow> (Inr (sort_by_date_desc records), w')))"

text \<open>The own enumerable properties an object spread \<^verbatim>\<open>{...x}\<close> copies.\<close>

fun own_properties :: "json \<Rightarrow> (string \<times> json) list" where
  "own_properties (JObj kvs) = kvs"
| "own_properties (JArr xs) = zip (map show_nat [0..<length xs]) xs"
| "own_properties (JStr s) = zip (map show_nat [0..<length s]) (map (\<lambda>c. JStr [c]) s)"
| "own_properties j = []"

text \<open>\<^verbatim>\<open>{ ...diagnosis, createdAt: new Date().toISOString() }\<close>; \<open>nowIso\<close> is that string.\<close>

definition diagnosis_json :: "Diagnosis \<Rightarrow> string \<Rightarrow> json" where
  "diagnosis_json d nowIso = JObj
     [(''diagnosisText'', JStr (diagnosisText d)),
      (''treatmentPlan'', JStr (treatmentPlan d)),
      (''recommendations'', JStr (recommendations d)),
      (''doctorId'', JStr (dg_doctorId d)),
      (''doctorEmail'', JStr (dg_doctorEmail d)),
      (''createdAt'', JStr nowIso)]"

text \<open>
  \<^verbatim>\<open>addDiagnosisToRecord\<close> of \<^verbatim>\<open>firestore.ts\<close>, under the name \<^verbatim>\<open>actions.ts\<close>
  imports it by. Here a failed decryption is not caught on its own: it reaches the
  function's handler.
\<close>

definition addDiagnosis ::
  "platform \<Rightarrow> bytes \<Rightarrow> string \<Rightarrow> string \<Rightarrow> Diagnosis \<Rightarrow> world \<Rightarrow> action_result \<times> world" where
  "addDiagnosis p iv_rand nowIso recordId diagnosis w =
     (case getDoc_record recordId w of
        (Inl e, w1) \<Rightarrow> (fail_result ''Failed to add diagnosis.'', w1)
      | (Inr None, w1) \<Rightarrow> (fail_result ''Record not found.'', w1)
      | (Inr (Some data), w1) \<Rightarrow>
          (case (if truthy (data ''encryptedData'') then decrypt_field p (data ''encryptedData'')
                 else Inr (JObj [])) of
             Inl e \<Rightarrow> (fail_result ''Failed to add diagnosis.'', w1)
           | Inr decrypted \<Rightarrow>
               let updatedPayload =
                     JObj (AList.update ''diagnosis'' (diagnosis_json diagnosis nowIso)
                             (own_properties decrypted))
               in (case encryptObject p iv_rand updatedPayload of
                     Inl e \<Rightarrow> (fail_result ''Failed to add diagnosis.'', w1)
                   | Inr encryptedData \<Rightarrow>
                       (case updateDoc_record recordId [''encryptedData'' \<mapsto> FBlob encryptedData] w1 of
                          (Inl e, w2) \<Rightarrow> (fail_result ''Failed to add diagnosis.'', w2)
                        | (Inr u, w2) \<Rightarrow> (ok_result, w2)))))"

subsection \<open>Server actions (\<^verbatim>\<open>lib/actions.ts\<close>)\<close>

text \<open>\<^verbatim>\<open>connections?.includes(record.userId)\<close> with whatever the document holds as owner.\<close>

definition includes_value :: "string list option \<Rightarrow> fvalue option \<Rightarrow> bool" where
  "includes_value field x =
     (case x of Some (FString s) \<Rightarrow> array_includes field s | y \<Rightarrow> False)"

definition getPatientRecordForDoctor :: "platform \<Rightarrow> int \<Rightarrow> string \<Rightarrow> string \<Rightarrow> HealthRecord io" where
  "getPatientRecordForDoctor p now doctorId recordId w =
     (case getHealthRecord p now recordId w of
        (Inl e, w1) \<Rightarrow> (Inl e, w1)
      | (Inr None, w1) \<Rightarrow> (Inl (Error ''Record not found.''), w1)
      | (Inr (Some record), w1) \<Rightarrow>
          (case getUserDocument doctorId w1 of
             (Inl e, w2) \<Rightarrow> (Inl e, w2)
           | (Inr None, w2) \<Rightarrow> (Inl (Error ''You do not have permission to view this record.''), w2)
           | (Inr (Some doctorDoc), w2) \<Rightarrow>
               if \<not> includes_value (successfulConnections doctorDoc) (hr_userId record)
               then (Inl (Error ''You do not have permission to view this record.''), w2)
               else (Inr record, w2)))"

text \<open>
  \<^verbatim>\<open>addDiagnosisToRecord\<close> of \<^verbatim>\<open>actions.ts\<close>. It returns a result object on the
  paths it handles; a rejection of one of its two reads is not caught and leaves as an
  exception. The calls of \<^verbatim>\<open>revalidatePath\<close> touch the page cache only.
\<close>

definition addDiagnosisToRecord ::
  "platform \<Rightarrow> int \<Rightarrow> bytes \<Rightarrow> string \<Rightarrow> string \<Rightarrow> string \<Rightarrow> DiagnosisData \<Rightarrow> action_result io" where
  "addDiagnosisToRecord p now iv_rand nowIso doctorId recordId diagnosisData w =
     (case getHealthRecord p now recordId w of
        (Inl e, w1) \<Rightarrow> (Inl e, w1)
      | (Inr None, w1) \<Rightarrow> (Inr (fail_result ''Record not found.''), w1)
      | (Inr (Some record), w1) \<Rightarrow>
          (case getUserDocument doctorId w1 of
             (Inl e, w2) \<Rightarrow> (Inl e, w2)
           | (Inr None, w2) \<Rightarrow> (Inr (fail_result ''Doctor not found.''), w2)
           | (Inr (Some doctor), w2) \<Rightarrow>
               if \<not> includes_value (successfulConnections doctor) (hr_userId record)
               then (Inr (fail_result ''You are not connected with this patient.''), w2)
               else
                 (case addDiagnosis p iv_rand nowIso recordId
                         (DiagnosisData.extend diagnosisData
                            (Diagnosis.fields (uid doctor) (email doctor))) w2 of
                    (result, w3) \<Rightarrow> (Inr result, w3))))"

definition getPatientRecordsForDoctor :: "platform \<Rightarrow> int \<Rightarrow> string \<Rightarrow> string \<Rightarrow> HealthRecord list io" where
  "getPatientRecordsForDoctor p now doctorId patientId w =
     (if doctorId = [] then (Inl (Error ''Authentication error. You must be logged in.''), w)
      else case getUserDocument doctorId w of
             (Inl e, w1) \<Rightarrow> (Inl e, w1)
           | (Inr None, w1) \<Rightarrow> (Inl (Error ''You do not have permission to view these records.''), w1)
           | (Inr (Some doctorDoc), w1) \<Rightarrow>
               if \<not> array_includes (successfulConnections doctorDoc) patientId
               then (Inl (Error ''You do not have permission to view these records.''), w1)
               else getHealthRecords p now patientId w1)"

definition requestPatientConnection :: "string \<Rightarrow> string \<Rightarrow> world \<Rightarrow> action_result \<times> world" where
  "requestPatientConnection doctorId patientId w = createConnectionRequest doctorId patientId w"

subsection \<open>Content-addressed storage client (\<^verbatim>\<open>lib/pinata.ts\<close>)\<close>

definition DEFAULT_GATEWAY :: string where
  "DEFAULT_GATEWAY = ''https://gateway.pinata.cloud/ipfs''"

text \<open>
  \<^verbatim>\<open>String.prototype.trim\<close> on the characters a \<open>char\<close> can hold: tab, line feed,
  vertical tab, form feed, carriage return, space and the no-break space.
\<close>

definition is_space :: "char \<Rightarrow> bool" where
  "is_space c = (of_char c \<in> {9, 10, 11, 12, 13, 32, 160 :: nat})"

definition trim :: "string \<Rightarrow> string" where
  "trim s = rev (dropWhile is_space (rev (dropWhile is_space s)))"

definition getGatewayBase :: "platform \<Rightarrow> string" where
  "getGatewayBase p =
     (case env_PINATA_GATEWAY_SUBDOMAIN p of
        None \<Rightarrow> DEFAULT_GATEWAY
      | Some raw \<Rightarrow>
          let subdomain = trim raw in
          if subdomain = [] then DEFAULT_GATEWAY
          else ''https://'' @ subdomain @ ''.mypinata.cloud/ipfs'')"

text \<open>The array \<^verbatim>\<open>gateways\<close> of \<^verbatim>\<open>getEncryptedFile\<close>.\<close>

definition gateways :: "platform \<Rightarrow> string list" where
  "gateways p =
     [getGatewayBase p, ''https://ipfs.io/ipfs'', ''https://gateway.ipfs.io/ipfs'',
      ''https://dweb.link/ipfs'']"

text \<open>
  An HTTP exchange. \<^verbatim>\<open>fetch(url, {signal})\<close> either rejects (network error, or the
  abort the timer fires) or resolves with a response, whose body may in turn fail to
  read. The network is a function of the URL and of the delay (ms) after which the
  request is aborted.
\<close>

record response =
  res_status :: nat
  res_statusText :: string
  res_body :: "exn + bytes"

datatype fetch_outcome = Rejected exn | Responded response

type_synonym fetcher = "string \<Rightarrow> nat \<Rightarrow> fetch_outcome"

definition res_ok :: "response \<Rightarrow> bool" where
  "res_ok res = (200 \<le> res_status res \<and> res_status res \<le> 299)"

definition TIMEOUT_MS :: nat where
  "TIMEOUT_MS = 30000"

text \<open>The body of the \<^verbatim>\<open>try\<close> block for one gateway.\<close>

definition try_gateway :: "platform \<Rightarrow> fetcher \<Rightarrow> string \<Rightarrow> string \<Rightarrow> exn + bytes" where
  "try_gateway p fetch cid gatewayBase =
     (case fetch (gatewayBase @ ''/'' @ cid) TIMEOUT_MS of
        Rejected e \<Rightarrow> Inl e
      | Responded res \<Rightarrow>
          if \<not> res_ok res
          then let text = (case res_body res of Inl e \<Rightarrow> [] | Inr b \<Rightarrow> utf8_decode p b)
               in Inl (Error (''Gateway '' @ gatewayBase @ '' returned '' @ show_nat (res_status res)
                              @ '': '' @ (if text = [] then res_statusText res else text)))
          else (case res_body res of
                  Inl e \<Rightarrow> Inl e
                | Inr arrayBuffer \<Rightarrow>
                    if length arrayBuffer = 0 then Inl (Error ''Gateway returned empty response'')
                    else Inr arrayBuffer))"

text \<open>
  The \<^verbatim>\<open>for (const gatewayBase of gateways)\<close> loop with its variable
  \<^verbatim>\<open>lastError\<close>; beside the outcome it yields the requests it issued, in order, each
  as the URL and the abort delay.
\<close>

fun gateway_loop ::
  "platform \<Rightarrow> fetcher \<Rightarrow> string \<Rightarrow> string list \<Rightarrow> exn option
     \<Rightarrow> (exn option + bytes) \<times> (string \<times> nat) list" where
  "gateway_loop p fetch cid [] lastError = (Inl lastError, [])"
| "gateway_loop p fetch cid (gatewayBase # rest) lastError =
     (case try_gateway p fetch cid gatewayBase of
        Inr arrayBuffer \<Rightarrow> (Inr arrayBuffer, [(gatewayBase @ ''/'' @ cid, TIMEOUT_MS)])
      | Inl err \<Rightarrow>
          (case gateway_loop p fetch cid rest (Some err) of
             (r, reqs) \<Rightarrow> (r, (gatewayBase @ ''/'' @ cid, TIMEOUT_MS) # reqs)))"

text \<open>\<^verbatim>\<open>lastError?.message || 'Unknown error'\<close>.\<close>

definition last_message :: "exn option \<Rightarrow> string" where
  "last_message lastError =
     (case lastError of
        None \<Rightarrow> ''Unknown error''
      | Some e \<Rightarrow> if message e = [] then ''Unknown error'' else message e)"

definition all_gateways_failed :: "exn option \<Rightarrow> string \<Rightarrow> exn" where
  "all_gateways_failed lastError cid =
     Error (''Failed to fetch file from all IPFS gateways. Last error: '' @ last_message lastError
            @ ''. '' @ ''CID: '' @ cid @ ''. Please verify the file is pinned in Pinata.'')"

definition getEncryptedFile ::
  "platform \<Rightarrow> fetcher \<Rightarrow> string \<Rightarrow> (exn + bytes) \<times> (string \<times> nat) list" where
  "getEncryptedFile p fetch cid =
     (if cid = [] then (Inl (Error ''Invalid CID''), [])
      else case gateway_loop p fetch cid (gateways p) None of
             (Inr arrayBuffer, reqs) \<Rightarrow> (Inr arrayBuffer, reqs)
           | (Inl lastError, reqs) \<Rightarrow> (Inl (all_gateways_failed lastError cid), reqs))"

subsection \<open>Attachment viewer (\<^verbatim>\<open>components/dashboard/PinataFileViewer.tsx\<close>)\<close>

text \<open>
  What the browser supplies: \<^verbatim>\<open>atob\<close>, which throws on text that is not base64,
  \<^verbatim>\<open>window.crypto.subtle\<close> if there is one (import of the raw key followed by AES-GCM
  decryption, taking key, nonce and data), and its SHA-256 digest in hexadecimal.
\<close>

record browser =
  atob :: "string \<Rightarrow> exn + bytes"
  subtle :: "(bytes \<Rightarrow> bytes \<Rightarrow> bytes \<Rightarrow> exn + bytes) option"
  sha256_hex :: "bytes \<Rightarrow> string"

record viewer_props =
  vp_cid :: string
  vp_fileName :: string
  vp_mimeType :: string
  vp_encryptionKey :: "string option"
  vp_iv :: "string option"

text \<open>What a click ends in: the error shown, the blob opened in a tab, or the file saved.\<close>

datatype view_outcome =
    ShowError string
  | Opened bytes string
  | Downloaded bytes string

definition decryptFile :: "browser \<Rightarrow> bytes \<Rightarrow> string \<Rightarrow> string \<Rightarrow> exn + bytes" where
  "decryptFile br encryptedData keyBase64 ivBase64 =
     (case subtle br of
        None \<Rightarrow> Inl (Error ''Web Crypto API not available. Please use HTTPS or localhost.'')
      | Some decrypt \<Rightarrow>
          (case atob br keyBase64 of
             Inl e \<Rightarrow> Inl e
           | Inr keyBytes \<Rightarrow>
               (case atob br ivBase64 of
                  Inl e \<Rightarrow> Inl e
                | Inr ivBytes \<Rightarrow> decrypt keyBytes ivBytes encryptedData)))"

text \<open>\<^verbatim>\<open>haystack.includes(needle)\<close> on strings.\<close>

fun str_includes :: "string \<Rightarrow> string \<Rightarrow> bool" where
  "str_includes [] needle = (needle = [])"
| "str_includes (c # cs) needle = (prefix needle (c # cs) \<or> str_includes cs needle)"

text \<open>The outer \<^verbatim>\<open>catch\<close> of both handlers; \<open>fallback\<close> is the handler's default text.\<close>

definition fetch_error_text :: "string \<Rightarrow> string \<Rightarrow> exn \<Rightarrow> string" where
  "fetch_error_text fallback cid err =
     (let errorMessage = (if message err = [] then fallback else message err) in
      if str_includes errorMessage ''Failed to fetch''
      then ''Network error: Could not fetch file from IPFS. '' @
           ''This might be due to:\<newline>'' @
           ''1. File not pinned in Pinata\<newline>'' @
           ''2. Network connectivity issues\<newline>'' @
           ''3. CORS restrictions\<newline>\<newline>'' @
           ''CID: '' @ take 20 cid @ ''...\<newline>'' @
           ''Try checking Pinata dashboard to verify the file is pinned.''
      else errorMessage)"

text \<open>\<^verbatim>\<open>encryptionKey && iv\<close>: both given and neither empty.\<close>

definition keys_available :: "viewer_props \<Rightarrow> (string \<times> string) option" where
  "keys_available props =
     (case (vp_encryptionKey props, vp_iv props) of
        (Some k, Some n) \<Rightarrow> if k \<noteq> [] \<and> n \<noteq> [] then Some (k, n) else None
      | other \<Rightarrow> None)"

definition handleView :: "platform \<Rightarrow> browser \<Rightarrow> fetcher \<Rightarrow> viewer_props \<Rightarrow> view_outcome" where
  "handleView p br fetch props =
     (if vp_cid props = [] then ShowError ''No CID provided''
      else case fst (getEncryptedFile p fetch (vp_cid props)) of
             Inl err \<Rightarrow> ShowError (fetch_error_text ''Failed to fetch file from Pinata'' (vp_cid props) err)
           | Inr encryptedData \<Rightarrow>
               (case keys_available props of
                  None \<Rightarrow> ShowError ''Encryption keys not available. Cannot decrypt file.''
                | Some (k, n) \<Rightarrow>
                    (case decryptFile br encryptedData k n of
                       Inl decryptErr \<Rightarrow> ShowError (''Decryption failed: '' @ message decryptErr)
                     | Inr decryptedData \<Rightarrow> Opened decryptedData (vp_mimeType props))))"

definition handleDownload :: "platform \<Rightarrow> browser \<Rightarrow> fetcher \<Rightarrow> viewer_props \<Rightarrow> view_outcome" where
  "handleDownload p br fetch props =
     (if vp_cid props = [] then ShowError ''No CID provided''
      else case fst (getEncryptedFile p fetch (vp_cid props)) of
             Inl err \<Rightarrow> ShowError (fetch_error_text ''Failed to download file'' (vp_cid props) err)
           | Inr encryptedData \<Rightarrow>
               (case keys_available props of
                  None \<Rightarrow> ShowError ''Encryption keys not available. Cannot decrypt file.''
                | Some (k, n) \<Rightarrow>
                    (case decryptFile br encryptedData k n of
                       Inl decryptErr \<Rightarrow> ShowError (''Decryption failed: '' @ message decryptErr)
                     | Inr decryptedData \<Rightarrow>
                         Downloaded decryptedData
                           (if vp_fileName props = [] then ''attachment'' else vp_fileName props))))"

subsection \<open>Access registry client (\<^verbatim>\<open>lib/contract.ts\<close>)\<close>

text \<open>
  The outcome of \<^verbatim>\<open>contract.interface.parseLog(log)\<close>: it throws, returns null, or
  returns the event's name and arguments (the first argument is all the code reads).
\<close>

datatype parse_outcome = ParseThrows | ParseNull | ParseOk string "nat list"

record 'l receipt =
  rc_hash :: string
  rc_logs :: "'l list"

text \<open>
  The ledger as the client meets it: the configured contract address, the wallet's
  answer when a signer is requested, the \<^verbatim>\<open>createFile\<close> transaction (its submission
  may reject, and so may the wait for its receipt), the log parser of the contract
  interface and the \<^verbatim>\<open>getTotalFiles\<close> view.
\<close>

record 'l ledger =
  CONTRACT_ADDRESS :: string
  getMetaMaskSigner :: "exn + unit"
  createFile :: "string \<Rightarrow> string \<Rightarrow> string \<Rightarrow> nat \<Rightarrow> exn + (exn + 'l receipt)"
  parseLog :: "'l \<Rightarrow> parse_outcome"
  getTotalFiles :: "exn + nat"

definition getContractWithSigner :: "'l ledger \<Rightarrow> exn + unit" where
  "getContractWithSigner c =
     (if CONTRACT_ADDRESS c = []
      then Inl (Error ''Contract address not set. Please set NEXT_PUBLIC_CONTRACT_ADDRESS in .env.local'')
      else getMetaMaskSigner c)"

text \<open>The predicate given to \<^verbatim>\<open>receipt.logs.find\<close>; a parser that throws counts as no.\<close>

definition is_FileCreated :: "'l ledger \<Rightarrow> 'l \<Rightarrow> bool" where
  "is_FileCreated c log =
     (case parseLog c log of ParseOk name args \<Rightarrow> name = ''FileCreated'' | other \<Rightarrow> False)"

text \<open>\<^verbatim>\<open>parsed?.args[0] || BigInt(0)\<close>.\<close>

definition first_arg_or_zero :: "nat list \<Rightarrow> nat" where
  "first_arg_or_zero args = (case args of [] \<Rightarrow> 0 | a # rest \<Rightarrow> if a = 0 then 0 else a)"

record chain_file =
  txHash :: string
  fileId :: nat

definition createFileOnChain ::
  "'l ledger \<Rightarrow> string \<Rightarrow> string \<Rightarrow> string \<Rightarrow> nat \<Rightarrow> exn + chain_file" where
  "createFileOnChain c cid hash mimeType fsize =
     (case getContractWithSigner c of
        Inl e \<Rightarrow> Inl e
      | Inr contract \<Rightarrow>
     (case createFile c cid hash mimeType fsize of
        Inl e \<Rightarrow> Inl e
      | Inr tx \<Rightarrow>
     (case tx of
        Inl e \<Rightarrow> Inl e
      | Inr receipt \<Rightarrow>
          (case find (is_FileCreated c) (rc_logs receipt) of
             Some event \<Rightarrow>
               (case parseLog c event of
                  ParseThrows \<Rightarrow> Inl (Error ''parseLog'')
                | ParseNull \<Rightarrow> Inr \<lparr>txHash = rc_hash receipt, fileId = 0\<rparr>
                | ParseOk name args \<Rightarrow>
                    Inr \<lparr>txHash = rc_hash receipt, fileId = first_arg_or_zero args\<rparr>)
           | None \<Rightarrow>
               (case getTotalFiles c of
                  Inl e \<Rightarrow> Inl e
                | Inr totalFiles \<Rightarrow> Inr \<lparr>txHash = rc_hash receipt, fileId = totalFiles\<rparr>)))))"

subsection \<open>Local upload route (\<^verbatim>\<open>app/api/upload/route.ts\<close>)\<close>

text \<open>
  The server's disk: files by path, the directories that exist, the working directory
  of the process (the absolute path \<^verbatim>\<open>process.cwd()\<close> gives), and whether writes
  succeed.
\<close>

record filesystem =
  fs_files :: "(string \<times> bytes) list"
  fs_dirs :: "string list"
  fs_cwd :: string
  fs_writable :: bool

text \<open>A \<^verbatim>\<open>File\<close>: name, MIME type and content; its \<^verbatim>\<open>size\<close> is the length of the content.\<close>

record upload =
  up_name :: string
  up_type :: string
  up_bytes :: bytes

datatype form_entry = FormString string | FormFile upload

text \<open>The JSON responses of the route: an error with its status, or the stored file.\<close>

datatype upload_response =
    JsonError nat string
  | JsonOk string string string

definition MAX_FILE_SIZE :: nat where
  "MAX_FILE_SIZE = 10 * 1024 * 1024"

definition ALLOWED_MIME :: "string list" where
  "ALLOWED_MIME = [''application/pdf'', ''image/png'', ''image/jpeg'', ''image/jpg'']"

definition existsSync :: "filesystem \<Rightarrow> string \<Rightarrow> bool" where
  "existsSync fs path = (path \<in> set (fs_dirs fs) \<or> path \<in> fst ` set (fs_files fs))"

text \<open>
  \<^verbatim>\<open>path.join(dir, name)\<close> for an absolute directory and a name without a separator:
  the empty name and \<^verbatim>\<open>.\<close> give the directory itself, \<^verbatim>\<open>..\<close> its parent, and
  the root is not followed by a second separator.
\<close>

definition parent_dir :: "string \<Rightarrow> string" where
  "parent_dir dir =
     (let above = rev (tl (dropWhile (\<lambda>c. c \<noteq> CHR ''/'') (rev dir)))
      in if above = [] then ''/'' else above)"

definition path_join :: "string \<Rightarrow> string \<Rightarrow> string" where
  "path_join dir name =
     (if name = [] \<or> name = ''.'' then dir
      else if name = ''..'' then parent_dir dir
      else if dir = ''/'' then dir @ name
      else dir @ ''/'' @ name)"

text \<open>
  \<^verbatim>\<open>ensureDir\<close>: nothing when \<^verbatim>\<open>stat\<close> succeeds (on a directory or a file), else
  \<^verbatim>\<open>mkdir\<close> with \<^verbatim>\<open>recursive: true\<close>, which also makes the two directories above
  a user's directory and fails when one of them is a file.
\<close>

definition is_file :: "filesystem \<Rightarrow> string \<Rightarrow> bool" where
  "is_file fs path = (path \<in> fst ` set (fs_files fs) \<and> path \<notin> set (fs_dirs fs))"

definition ensureDir :: "filesystem \<Rightarrow> string \<Rightarrow> exn + filesystem" where
  "ensureDir fs dir =
     (if existsSync fs dir then Inr fs
      else if \<not> fs_writable fs then Inl (Error ''EACCES'')
      else if is_file fs (parent_dir dir) \<or> is_file fs (parent_dir (parent_dir dir))
      then Inl (Error ''ENOTDIR'')
      else Inr (fs\<lparr>fs_dirs := dir # parent_dir dir # parent_dir (parent_dir dir) # fs_dirs fs\<rparr>))"

text \<open>
  \<^verbatim>\<open>fs.promises.writeFile(path, buffer)\<close>: it fails on a read-only disk, on a path
  that is a directory, and when what lies above the path is no directory.
\<close>

definition writeFile :: "filesystem \<Rightarrow> string \<Rightarrow> bytes \<Rightarrow> exn + filesystem" where
  "writeFile fs path buffer =
     (if \<not> fs_writable fs \<or> path \<in> set (fs_dirs fs) \<or> parent_dir path \<notin> set (fs_dirs fs)
      then Inl (Error ''write failed'')
      else Inr (fs\<lparr>fs_files := AList.update path buffer (fs_files fs)\<rparr>))"

text \<open>The three \<^verbatim>\<open>replace\<close> calls that make \<^verbatim>\<open>safeFilename\<close>.\<close>

definition is_safe_char :: "char \<Rightarrow> bool" where
  "is_safe_char c =
     (let n = (of_char c :: nat) in
      (97 \<le> n \<and> n \<le> 122) \<or> (65 \<le> n \<and> n \<le> 90) \<or> (48 \<le> n \<and> n \<le> 57) \<or> n = 46 \<or> n = 45)"

definition replace_special :: "string \<Rightarrow> string" where
  "replace_special s = map (\<lambda>c. if is_safe_char c then c else CHR ''_'') s"

fun collapse_underscores :: "string \<Rightarrow> string" where
  "collapse_underscores (a # b # cs) =
     (if a = CHR ''_'' \<and> b = CHR ''_'' then collapse_underscores (b # cs)
      else a # collapse_underscores (b # cs))"
| "collapse_underscores cs = cs"

definition strip_underscores :: "string \<Rightarrow> string" where
  "strip_underscores s =
     (let s1 = (case s of [] \<Rightarrow> [] | c # cs \<Rightarrow> if c = CHR ''_'' then cs else c # cs)
      in if s1 \<noteq> [] \<and> last s1 = CHR ''_'' then butlast s1 else s1)"

definition safe_filename :: "string \<Rightarrow> string" where
  "safe_filename originalName = strip_underscores (collapse_underscores (replace_special originalName))"

text \<open>
  \<^verbatim>\<open>path.extname\<close> and \<^verbatim>\<open>path.basename(name, ext)\<close> of Node, on a name without a
  separator: the extension runs from the last dot, unless there is none, the dot comes
  first, or the name is \<^verbatim>\<open>..\<close>.
\<close>

definition extname :: "string \<Rightarrow> string" where
  "extname name =
     (let r = rev name;
          after = takeWhile (\<lambda>c. c \<noteq> CHR ''.'') r;
          upto = dropWhile (\<lambda>c. c \<noteq> CHR ''.'') r
      in if upto = [] \<or> tl upto = [] \<or> name = ''..'' then [] else CHR ''.'' # rev after)"

definition basename :: "string \<Rightarrow> string \<Rightarrow> string" where
  "basename name ext =
     (if ext = [] then name
      else if ext = name then []
      else if suffix ext name then take (length name - length ext) name
      else name)"

definition numbered :: "string \<Rightarrow> string \<Rightarrow> nat \<Rightarrow> string" where
  "numbered nameWithoutExt ext counter = nameWithoutExt @ ''_'' @ show_nat counter @ ext"

text \<open>
  The \<^verbatim>\<open>while (fs.existsSync(...))\<close> loop, entered once the plain name is taken: the
  first numbered name from \<open>counter\<close> on that does not exist yet.
\<close>

function next_free :: "filesystem \<Rightarrow> string \<Rightarrow> string \<Rightarrow> string \<Rightarrow> nat \<Rightarrow> string" where
  "next_free fs uploadDir nameWithoutExt ext counter =
     (if existsSync fs (path_join uploadDir (numbered nameWithoutExt ext counter))
      then next_free fs uploadDir nameWithoutExt ext (counter + 1)
      else numbered nameWithoutExt ext counter)"
  by pat_completeness auto
termination
proof (relation "measure (\<lambda>(fs, d, a, e, counter).
          card {c. counter \<le> c \<and> existsSync fs (path_join d (numbered a e c))})")
  show "wf (measure (\<lambda>(fs, d, a, e, counter).
          card {c. counter \<le> c \<and> existsSync fs (path_join d (numbered a e c))}))"
    by simp
next
  fix fs :: filesystem and d a e :: string and counter :: nat
  assume ex: "existsSync fs (path_join d (numbered a e counter))"
  let ?S = "\<lambda>k. {c. k \<le> c \<and> existsSync fs (path_join d (numbered a e c))}"
  have digit: "x = y" if "x < 10" "y < 10" "char_of (48 + x) = char_of (48 + y)" for x y :: nat
  proof -
    from that(3) have "of_char (char_of (48 + x)) = (of_char (char_of (48 + y)) :: nat)"
      by simp
    with that(1,2) show ?thesis by simp
  qed
  have nonempty: "show_nat n \<noteq> []" for n
    by (subst show_nat.simps) simp
  have decimal: "m = n" if "show_nat m = show_nat n" for m n
    using that
  proof (induction m arbitrary: n rule: less_induct)
    case (less m)
    show ?case
    proof (cases "m < 10")
      case small: True
      show ?thesis
      proof (cases "n < 10")
        case True
        with small less.prems show ?thesis
          by (simp add: show_nat.simps [of m] show_nat.simps [of n] digit)
      next
        case False
        with small less.prems nonempty [of "n div 10"] show ?thesis
          by (simp add: show_nat.simps [of m] show_nat.simps [of n])
      qed
    next
      case large: False
      show ?thesis
      proof (cases "n < 10")
        case True
        with large less.prems nonempty [of "m div 10"] show ?thesis
          by (simp add: show_nat.simps [of m] show_nat.simps [of n])
      next
        case False
        with large less.prems have front: "show_nat (m div 10) = show_nat (n div 10)"
          and unit: "char_of (48 + m mod 10) = char_of (48 + n mod 10)"
          by (simp_all add: show_nat.simps [of m] show_nat.simps [of n])
        from large have "m div 10 < m" by simp
        from less.IH [OF this front] have "m div 10 = n div 10" .
        moreover from unit have "m mod 10 = n mod 10" by (intro digit) simp_all
        ultimately show ?thesis by (metis div_mult_mod_eq)
      qed
    qed
  qed
  have plain: "numbered a e c \<noteq> [] \<and> numbered a e c \<noteq> ''.'' \<and> numbered a e c \<noteq> ''..''" for c
  proof -
    have "CHR ''_'' \<in> set (numbered a e c)" by (simp add: numbered_def)
    then show ?thesis by auto
  qed
  have "inj (\<lambda>c. path_join d (numbered a e c))"
  proof (rule injI)
    fix m n assume "path_join d (numbered a e m) = path_join d (numbered a e n)"
    with plain [of m] plain [of n] have "numbered a e m = numbered a e n"
      by (cases "d = ''/''") (simp_all add: path_join_def)
    then show "m = n" by (simp add: numbered_def decimal)
  qed
  moreover have "{c. existsSync fs (path_join d (numbered a e c))}
        = (\<lambda>c. path_join d (numbered a e c)) -` (set (fs_dirs fs) \<union> fst ` set (fs_files fs))"
    by (auto simp: existsSync_def)
  ultimately have "finite {c. existsSync fs (path_join d (numbered a e c))}"
    by (simp add: finite_vimageI)
  then have fin: "finite (?S counter)" by simp
  have "counter \<in> ?S counter" and "counter \<notin> ?S (counter + 1)" using ex by simp_all
  moreover have "?S (counter + 1) \<subseteq> ?S counter" by auto
  ultimately have "?S (counter + 1) \<subset> ?S counter" by blast
  then have "card (?S (counter + 1)) < card (?S counter)"
    using fin by (rule psubset_card_mono [rotated])
  then show "((fs, d, a, e, counter + 1), (fs, d, a, e, counter)) \<in> measure (\<lambda>(fs, d, a, e, counter).
          card {c. counter \<le> c \<and> existsSync fs (path_join d (numbered a e c))})"
    by simp
qed

declare next_free.simps [simp del]

text \<open>The choice of \<^verbatim>\<open>finalFilename\<close>: the safe name if it is free, else the loop.\<close>

definition final_filename :: "filesystem \<Rightarrow> string \<Rightarrow> string \<Rightarrow> string" where
  "final_filename fs uploadDir safeFilename =
     (let ext = extname safeFilename;
          nameWithoutExt = basename safeFilename ext
      in if existsSync fs (path_join uploadDir safeFilename)
         then next_free fs uploadDir nameWithoutExt ext 1
         else safeFilename)"

text \<open>
  The handler \<^verbatim>\<open>POST\<close>, given the two form fields it reads. The user id is joined
  to the path as one segment, which is what an account's uid is.
\<close>

definition upload_dir :: "filesystem \<Rightarrow> string \<Rightarrow> string" where
  "upload_dir fs userId = path_join (path_join (path_join (fs_cwd fs) ''public'') ''uploads'') userId"

definition POST_upload ::
  "filesystem \<Rightarrow> form_entry option \<Rightarrow> string option \<Rightarrow> upload_response \<times> filesystem" where
  "POST_upload fs fileEntry userId =
     (case userId of
        None \<Rightarrow> (JsonError 400 ''User ID is required'', fs)
      | Some u \<Rightarrow>
          if u = [] then (JsonError 400 ''User ID is required'', fs)
          else let uploadDir = upload_dir fs u in
            (case ensureDir fs uploadDir of
               Inl e \<Rightarrow> (JsonError 500 ''Upload error'', fs)
             | Inr fs1 \<Rightarrow>
                 (case fileEntry of
                    None \<Rightarrow> (JsonError 400 ''No file uploaded'', fs1)
                  | Some (FormString s) \<Rightarrow> (JsonError 400 ''No file uploaded'', fs1)
                  | Some (FormFile file) \<Rightarrow>
                      if length (up_bytes file) > MAX_FILE_SIZE
                      then (JsonError 413 ''File too large (max 10MB)'', fs1)
                      else if up_type file \<noteq> [] \<and> up_type file \<notin> set ALLOWED_MIME
                      then (JsonError 415 ''Unsupported file type'', fs1)
                      else
                        let originalName = (if up_name file = [] then ''file'' else up_name file);
                            finalFilename = final_filename fs1 uploadDir (safe_filename originalName);
                            newPath = path_join uploadDir finalFilename
                        in (case writeFile fs1 newPath (up_bytes file) of
                              Inl e \<Rightarrow> (JsonError 500 ''Could not save file'', fs1)
                            | Inr fs2 \<Rightarrow>
                                (JsonOk (''/uploads/'' @ u @ ''/'' @ finalFilename) finalFilename
                                   originalName, fs2)))))"

subsection \<open>Record form (\<^verbatim>\<open>components/dashboard/HealthRecordForm.tsx\<close>)\<close>

text \<open>The values of the form; \<open>fv_attachment\<close> is the file list of the file input.\<close>

record form_values =
  fv_type :: string
  fv_title :: string
  fv_content :: string
  fv_date :: int
  fv_bloodPressure :: "string option"
  fv_pulseRate :: "int option"
  fv_attachment :: "upload list"

definition FORM_MAX_FILE_SIZE :: nat where
  "FORM_MAX_FILE_SIZE = 5 * 1024 * 1024"

definition ACCEPTED_FILE_TYPES :: "string list" where
  "ACCEPTED_FILE_TYPES = [''image/jpeg'', ''image/png'', ''application/pdf'']"

text \<open>The schema \<^verbatim>\<open>formSchema\<close>; the form submits only values that pass it.\<close>

definition formSchema :: "form_values \<Rightarrow> bool" where
  "formSchema values =
     (fv_type values \<in> set [''prescription'', ''lab_report'', ''allergy'', ''note'']
      \<and> fv_title values \<noteq> [] \<and> fv_content values \<noteq> []
      \<and> (case fv_attachment values of
            [] \<Rightarrow> True
          | file # rest \<Rightarrow>
              length (up_bytes file) \<le> FORM_MAX_FILE_SIZE
              \<and> up_type file \<in> set ACCEPTED_FILE_TYPES))"

text \<open>A request the browser sends while the form is submitted.\<close>

datatype http_request =
    PostApiUpload upload string
  | PostApiStorageUpload bytes string string string

text \<open>
  The parts of a submission that lie outside the form: the server's disk and metadata
  store, the route \<^verbatim>\<open>/api/storage/upload\<close> with the pinning service behind it (given
  ciphertext, file name, MIME type and digest it answers with the CID and size, or
  fails), the wallet hook and the ledger.
\<close>

record 'l surroundings =
  sr_fs :: filesystem
  sr_world :: world
  sr_pin :: "bytes \<Rightarrow> string \<Rightarrow> string \<Rightarrow> string \<Rightarrow> exn + string \<times> nat"
  sr_isConnected :: bool
  sr_walletAddress :: "string option"
  sr_isSepolia :: bool
  sr_switchToSepolia :: "exn + unit"
  sr_ledger :: "'l ledger"

text \<open>
  What one submission draws or is told: the file key and nonce of
  \<^verbatim>\<open>uploadEncryptedToPinata\<close>, the nonce, document id and server time of
  \<^verbatim>\<open>addHealthRecord\<close>.
\<close>

record drawn =
  dr_fileKey :: bytes
  dr_fileIv :: bytes
  dr_recordIv :: bytes
  dr_newId :: string
  dr_now :: int

text \<open>
  The outcome of \<^verbatim>\<open>onSubmit\<close>: the requests sent in order, the titles of the toasts
  shown, the disk and the store afterwards, and the id of the record created, if any.
\<close>

record submission =
  sb_requests :: "http_request list"
  sb_toasts :: "string list"
  sb_fs :: filesystem
  sb_world :: world
  sb_record :: "string option"

text \<open>
  A file as the route receives it in a multipart body: a part whose file has no type
  is sent as \<^verbatim>\<open>application/octet-stream\<close>.
\<close>

definition as_form_part :: "upload \<Rightarrow> upload" where
  "as_form_part file =
     (if up_type file = [] then file\<lparr>up_type := ''application/octet-stream''\<rparr> else file)"

text \<open>\<^verbatim>\<open>uploadFile\<close>: the plain file goes to \<^verbatim>\<open>/api/upload\<close> with the user's id.\<close>

definition uploadFile :: "filesystem \<Rightarrow> string \<Rightarrow> upload \<Rightarrow> (exn + string) \<times> filesystem" where
  "uploadFile fs userUid file =
     (case POST_upload fs (Some (FormFile (as_form_part file))) (Some userUid) of
        (JsonError code msg, fs') \<Rightarrow>
          (Inl (Error (if msg = [] then ''File upload failed'' else msg)), fs')
      | (JsonOk url filename originalName, fs') \<Rightarrow> (Inr url, fs'))"

record pinned =
  pin_cid :: string
  pin_size :: nat
  pin_sha256 :: string
  pin_keyBase64 :: string
  pin_ivBase64 :: string

text \<open>\<^verbatim>\<open>file.type || 'application/pdf'\<close>.\<close>

definition type_or_pdf :: "upload \<Rightarrow> string" where
  "type_or_pdf file = (if up_type file = [] then ''application/pdf'' else up_type file)"

text \<open>The ciphertext \<^verbatim>\<open>uploadEncryptedToPinata\<close> makes of a file.\<close>

definition file_ciphertext :: "platform \<Rightarrow> drawn \<Rightarrow> upload \<Rightarrow> bytes" where
  "file_ciphertext p dr file = aes_gcm_encrypt p (dr_fileKey dr) (dr_fileIv dr) (up_bytes file)"

definition storage_request :: "platform \<Rightarrow> browser \<Rightarrow> drawn \<Rightarrow> upload \<Rightarrow> http_request" where
  "storage_request p br dr file =
     PostApiStorageUpload (file_ciphertext p dr file) (up_name file) (type_or_pdf file)
       (sha256_hex br (file_ciphertext p dr file))"

text \<open>
  \<^verbatim>\<open>uploadEncryptedToPinata\<close>, with the requests it sends: without
  \<^verbatim>\<open>window.crypto.subtle\<close> it throws before anything is sent.
\<close>

definition uploadEncryptedToPinata ::
  "platform \<Rightarrow> browser \<Rightarrow> 'l surroundings \<Rightarrow> drawn \<Rightarrow> upload
     \<Rightarrow> (exn + pinned) \<times> http_request list" where
  "uploadEncryptedToPinata p br sr dr file =
     (case subtle br of
        None \<Rightarrow>
          (Inl (Error (''Web Crypto API is not available in this environment. ''
                       @ ''Please use a modern browser over HTTPS.'')), [])
      | Some webcrypto \<Rightarrow>
          (let ct = file_ciphertext p dr file;
               sha256 = sha256_hex br ct
           in case sr_pin sr ct (up_name file) (type_or_pdf file) sha256 of
                Inl e \<Rightarrow> (Inl e, [storage_request p br dr file])
              | Inr (cid, sz) \<Rightarrow>
                  (Inr \<lparr>pin_cid = cid, pin_size = sz, pin_sha256 = sha256,
                        pin_keyBase64 = base64_encode p (dr_fileKey dr),
                        pin_ivBase64 = base64_encode p (dr_fileIv dr)\<rparr>,
                   [storage_request p br dr file])))"

text \<open>
  The ledger step of \<^verbatim>\<open>onSubmit\<close>, whose failures are caught on the spot: it only
  decides which toast is shown.
\<close>

definition ledger_toast :: "'l surroundings \<Rightarrow> pinned \<Rightarrow> upload \<Rightarrow> string" where
  "ledger_toast sr pin file =
     (if sr_isConnected sr \<and> sr_walletAddress sr \<noteq> None \<and> sr_walletAddress sr \<noteq> Some []
      then (case (if sr_isSepolia sr then Inr () else sr_switchToSepolia sr) of
              Inl e \<Rightarrow> ''Blockchain Upload Warning''
            | Inr u \<Rightarrow>
                (case createFileOnChain (sr_ledger sr) (pin_cid pin) (pin_sha256 pin)
                        (type_or_pdf file) (length (up_bytes file)) of
                   Inl e \<Rightarrow> ''Blockchain Upload Warning''
                 | Inr result \<Rightarrow> ''Blockchain Record Created''))
      else ''Wallet Not Connected'')"

definition form_record :: "form_values \<Rightarrow> string option \<Rightarrow> pinned option \<Rightarrow> RecordData" where
  "form_record values fileUrl pin =
     \<lparr>rd_type = fv_type values, rd_date = fv_date values, rd_title = fv_title values,
      rd_content = fv_content values, rd_bloodPressure = fv_bloodPressure values,
      rd_pulseRate = fv_pulseRate values, rd_diagnosis = None,
      rd_attachmentUrl = fileUrl,
      rd_attachmentCid = map_option pin_cid pin,
      rd_attachmentEncryptionKey = map_option pin_keyBase64 pin,
      rd_attachmentEncryptionIv = map_option pin_ivBase64 pin\<rparr>"

text \<open>The last step of \<^verbatim>\<open>onSubmit\<close>: the record is saved, or the error toast shown.\<close>

definition save_record ::
  "platform \<Rightarrow> drawn \<Rightarrow> string \<Rightarrow> RecordData \<Rightarrow> http_request list \<Rightarrow> string list
     \<Rightarrow> filesystem \<Rightarrow> world \<Rightarrow> submission" where
  "save_record p dr userUid recordData reqs toasts fs w =
     (case addHealthRecord p (dr_recordIv dr) (dr_newId dr) (dr_now dr) userUid recordData w of
        (Inl e, w') \<Rightarrow>
          \<lparr>sb_requests = reqs, sb_toasts = toasts @ [''Error''], sb_fs = fs, sb_world = w',
           sb_record = None\<rparr>
      | (Inr recordId, w') \<Rightarrow>
          \<lparr>sb_requests = reqs, sb_toasts = toasts @ [''Success''], sb_fs = fs, sb_world = w',
           sb_record = Some recordId\<rparr>)"

text \<open>\<^verbatim>\<open>onSubmit\<close>; \<open>user\<close> is the uid of the signed-in user, if there is one.\<close>

definition onSubmit ::
  "platform \<Rightarrow> browser \<Rightarrow> 'l surroundings \<Rightarrow> drawn \<Rightarrow> string option \<Rightarrow> form_values \<Rightarrow> submission" where
  "onSubmit p br sr dr user values =
     (case user of
        None \<Rightarrow>
          \<lparr>sb_requests = [], sb_toasts = [''Error''], sb_fs = sr_fs sr, sb_world = sr_world sr,
           sb_record = None\<rparr>
      | Some userUid \<Rightarrow>
          (case fv_attachment values of
             [] \<Rightarrow>
               save_record p dr userUid (form_record values None None) [] [] (sr_fs sr) (sr_world sr)
           | file # rest \<Rightarrow>
               (case uploadFile (sr_fs sr) userUid file of
                  (Inl err, fs1) \<Rightarrow>
                    \<lparr>sb_requests = [PostApiUpload file userUid], sb_toasts = [''File Upload Error''],
                     sb_fs = fs1, sb_world = sr_world sr, sb_record = None\<rparr>
                | (Inr fileUrl, fs1) \<Rightarrow>
                    (case uploadEncryptedToPinata p br sr dr file of
                       (Inl err, sent) \<Rightarrow>
                         \<lparr>sb_requests = PostApiUpload file userUid # sent,
                          sb_toasts = [''File Upload Error''],
                          sb_fs = fs1, sb_world = sr_world sr, sb_record = None\<rparr>
                     | (Inr pin, sent) \<Rightarrow>
                         save_record p dr userUid (form_record values (Some fileUrl) (Some pin))
                           (PostApiUpload file userUid # sent)
                           [ledger_toast sr pin file] fs1 (sr_world sr)))))"

subsection \<open>A small installation for the worked instances\<close>

text \<open>
  A stand-in platform on which the definitions can be run: the codecs are the identity,
  sealing prefixes the data with key and nonce and opening checks that prefix, and the
  JSON codec knows the empty object only.
\<close>

definition demo_key :: string where
  "demo_key = ''0123456789abcdef0123456789abcdef''"

definition demo_seal :: "bytes \<Rightarrow> bytes \<Rightarrow> bytes \<Rightarrow> bytes" where
  "demo_seal k n m = k @ n @ m"

definition demo_open :: "bytes \<Rightarrow> bytes \<Rightarrow> bytes \<Rightarrow> exn + bytes" where
  "demo_open k n c =
     (if prefix (k @ n) c then Inr (drop (length k + length n) c)
      else Inl (Error ''OperationError''))"

definition demo_platform :: platform where
  "demo_platform =
     \<lparr>env_ENCRYPTION_KEY = Some demo_key,
      env_PINATA_GATEWAY_SUBDOMAIN = None,
      base64_encode = (\<lambda>b. b),
      base64_decode = (\<lambda>s. s),
      json_stringify = (\<lambda>j. ''{}''),
      json_parse = (\<lambda>s. if s = ''{}'' then Inr (JObj []) else Inl (Error ''SyntaxError'')),
      utf8_encode = (\<lambda>s. s),
      utf8_decode = (\<lambda>b. b),
      date_parse = (\<lambda>s. None),
      aes_gcm_encrypt = demo_seal,
      aes_gcm_decrypt = demo_open\<rparr>"

definition demo_doctor :: UserDocument where
  "demo_doctor =
     \<lparr>uid = ''doc1'', email = ''doc1@clinic.example'', role = Doctor,
      pendingConnections = Some [], successfulConnections = Some []\<rparr>"

definition demo_patient :: UserDocument where
  "demo_patient =
     \<lparr>uid = ''pat1'', email = ''pat1@mail.example'', role = Patient,
      pendingConnections = None, successfulConnections = None\<rparr>"

text \<open>A stored record of \<open>pat1\<close> whose blob opens under \<open>demo_platform\<close>.\<close>

definition demo_blob :: EncryptedBlob where
  "demo_blob = \<lparr>eb_ciphertext = demo_key @ ''nonce-000001'' @ ''{}'', eb_iv = ''nonce-000001'',
                 eb_alg = ''aes-256-gcm'', eb_v = 1\<rparr>"

definition demo_document :: document where
  "demo_document =
     [''userId'' \<mapsto> FString ''pat1'', ''type'' \<mapsto> FString ''note'',
      ''date'' \<mapsto> FTimestamp 1700000000000, ''createdAt'' \<mapsto> FTimestamp 1700000000500,
      ''encryptedData'' \<mapsto> FBlob demo_blob]"

text \<open>
  A store with one doctor, one patient, no connection between them, the patient's one
  record, no faults, and a ledger that answers yes to every access query.
\<close>

definition demo_world :: world where
  "demo_world =
     \<lparr>users = [''doc1'' \<mapsto> demo_doctor, ''pat1'' \<mapsto> demo_patient],
      healthRecords = [(''rec1'', demo_document)],
      faults = [],
      ledger_hasAccess = (\<lambda>fileId address. True)\<rparr>"

definition demo_diagnosis :: DiagnosisData where
  "demo_diagnosis =
     \<lparr>diagnosisText = ''seasonal allergy'', treatmentPlan = ''antihistamine'',
      recommendations = ''review in two weeks''\<rparr>"

text \<open>
  A record of \<open>pat2\<close> whose ciphertext was altered after it was written, so that it no
  longer opens, in a store that holds nothing else.
\<close>

definition demo_tampered_blob :: EncryptedBlob where
  "demo_tampered_blob = \<lparr>eb_ciphertext = ''XXXX'' @ demo_key @ ''nonce-000001'' @ ''{}'',
                          eb_iv = ''nonce-000001'', eb_alg = ''aes-256-gcm'', eb_v = 1\<rparr>"

definition demo_tampered_document :: document where
  "demo_tampered_document =
     [''userId'' \<mapsto> FString ''pat2'', ''type'' \<mapsto> FString ''lab_report'',
      ''date'' \<mapsto> FTimestamp 1700000100000, ''createdAt'' \<mapsto> FTimestamp 1700000100500,
      ''encryptedData'' \<mapsto> FBlob demo_tampered_blob]"

definition demo_tampered_world :: world where
  "demo_tampered_world =
     \<lparr>users = Map.empty,
      healthRecords = [(''rec2'', demo_tampered_document)],
      faults = [],
      ledger_hasAccess = (\<lambda>fileId address. False)\<rparr>"

text \<open>What both readers return for that record.\<close>

definition demo_blank_record :: HealthRecord where
  "demo_blank_record =
     \<lparr>hr_id = ''rec2'', hr_userId = Some (FString ''pat2''), hr_type = Some (FString ''lab_report''),
      hr_title = JStr [], hr_content = JStr [],
      hr_date = 1700000100000, hr_createdAt = 1700000100500,
      hr_bloodPressure = None, hr_pulseRate = None, hr_diagnosis = None,
      hr_attachmentUrl = None, hr_attachmentCid = None,
      hr_attachmentEncryptionKey = None, hr_attachmentEncryptionIv = None\<rparr>"

text \<open>A store with three records of \<open>pat1\<close>, written out of date order, and one of \<open>pat2\<close>.\<close>

definition demo_dated :: "string \<Rightarrow> int \<Rightarrow> document" where
  "demo_dated owner t =
     [''userId'' \<mapsto> FString owner, ''type'' \<mapsto> FString ''note'',
      ''date'' \<mapsto> FTimestamp t, ''createdAt'' \<mapsto> FTimestamp 1700000000500,
      ''encryptedData'' \<mapsto> FBlob demo_blob]"

definition demo_history :: world where
  "demo_history =
     \<lparr>users = [''doc1'' \<mapsto> demo_doctor, ''pat1'' \<mapsto> demo_patient],
      healthRecords =
        [(''a'', demo_dated ''pat1'' 1000), (''b'', demo_dated ''pat1'' 3000),
         (''c'', demo_dated ''pat2'' 4000), (''d'', demo_dated ''pat1'' 2000)],
      faults = [],
      ledger_hasAccess = (\<lambda>fileId address. False)\<rparr>"

text \<open>The values of a note with an attachment, as \<^verbatim>\<open>onSubmit\<close> passes them on.\<close>

definition demo_record_data :: RecordData where
  "demo_record_data =
     \<lparr>rd_type = ''lab_report'', rd_date = 1700000200000, rd_title = ''Blood panel'',
      rd_content = ''Haemoglobin 13.5 g/dL'', rd_bloodPressure = Some ''120/80'',
      rd_pulseRate = Some 72, rd_diagnosis = None,
      rd_attachmentUrl = Some ''/uploads/pat1/panel.pdf'',
      rd_attachmentCid = Some ''bafybeigdyrzt5example'',
      rd_attachmentEncryptionKey = Some ''a2V5'',
      rd_attachmentEncryptionIv = Some ''aXY=''\<rparr>"

definition demo_signed_diagnosis :: Diagnosis where
  "demo_signed_diagnosis =
     \<lparr>diagnosisText = ''seasonal allergy'', treatmentPlan = ''antihistamine'',
      recommendations = ''review in two weeks'',
      dg_doctorId = ''doc1'', dg_doctorEmail = ''doc1@clinic.example''\<rparr>"

text \<open>
  A ledger whose logs are written as small numbers: log 1 belongs to another contract
  (the parser throws), log 2 is an \<^verbatim>\<open>AccessGranted\<close> event, log 3 is the
  \<^verbatim>\<open>FileCreated\<close> event of file 42.
\<close>

definition demo_parseLog :: "nat \<Rightarrow> parse_outcome" where
  "demo_parseLog l =
     (if l = 1 then ParseThrows
      else if l = 2 then ParseOk ''AccessGranted'' [7]
      else if l = 3 then ParseOk ''FileCreated'' [42]
      else ParseNull)"

definition demo_ledger :: "nat list \<Rightarrow> nat ledger" where
  "demo_ledger ls =
     \<lparr>CONTRACT_ADDRESS = ''0x5FbDB2315678afecb367f032d93F642f64180aa3'',
      getMetaMaskSigner = Inr (),
      createFile = (\<lambda>cid hash mimeType sz. Inr (Inr \<lparr>rc_hash = ''0xabc123'', rc_logs = ls\<rparr>)),
      parseLog = demo_parseLog,
      getTotalFiles = Inr 9\<rparr>"



text \<open>
  A stand-in browser: \<^verbatim>\<open>atob\<close> is the identity, decryption is \<open>demo_open\<close>, and the
  digest of a buffer is the buffer itself. The viewer is given the key and nonce of an
  attachment whose uploaded ciphertext sealed the text \<open>blood panel\<close>, while every
  gateway of \<open>demo_swapped\<close> serves another ciphertext, sealed under the same key and
  nonce.
\<close>

definition demo_browser :: browser where
  "demo_browser = \<lparr>atob = (\<lambda>s. Inr s), subtle = Some demo_open, sha256_hex = (\<lambda>b. b)\<rparr>"

definition demo_viewer_props :: viewer_props where
  "demo_viewer_props =
     \<lparr>vp_cid = ''bafy1'', vp_fileName = ''panel.pdf'', vp_mimeType = ''application/pdf'',
      vp_encryptionKey = Some demo_key, vp_iv = Some ''nonce-000007''\<rparr>"

definition demo_uploaded :: bytes where
  "demo_uploaded = demo_seal demo_key ''nonce-000007'' ''blood panel''"

definition demo_swapped :: fetcher where
  "demo_swapped url ms =
     Responded \<lparr>res_status = 200, res_statusText = ''OK'',
                res_body = Inr (demo_seal demo_key ''nonce-000007'' ''substituted'')\<rparr>"

text \<open>What reading the document \<open>demo_dated ''pat1'' t\<close> stored under \<open>k\<close> gives.\<close>

definition demo_read :: "string \<Rightarrow> int \<Rightarrow> HealthRecord" where
  "demo_read k t =
     \<lparr>hr_id = k, hr_userId = Some (FString ''pat1''), hr_type = Some (FString ''note''),
      hr_title = JStr [], hr_content = JStr [],
      hr_date = t, hr_createdAt = 1700000000500,
      hr_bloodPressure = None, hr_pulseRate = None, hr_diagnosis = None,
      hr_attachmentUrl = None, hr_attachmentCid = None,
      hr_attachmentEncryptionKey = None, hr_attachmentEncryptionIv = None\<rparr>"

text \<open>
  A server whose disk holds nothing but the working directory, a laboratory report with
  a PDF attached, a pinning route that accepts every upload, no wallet, and the values
  one submission draws.
\<close>

definition demo_disk :: filesystem where
  "demo_disk = \<lparr>fs_files = [], fs_dirs = [''/srv/app''], fs_cwd = ''/srv/app'', fs_writable = True\<rparr>"

definition demo_file :: upload where
  "demo_file = \<lparr>up_name = ''panel.pdf'', up_type = ''application/pdf'',
                 up_bytes = ''%PDF-1.7 blood panel''\<rparr>"

definition demo_values :: form_values where
  "demo_values =
     \<lparr>fv_type = ''lab_report'', fv_title = ''Blood panel'', fv_content = ''Haemoglobin 13.5 g/dL'',
      fv_date = 1700000200000, fv_bloodPressure = Some ''120/80'', fv_pulseRate = Some 72,
      fv_attachment = [demo_file]\<rparr>"

definition demo_surroundings :: "nat surroundings" where
  "demo_surroundings =
     \<lparr>sr_fs = demo_disk, sr_world = demo_world,
      sr_pin = (\<lambda>ct name mime digest. Inr (''bafybeigdyrzt5example'', length ct)),
      sr_isConnected = False, sr_walletAddress = None, sr_isSepolia = False,
      sr_switchToSepolia = Inr (), sr_ledger = demo_ledger []\<rparr>"

definition demo_drawn :: drawn where
  "demo_drawn =
     \<lparr>dr_fileKey = ''fedcba9876543210fedcba9876543210'', dr_fileIv = ''nonce-000005'',
      dr_recordIv = ''nonce-000006'', dr_newId = ''rec4'', dr_now = 1700000200500\<rparr>"

section \<open>Properties\<close>

subsection \<open>The metadata store without faults\<close>

lemma take_fault_none: "faults w = [] \<Longrightarrow> take_fault w = (False, w)"
  by (simp add: take_fault_def)

lemma take_fault_keeps:
  "take_fault w = (b, w') \<Longrightarrow>
     users w' = users w \<and> healthRecords w' = healthRecords w \<and> ledger_hasAccess w' = ledger_hasAccess w"
  by (auto simp: take_fault_def split: list.splits)

lemma getUserDocument_ok: "faults w = [] \<Longrightarrow> getUserDocument u w = (Inr (users w u), w)"
  by (simp add: getUserDocument_def getDoc_user_def take_fault_none)

lemma getUserDocument_cases:
  "getUserDocument u w = (r, w') \<Longrightarrow>
     (r = Inr (users w u) \<or> (\<exists>e. r = Inl e))
     \<and> users w' = users w \<and> healthRecords w' = healthRecords w"
  by (auto simp: getUserDocument_def getDoc_user_def split: prod.splits bool.splits
      dest: take_fault_keeps)


lemma getDoc_record_ok:
  "faults w = [] \<Longrightarrow> getDoc_record r w = (Inr (map_of (healthRecords w) r), w)"
  by (simp add: getDoc_record_def take_fault_none)

lemma getHealthRecord_ok:
  "faults w = [] \<Longrightarrow> map_of (healthRecords w) r = Some data \<Longrightarrow>
   getHealthRecord p now r w =
     (case read_record p now r data of
        Inl e \<Rightarrow> (Inl (Error ''Failed to fetch health record.''), w)
      | Inr x \<Rightarrow> (Inr (Some x), w))"
  by (simp add: getHealthRecord_def getDoc_record_ok)

lemma getHealthRecord_cases:
  "getHealthRecord p now r w = (res, w') \<Longrightarrow> map_of (healthRecords w) r = Some data \<Longrightarrow>
     ((\<exists>x. res = Inr (Some x) \<and> hr_userId x = data ''userId'') \<or> (\<exists>e. res = Inl e))
     \<and> users w' = users w \<and> healthRecords w' = healthRecords w"
  by (auto simp: getHealthRecord_def getDoc_record_def read_record_def build_record_def
      split: prod.splits bool.splits option.splits sum.splits if_splits dest: take_fault_keeps)

lemma read_record_owner:
  "decrypted_or_empty p data \<noteq> JNull \<Longrightarrow>
   \<exists>x. read_record p now r data = Inr x \<and> hr_userId x = data ''userId'' \<and> hr_id x = r"
  by (simp add: read_record_def build_record_def)

lemma demo_blob_opens: "decryptObject demo_platform demo_blob = Inr (JObj [])"
  by (simp add: decryptObject_def getCryptoKey_def demo_platform_def demo_blob_def demo_key_def
      demo_open_def ALGORITHM_def)

lemma demo_document_payload: "decrypted_or_empty demo_platform demo_document = JObj []"
  by (simp add: decrypted_or_empty_def truthy_def decrypt_field_def demo_document_def
      demo_blob_opens)

subsection \<open>Connection requests\<close>





subsection \<open>The consent gate\<close>

text \<open>
  Claim C1. Let doctor \<open>D\<close> have a user document whose successful connections do not
  contain patient \<open>P\<close>, and let \<open>r\<close> be a stored record owned by \<open>P\<close>. Whatever the
  ledger's access table answers: neither read action ever returns a record and the
  diagnosis action never succeeds, and none of them changes the stored records, under
  any fault schedule of the store. When the store is reachable, reading \<open>P\<close>'s records
  fails with the permission error (for a non-empty doctor id), and, for a record whose
  payload is not the JSON null, reading \<open>r\<close> fails with the permission error and the
  diagnosis action returns the unsuccessful not-connected result with the store
  untouched.
\<close>

theorem consent_gate:
  assumes doc: "users w D = Some dd"
    and nc: "\<not> array_includes (successfulConnections dd) P"
    and rec: "map_of (healthRecords w) r = Some data"
    and own: "data ''userId'' = Some (FString P)"
  shows "\<forall>h. let v = w\<lparr>ledger_hasAccess := h\<rparr> in
      (\<forall>res v'. getPatientRecordsForDoctor p now D P v = (res, v') \<longrightarrow>
          (\<exists>e. res = Inl e) \<and> healthRecords v' = healthRecords w)
    \<and> (\<forall>res v'. getPatientRecordForDoctor p now D r v = (res, v') \<longrightarrow>
          (\<exists>e. res = Inl e) \<and> healthRecords v' = healthRecords w)
    \<and> (\<forall>res v'. addDiagnosisToRecord p now iv_rand nowIso D r dx v = (res, v') \<longrightarrow>
          res \<noteq> Inr ok_result \<and> healthRecords v' = healthRecords w)
    \<and> (faults w = [] \<and> D \<noteq> [] \<longrightarrow>
          getPatientRecordsForDoctor p now D P v
            = (Inl (Error ''You do not have permission to view these records.''), v))
    \<and> (faults w = [] \<and> decrypted_or_empty p data \<noteq> JNull \<longrightarrow>
          getPatientRecordForDoctor p now D r v
            = (Inl (Error ''You do not have permission to view this record.''), v)
        \<and> addDiagnosisToRecord p now iv_rand nowIso D r dx v
            = (Inr (fail_result ''You are not connected with this patient.''), v))"
proof (intro allI)
  fix h
  let ?v = "w\<lparr>ledger_hasAccess := h\<rparr>"
  have docv: "users ?v D = Some dd" and recv: "map_of (healthRecords ?v) r = Some data"
    using doc rec by simp_all
  have nv: "\<not> includes_value (successfulConnections dd) (data ''userId'')"
    using nc own by (simp add: includes_value_def)
  have a: "(\<exists>e. res = Inl e) \<and> healthRecords v' = healthRecords w"
    if "getPatientRecordsForDoctor p now D P ?v = (res, v')" for res v'
  proof (cases "D = []")
    case True with that show ?thesis by (auto simp: getPatientRecordsForDoctor_def)
  next
    case False
    obtain r1 w1 where g: "getUserDocument D ?v = (r1, w1)" by (cases "getUserDocument D ?v")
    from getUserDocument_cases [OF g] docv
    have "(r1 = Inr (Some dd) \<or> (\<exists>e. r1 = Inl e)) \<and> healthRecords w1 = healthRecords w" by simp
    with that False g nc show ?thesis
      by (auto simp: getPatientRecordsForDoctor_def)
  qed
  have b: "(\<exists>e. res = Inl e) \<and> healthRecords v' = healthRecords w"
    if "getPatientRecordForDoctor p now D r ?v = (res, v')" for res v'
  proof -
    obtain r1 w1 where g1: "getHealthRecord p now r ?v = (r1, w1)"
      by (cases "getHealthRecord p now r ?v")
    from getHealthRecord_cases [OF g1 recv]
    have c1: "((\<exists>x. r1 = Inr (Some x) \<and> hr_userId x = data ''userId'') \<or> (\<exists>e. r1 = Inl e))"
      and k1: "users w1 = users w" "healthRecords w1 = healthRecords w" by simp_all
    obtain r2 w2 where g2: "getUserDocument D w1 = (r2, w2)" by (cases "getUserDocument D w1")
    from getUserDocument_cases [OF g2] k1 doc
    have c2: "(r2 = Inr (Some dd) \<or> (\<exists>e. r2 = Inl e))"
      and k2: "healthRecords w2 = healthRecords w" by simp_all
    from that g1 g2 c1 c2 k1 k2 nv show ?thesis
      by (auto simp: getPatientRecordForDoctor_def)
  qed
  have c: "res \<noteq> Inr ok_result \<and> healthRecords v' = healthRecords w"
    if "addDiagnosisToRecord p now iv_rand nowIso D r dx ?v = (res, v')" for res v'
  proof -
    obtain r1 w1 where g1: "getHealthRecord p now r ?v = (r1, w1)"
      by (cases "getHealthRecord p now r ?v")
    from getHealthRecord_cases [OF g1 recv]
    have c1: "((\<exists>x. r1 = Inr (Some x) \<and> hr_userId x = data ''userId'') \<or> (\<exists>e. r1 = Inl e))"
      and k1: "users w1 = users w" "healthRecords w1 = healthRecords w" by simp_all
    obtain r2 w2 where g2: "getUserDocument D w1 = (r2, w2)" by (cases "getUserDocument D w1")
    from getUserDocument_cases [OF g2] k1 doc
    have c2: "(r2 = Inr (Some dd) \<or> (\<exists>e. r2 = Inl e))"
      and k2: "healthRecords w2 = healthRecords w" by simp_all
    from that g1 g2 c1 c2 k1 k2 nv show ?thesis
      by (auto simp: addDiagnosisToRecord_def fail_result_def ok_result_def)
  qed
  have d: "getPatientRecordsForDoctor p now D P ?v
            = (Inl (Error ''You do not have permission to view these records.''), ?v)"
    if "faults w = []" "D \<noteq> []"
    using that docv nc by (simp add: getPatientRecordsForDoctor_def getUserDocument_ok)
  have e: "getPatientRecordForDoctor p now D r ?v
            = (Inl (Error ''You do not have permission to view this record.''), ?v)
        \<and> addDiagnosisToRecord p now iv_rand nowIso D r dx ?v
            = (Inr (fail_result ''You are not connected with this patient.''), ?v)"
    if "faults w = []" "decrypted_or_empty p data \<noteq> JNull"
  proof -
    from read_record_owner [OF that(2), of now r] obtain x
      where x: "read_record p now r data = Inr x" "hr_userId x = data ''userId''" by blast
    have "getHealthRecord p now r ?v = (Inr (Some x), ?v)"
      using that(1) recv x by (simp add: getHealthRecord_ok)
    with that(1) docv nv x show ?thesis
      by (simp add: getPatientRecordForDoctor_def addDiagnosisToRecord_def getUserDocument_ok)
  qed
  show "let v = w\<lparr>ledger_hasAccess := h\<rparr> in
      (\<forall>res v'. getPatientRecordsForDoctor p now D P v = (res, v') \<longrightarrow>
          (\<exists>e. res = Inl e) \<and> healthRecords v' = healthRecords w)
    \<and> (\<forall>res v'. getPatientRecordForDoctor p now D r v = (res, v') \<longrightarrow>
          (\<exists>e. res = Inl e) \<and> healthRecords v' = healthRecords w)
    \<and> (\<forall>res v'. addDiagnosisToRecord p now iv_rand nowIso D r dx v = (res, v') \<longrightarrow>
          res \<noteq> Inr ok_result \<and> healthRecords v' = healthRecords w)
    \<and> (faults w = [] \<and> D \<noteq> [] \<longrightarrow>
          getPatientRecordsForDoctor p now D P v
            = (Inl (Error ''You do not have permission to view these records.''), v))
    \<and> (faults w = [] \<and> decrypted_or_empty p data \<noteq> JNull \<longrightarrow>
          getPatientRecordForDoctor p now D r v
            = (Inl (Error ''You do not have permission to view this record.''), v)
        \<and> addDiagnosisToRecord p now iv_rand nowIso D r dx v
            = (Inr (fail_result ''You are not connected with this patient.''), v))"
    unfolding Let_def using a b c d e by blast
qed

text \<open>
  The instance: the ledger of the small installation grants every query, the doctor is
  not connected to the patient, and all three actions are refused.
\<close>

theorem consent_gate_witness:
  "users demo_world ''doc1'' = Some demo_doctor
   \<and> \<not> array_includes (successfulConnections demo_doctor) ''pat1''
   \<and> map_of (healthRecords demo_world) ''rec1'' = Some demo_document
   \<and> demo_document ''userId'' = Some (FString ''pat1'')
   \<and> faults demo_world = []
   \<and> decrypted_or_empty demo_platform demo_document \<noteq> JNull
   \<and> ledger_hasAccess demo_world 7 ''doc1''
   \<and> getPatientRecordsForDoctor demo_platform 0 ''doc1'' ''pat1'' demo_world
       = (Inl (Error ''You do not have permission to view these records.''), demo_world)
   \<and> getPatientRecordForDoctor demo_platform 0 ''doc1'' ''rec1'' demo_world
       = (Inl (Error ''You do not have permission to view this record.''), demo_world)
   \<and> addDiagnosisToRecord demo_platform 0 ''nonce-000002'' ''2024-01-01T00:00:00.000Z''
         ''doc1'' ''rec1'' demo_diagnosis demo_world
       = (Inr (fail_result ''You are not connected with this patient.''), demo_world)"
proof -
  have 1: "users demo_world ''doc1'' = Some demo_doctor" by (simp add: demo_world_def)
  have 2: "\<not> array_includes (successfulConnections demo_doctor) ''pat1''"
    by (simp add: demo_doctor_def array_includes_def)
  have 3: "map_of (healthRecords demo_world) ''rec1'' = Some demo_document"
    by (simp add: demo_world_def)
  have 4: "demo_document ''userId'' = Some (FString ''pat1'')" by (simp add: demo_document_def)
  have 5: "faults demo_world = []" by (simp add: demo_world_def)
  have 6: "decrypted_or_empty demo_platform demo_document \<noteq> JNull"
    by (simp add: demo_document_payload)
  have 7: "ledger_hasAccess demo_world 7 ''doc1''" by (simp add: demo_world_def)
  have 8: "demo_world\<lparr>ledger_hasAccess := \<lambda>fileId address. True\<rparr> = demo_world"
    by (simp add: demo_world_def)
  from consent_gate [OF 1 2 3 4, of demo_platform 0 "''nonce-000002''"
      "''2024-01-01T00:00:00.000Z''" demo_diagnosis]
  have "let v = demo_world\<lparr>ledger_hasAccess := \<lambda>fileId address. True\<rparr> in
      (faults demo_world = [] \<and> ''doc1'' \<noteq> [] \<longrightarrow>
          getPatientRecordsForDoctor demo_platform 0 ''doc1'' ''pat1'' v
            = (Inl (Error ''You do not have permission to view these records.''), v))
    \<and> (faults demo_world = [] \<and> decrypted_or_empty demo_platform demo_document \<noteq> JNull \<longrightarrow>
          getPatientRecordForDoctor demo_platform 0 ''doc1'' ''rec1'' v
            = (Inl (Error ''You do not have permission to view this record.''), v)
        \<and> addDiagnosisToRecord demo_platform 0 ''nonce-000002'' ''2024-01-01T00:00:00.000Z''
              ''doc1'' ''rec1'' demo_diagnosis v
            = (Inr (fail_result ''You are not connected with this patient.''), v))"
    unfolding Let_def by blast
  with 5 6 8 have "getPatientRecordsForDoctor demo_platform 0 ''doc1'' ''pat1'' demo_world
       = (Inl (Error ''You do not have permission to view these records.''), demo_world)
   \<and> getPatientRecordForDoctor demo_platform 0 ''doc1'' ''rec1'' demo_world
       = (Inl (Error ''You do not have permission to view this record.''), demo_world)
   \<and> addDiagnosisToRecord demo_platform 0 ''nonce-000002'' ''2024-01-01T00:00:00.000Z''
         ''doc1'' ''rec1'' demo_diagnosis demo_world
       = (Inr (fail_result ''You are not connected with this patient.''), demo_world)"
    by (simp add: Let_def)
  with 1 2 3 4 5 6 7 show ?thesis by blast
qed

subsection \<open>Reading a user's records\<close>


lemma promise_all_Inr_iff: "promise_all xs = Inr ys \<longleftrightarrow> xs = map Inr ys"
proof (induction xs arbitrary: ys rule: promise_all.induct)
  case 1
  then show ?case by auto
next
  case (2 e rs)
  then show ?case by auto
next
  case (3 x rs)
  then show ?case by (cases "promise_all rs") (auto simp: Cons_eq_map_conv)
qed

lemma promise_all_all_Inr:
  "\<forall>x \<in> set xs. \<exists>y. x = Inr y \<Longrightarrow> \<exists>ys. promise_all xs = Inr ys"
proof (induction xs)
  case Nil
  then show ?case by simp
next
  case (Cons a xs)
  then obtain y ys where "a = Inr y" "promise_all xs = Inr ys" by auto
  then show ?case by simp
qed

lemma getDocs_by_user_ok:
  "faults w = [] \<Longrightarrow>
   getDocs_by_user u w = (Inr (filter (\<lambda>(k, d). d ''userId'' = Some (FString u)) (healthRecords w)), w)"
  by (simp add: getDocs_by_user_def take_fault_none)

lemma getDocs_by_user_cases:
  "getDocs_by_user u w = (res, w') \<Longrightarrow>
     (res = Inr (filter (\<lambda>(k, d). d ''userId'' = Some (FString u)) (healthRecords w)) \<or> (\<exists>e. res = Inl e))"
  by (auto simp: getDocs_by_user_def split: prod.splits bool.splits dest: take_fault_keeps)

lemma getHealthRecords_returns:
  assumes "getHealthRecords p now u w = (Inr rs, w')"
  shows "\<exists>ys. map Inr ys = map (\<lambda>(k, d). read_record p now k d)
                 (filter (\<lambda>(k, d). d ''userId'' = Some (FString u)) (healthRecords w))
            \<and> rs = sort_by_date_desc ys"
proof -
  obtain r1 w1 where g: "getDocs_by_user u w = (r1, w1)" by (cases "getDocs_by_user u w")
  from getDocs_by_user_cases [OF g] assms g show ?thesis
    by (auto simp: getHealthRecords_def promise_all_Inr_iff split: sum.splits)
qed

lemma sort_by_date_desc_sorted: "sorted_wrt (\<lambda>a b. hr_date b \<le> hr_date a) (sort_by_date_desc ys)"
proof -
  have "sorted (map (\<lambda>r. - hr_date r) (sort_key (\<lambda>r. - hr_date r) ys))" by (rule sorted_sort_key)
  then show ?thesis by (simp add: sort_by_date_desc_def sorted_map)
qed

lemma sort_by_date_desc_mset: "mset (sort_by_date_desc ys) = mset ys"
  by (simp add: sort_by_date_desc_def)

lemma date_resolved:
  "(case getDate p field of Some t \<Rightarrow> t | None \<Rightarrow> now)
     = (case field of
          Some (FTimestamp t) \<Rightarrow> t
        | Some (FString s) \<Rightarrow>
            (if s = [] then now else case date_parse p s of Some t \<Rightarrow> t | None \<Rightarrow> now)
        | other \<Rightarrow> now)"
  by (simp add: getDate_def split: option.splits fvalue.splits)

lemma read_record_dated:
  assumes "read_record p now k d = Inr x"
  shows "hr_id x = k
       \<and> hr_date x = (case d ''date'' of
                        Some (FTimestamp t) \<Rightarrow> t
                      | Some (FString s) \<Rightarrow>
                          (if s = [] then now
                           else case date_parse p s of Some t \<Rightarrow> t | None \<Rightarrow> now)
                      | other \<Rightarrow> now)"
proof -
  from assms have "hr_id x = k"
    and "hr_date x = (case getDate p (d ''date'') of Some t \<Rightarrow> t | None \<Rightarrow> now)"
    by (auto simp: read_record_def build_record_def split: if_splits)
  then show ?thesis by (simp only: date_resolved)
qed

lemma readings_dated:
  "map Inr ys = map (\<lambda>(k, d). read_record p now k d) docs \<Longrightarrow>
   map (\<lambda>x. (hr_id x, hr_date x)) ys
     = map (\<lambda>(k, d). (k, case d ''date'' of
                             Some (FTimestamp t) \<Rightarrow> t
                           | Some (FString s) \<Rightarrow>
                               (if s = [] then now
                                else case date_parse p s of Some t \<Rightarrow> t | None \<Rightarrow> now)
                           | other \<Rightarrow> now)) docs"
proof (induction docs arbitrary: ys)
  case Nil
  then show ?case by simp
next
  case (Cons kd docs)
  obtain k d where kd: "kd = (k, d)" by (cases kd)
  from Cons.prems obtain y ys' where ys: "ys = y # ys'"
    and y: "Inr y = read_record p now k d"
    and rest: "map Inr ys' = map (\<lambda>(k, d). read_record p now k d) docs"
    unfolding kd by (cases ys) auto
  from y have "read_record p now k d = Inr y" by simp
  from read_record_dated [OF this] Cons.IH [OF rest] show ?case
    unfolding ys kd by simp
qed

text \<open>
  Claim C10. With the store reachable and none of the user's payloads the JSON null,
  \<^verbatim>\<open>getHealthRecords\<close> returns a list that is ordered by the date member, latest
  first, and that consists of exactly the readings of the documents whose owner field
  is that user: one record per such document, with that document's id and with the
  date that document stores (the instant of its \<open>date\<close> timestamp; for a date kept as
  text, what the \<^verbatim>\<open>Date\<close> parser makes of it; the time of the call, taken as one
  instant, when there is no usable date).
\<close>

theorem getHealthRecords_newest_first:
  assumes up: "faults w = []"
    and readable: "\<forall>(k, d) \<in> set (healthRecords w).
                     d ''userId'' = Some (FString u) \<longrightarrow> decrypted_or_empty p d \<noteq> JNull"
  shows "\<exists>rs. getHealthRecords p now u w = (Inr rs, w)
           \<and> sorted_wrt (\<lambda>a b. hr_date b \<le> hr_date a) rs
           \<and> mset (map Inr rs) = mset (map (\<lambda>(k, d). read_record p now k d)
                 (filter (\<lambda>(k, d). d ''userId'' = Some (FString u)) (healthRecords w)))
           \<and> mset (map hr_id rs)
               = mset (map fst (filter (\<lambda>(k, d). d ''userId'' = Some (FString u)) (healthRecords w)))
           \<and> mset (map (\<lambda>x. (hr_id x, hr_date x)) rs)
               = mset (map (\<lambda>(k, d). (k, case d ''date'' of
                                            Some (FTimestamp t) \<Rightarrow> t
                                          | Some (FString s) \<Rightarrow>
                                              (if s = [] then now
                                               else case date_parse p s of
                                                      Some t \<Rightarrow> t | None \<Rightarrow> now)
                                          | other \<Rightarrow> now))
                         (filter (\<lambda>(k, d). d ''userId'' = Some (FString u)) (healthRecords w)))"
proof -
  let ?docs = "filter (\<lambda>(k, d). d ''userId'' = Some (FString u)) (healthRecords w)"
  let ?reads = "map (\<lambda>(k, d). read_record p now k d) ?docs"
  let ?stored = "map (\<lambda>(k, d). (k, case d ''date'' of
                                            Some (FTimestamp t) \<Rightarrow> t
                                          | Some (FString s) \<Rightarrow>
                                              (if s = [] then now
                                               else case date_parse p s of
                                                      Some t \<Rightarrow> t | None \<Rightarrow> now)
                                          | other \<Rightarrow> now)) ?docs"
  have each: "\<exists>x. read_record p now k d = Inr x \<and> hr_id x = k" if "(k, d) \<in> set ?docs" for k d
    using that readable read_record_owner [of p d now k] by auto
  then have "\<forall>x \<in> set ?reads. \<exists>y. x = Inr y" by auto
  from promise_all_all_Inr [OF this] obtain ys where ys: "promise_all ?reads = Inr ys" by blast
  then have m: "?reads = map Inr ys" by (simp add: promise_all_Inr_iff)
  then have m': "map Inr ys = ?reads" by (rule sym)
  have dated: "map (\<lambda>x. (hr_id x, hr_date x)) ys = ?stored"
    using m' by (rule readings_dated)
  have "map fst (map (\<lambda>x. (hr_id x, hr_date x)) ys) = map fst ?stored"
    by (simp only: dated)
  then have ids: "map hr_id ys = map fst ?docs"
    by (simp add: comp_def case_prod_unfold)
  have res: "getHealthRecords p now u w = (Inr (sort_by_date_desc ys), w)"
    using up ys by (simp add: getHealthRecords_def getDocs_by_user_ok)
  have c1: "sorted_wrt (\<lambda>a b. hr_date b \<le> hr_date a) (sort_by_date_desc ys)"
    by (rule sort_by_date_desc_sorted)
  have c2: "mset (map Inr (sort_by_date_desc ys)) = mset ?reads"
    using m by (simp add: sort_by_date_desc_mset)
  have c3: "mset (map hr_id (sort_by_date_desc ys)) = mset (map fst ?docs)"
  proof -
    have "mset (map hr_id (sort_by_date_desc ys)) = mset (map hr_id ys)"
      by (simp add: sort_by_date_desc_mset)
    with ids show ?thesis by (simp only:)
  qed
  have c4: "mset (map (\<lambda>x. (hr_id x, hr_date x)) (sort_by_date_desc ys)) = mset ?stored"
  proof -
    have "mset (map (\<lambda>x. (hr_id x, hr_date x)) (sort_by_date_desc ys))
            = mset (map (\<lambda>x. (hr_id x, hr_date x)) ys)"
      by (simp add: sort_by_date_desc_mset)
    with dated show ?thesis by (simp only:)
  qed
  from res c1 c2 c3 c4 show ?thesis
    by (intro exI [of _ "sort_by_date_desc ys"] conjI)
qed

lemma demo_dated_payload: "decrypted_or_empty demo_platform (demo_dated owner t) = JObj []"
  by (simp add: decrypted_or_empty_def truthy_def decrypt_field_def demo_dated_def
      demo_blob_opens)

lemma demo_dated_read:
  "read_record demo_platform 0 k (demo_dated ''pat1'' t) = Inr (demo_read k t)"
  unfolding read_record_def demo_dated_payload
  by (simp add: build_record_def demo_dated_def demo_read_def or_empty_def getDate_def)

lemma demo_history_docs:
  "filter (\<lambda>(k, d). d ''userId'' = Some (FString ''pat1'')) (healthRecords demo_history)
     = [(''a'', demo_dated ''pat1'' 1000), (''b'', demo_dated ''pat1'' 3000),
        (''d'', demo_dated ''pat1'' 2000)]"
proof -
  have "\<And>owner t. demo_dated owner t ''userId'' = Some (FString owner)"
    by (simp add: demo_dated_def)
  then show ?thesis by (simp add: demo_history_def)
qed

lemma demo_history_records:
  "getHealthRecords demo_platform 0 ''pat1'' demo_history
     = (Inr [demo_read ''b'' 3000, demo_read ''d'' 2000, demo_read ''a'' 1000], demo_history)"
proof -
  have f: "faults demo_history = []" by (simp add: demo_history_def)
  have d: "\<And>k t. hr_date (demo_read k t) = t" by (simp add: demo_read_def)
  have "sort_by_date_desc [demo_read ''a'' 1000, demo_read ''b'' 3000, demo_read ''d'' 2000]
          = [demo_read ''b'' 3000, demo_read ''d'' 2000, demo_read ''a'' 1000]"
    by (simp add: sort_by_date_desc_def d)
  then show ?thesis
    by (simp add: getHealthRecords_def getDocs_by_user_ok [OF f] demo_history_docs demo_dated_read)
qed

text \<open>
  The instance: the three records of \<open>pat1\<close>, stored in the order \<open>a\<close>, \<open>b\<close>, \<open>d\<close> with
  the dates 1000, 3000, 2000, come back as \<open>b\<close>, \<open>d\<close>, \<open>a\<close> with the dates 3000, 2000,
  1000, and the record of \<open>pat2\<close> does not come back.
\<close>

theorem getHealthRecords_newest_first_witness:
  "faults demo_history = []
   \<and> decrypted_or_empty demo_platform (demo_dated ''pat1'' 1000) \<noteq> JNull
   \<and> decrypted_or_empty demo_platform (demo_dated ''pat1'' 3000) \<noteq> JNull
   \<and> decrypted_or_empty demo_platform (demo_dated ''pat1'' 2000) \<noteq> JNull
   \<and> map fst (healthRecords demo_history) = [''a'', ''b'', ''c'', ''d'']
   \<and> (\<exists>rs. getHealthRecords demo_platform 0 ''pat1'' demo_history = (Inr rs, demo_history)
           \<and> sorted_wrt (\<lambda>a b. hr_date b \<le> hr_date a) rs
           \<and> map hr_id rs = [''b'', ''d'', ''a'']
           \<and> map hr_date rs = [3000, 2000, 1000])"
proof -
  have 1: "faults demo_history = []" by (simp add: demo_history_def)
  have 2: "\<forall>(k, d) \<in> set (healthRecords demo_history).
         d ''userId'' = Some (FString ''pat1'') \<longrightarrow> decrypted_or_empty demo_platform d \<noteq> JNull"
    by (simp add: demo_history_def demo_dated_payload)
  have 3: "map fst (healthRecords demo_history) = [''a'', ''b'', ''c'', ''d'']"
    by (simp add: demo_history_def)
  from getHealthRecords_newest_first [OF 1 2, of 0] obtain rs
    where r: "getHealthRecords demo_platform 0 ''pat1'' demo_history = (Inr rs, demo_history)"
      and s: "sorted_wrt (\<lambda>a b. hr_date b \<le> hr_date a) rs"
    by (elim exE conjE)
  from r have rs: "rs = [demo_read ''b'' 3000, demo_read ''d'' 2000, demo_read ''a'' 1000]"
    by (simp add: demo_history_records)
  have i: "map hr_id rs = [''b'', ''d'', ''a'']" and t: "map hr_date rs = [3000, 2000, 1000]"
    unfolding rs by (simp_all add: demo_read_def)
  have "\<exists>rs. getHealthRecords demo_platform 0 ''pat1'' demo_history = (Inr rs, demo_history)
           \<and> sorted_wrt (\<lambda>a b. hr_date b \<le> hr_date a) rs
           \<and> map hr_id rs = [''b'', ''d'', ''a'']
           \<and> map hr_date rs = [3000, 2000, 1000]"
    using r s i t by (intro exI [of _ rs] conjI)
  with 1 3 show ?thesis by (simp add: demo_dated_payload)
qed

subsection \<open>Records that do not decrypt\<close>


lemma decrypted_or_empty_failed:
  "data ''encryptedData'' = Some (FBlob b) \<Longrightarrow> decryptObject p b = Inl e \<Longrightarrow>
   decrypted_or_empty p data = JObj []"
  by (simp add: decrypted_or_empty_def truthy_def decrypt_field_def)

lemma build_record_blank:
  "build_record p now r data (JObj []) = Inr x \<Longrightarrow>
   hr_id x = r \<and> hr_userId x = data ''userId'' \<and> hr_type x = data ''type''
   \<and> hr_title x = JStr [] \<and> hr_content x = JStr []
   \<and> hr_bloodPressure x = None \<and> hr_pulseRate x = None \<and> hr_diagnosis x = None
   \<and> hr_attachmentUrl x = None \<and> hr_attachmentCid x = None
   \<and> hr_attachmentEncryptionKey x = None \<and> hr_attachmentEncryptionIv x = None"
  by (auto simp: build_record_def or_empty_def)

text \<open>
  Claim C4, as the code has it. With the store reachable, a stored record whose blob
  fails to decrypt is not reported as an error: \<^verbatim>\<open>getHealthRecord\<close> returns the
  record with its plaintext metadata, the empty string for title and content and every
  other payload member absent; \<^verbatim>\<open>getHealthRecords\<close>, whenever it returns, has that
  same record in its list, and returns exactly it when it is the only stored record.
\<close>

theorem decrypt_failure_gives_blank_record:
  assumes up: "faults w = []"
    and rec: "map_of (healthRecords w) r = Some data"
    and blob: "data ''encryptedData'' = Some (FBlob b)"
    and bad: "decryptObject p b = Inl e"
  shows "\<exists>x. build_record p now r data (JObj []) = Inr x
           \<and> hr_id x = r \<and> hr_userId x = data ''userId'' \<and> hr_type x = data ''type''
           \<and> hr_title x = JStr [] \<and> hr_content x = JStr []
           \<and> hr_bloodPressure x = None \<and> hr_pulseRate x = None \<and> hr_diagnosis x = None
           \<and> hr_attachmentUrl x = None \<and> hr_attachmentCid x = None
           \<and> hr_attachmentEncryptionKey x = None \<and> hr_attachmentEncryptionIv x = None
           \<and> getHealthRecord p now r w = (Inr (Some x), w)
           \<and> (data ''userId'' = Some (FString u) \<longrightarrow>
                (\<forall>rs w'. getHealthRecords p now u w = (Inr rs, w') \<longrightarrow> x \<in> set rs)
              \<and> (healthRecords w = [(r, data)] \<longrightarrow> getHealthRecords p now u w = (Inr [x], w)))"
proof -
  have empty: "decrypted_or_empty p data = JObj []"
    using blob bad by (rule decrypted_or_empty_failed)
  obtain x where x: "build_record p now r data (JObj []) = Inr x"
    by (simp add: build_record_def)
  then have rd: "read_record p now r data = Inr x" by (simp add: read_record_def empty)
  have one: "getHealthRecord p now r w = (Inr (Some x), w)"
    using up rec rd by (simp add: getHealthRecord_ok)
  have many: "x \<in> set rs"
    if own: "data ''userId'' = Some (FString u)"
      and res: "getHealthRecords p now u w = (Inr rs, w')" for rs w'
  proof -
    let ?docs = "filter (\<lambda>(k, d). d ''userId'' = Some (FString u)) (healthRecords w)"
    from getHealthRecords_returns [OF res] obtain ys
      where ys: "map Inr ys = map (\<lambda>(k, d). read_record p now k d) ?docs"
        and rs: "rs = sort_by_date_desc ys" by blast
    from rec have "(r, data) \<in> set (healthRecords w)" by (rule map_of_SomeD)
    with own have "(r, data) \<in> set ?docs" by simp
    then have "read_record p now r data \<in> set (map (\<lambda>(k, d). read_record p now k d) ?docs)"
      by force
    then have "Inr x \<in> set (map (\<lambda>(k, d). read_record p now k d) ?docs)"
      by (simp only: rd)
    moreover have "set (map Inr ys) = set (map (\<lambda>(k, d). read_record p now k d) ?docs)"
      using ys by (rule arg_cong)
    ultimately have "(Inr x :: exn + HealthRecord) \<in> set (map Inr ys)" by blast
    then have "x \<in> set ys" by auto
    then show ?thesis by (simp add: rs sort_by_date_desc_def)
  qed
  have only: "getHealthRecords p now u w = (Inr [x], w)"
    if "data ''userId'' = Some (FString u)" "healthRecords w = [(r, data)]"
    using that up rd
    by (simp add: getHealthRecords_def getDocs_by_user_ok sort_by_date_desc_def)
  from build_record_blank [OF x] x one many only show ?thesis by blast
qed

text \<open>The instance: the altered record of the small installation.\<close>

theorem decrypt_failure_gives_blank_record_witness:
  "faults demo_tampered_world = []
   \<and> map_of (healthRecords demo_tampered_world) ''rec2'' = Some demo_tampered_document
   \<and> demo_tampered_document ''encryptedData'' = Some (FBlob demo_tampered_blob)
   \<and> decryptObject demo_platform demo_tampered_blob = Inl (Error ''OperationError'')
   \<and> (\<exists>x. hr_title x = JStr [] \<and> hr_content x = JStr [] \<and> hr_attachmentCid x = None
        \<and> getHealthRecord demo_platform 0 ''rec2'' demo_tampered_world = (Inr (Some x), demo_tampered_world)
        \<and> getHealthRecords demo_platform 0 ''pat2'' demo_tampered_world = (Inr [x], demo_tampered_world))"
proof -
  have 1: "faults demo_tampered_world = []" by (simp add: demo_tampered_world_def)
  have 2: "map_of (healthRecords demo_tampered_world) ''rec2'' = Some demo_tampered_document"
    by (simp add: demo_tampered_world_def)
  have 3: "demo_tampered_document ''encryptedData'' = Some (FBlob demo_tampered_blob)"
    by (simp add: demo_tampered_document_def)
  have 4: "decryptObject demo_platform demo_tampered_blob = Inl (Error ''OperationError'')"
    by (simp add: decryptObject_def getCryptoKey_def demo_platform_def demo_tampered_blob_def
        demo_key_def demo_open_def ALGORITHM_def)
  have 5: "demo_tampered_document ''userId'' = Some (FString ''pat2'')"
    by (simp add: demo_tampered_document_def)
  have 6: "healthRecords demo_tampered_world = [(''rec2'', demo_tampered_document)]"
    by (simp add: demo_tampered_world_def)
  from decrypt_failure_gives_blank_record [OF 1 2 3 4, of 0 "''pat2''"] 5 6
  have "\<exists>x. hr_title x = JStr [] \<and> hr_content x = JStr [] \<and> hr_attachmentCid x = None
        \<and> getHealthRecord demo_platform 0 ''rec2'' demo_tampered_world = (Inr (Some x), demo_tampered_world)
        \<and> getHealthRecords demo_platform 0 ''pat2'' demo_tampered_world = (Inr [x], demo_tampered_world)"
    by blast
  with 1 2 3 4 show ?thesis by blast
qed

text \<open>
  Against claim C4 as stated: the blob of record \<open>rec2\<close> fails to decrypt, and both
  readers return normally, with the record's sensitive members empty.
\<close>

theorem decrypt_failure_surfaced_counterexample:
  "decryptObject demo_platform demo_tampered_blob = Inl (Error ''OperationError'')
   \<and> getHealthRecord demo_platform 0 ''rec2'' demo_tampered_world
       = (Inr (Some demo_blank_record), demo_tampered_world)
   \<and> getHealthRecords demo_platform 0 ''pat2'' demo_tampered_world
       = (Inr [demo_blank_record], demo_tampered_world)"
proof -
  have bad: "decryptObject demo_platform demo_tampered_blob = Inl (Error ''OperationError'')"
    by (simp add: decryptObject_def getCryptoKey_def demo_platform_def demo_tampered_blob_def
        demo_key_def demo_open_def ALGORITHM_def)
  have empty: "decrypted_or_empty demo_platform demo_tampered_document = JObj []"
    by (simp add: decrypted_or_empty_def truthy_def decrypt_field_def demo_tampered_document_def bad)
  have rd: "read_record demo_platform 0 ''rec2'' demo_tampered_document = Inr demo_blank_record"
    unfolding read_record_def empty
    by (simp add: build_record_def demo_tampered_document_def
        demo_blank_record_def or_empty_def getDate_def)
  have f: "faults demo_tampered_world = []" by (simp add: demo_tampered_world_def)
  have rec: "map_of (healthRecords demo_tampered_world) ''rec2'' = Some demo_tampered_document"
    by (simp add: demo_tampered_world_def)
  have one: "getHealthRecord demo_platform 0 ''rec2'' demo_tampered_world
       = (Inr (Some demo_blank_record), demo_tampered_world)"
    using getHealthRecord_ok [OF f rec, of demo_platform 0] rd by simp
  have docs: "filter (\<lambda>(k, d). d ''userId'' = Some (FString ''pat2''))
                 (healthRecords demo_tampered_world) = [(''rec2'', demo_tampered_document)]"
    by (simp add: demo_tampered_world_def demo_tampered_document_def)
  have many: "getHealthRecords demo_platform 0 ''pat2'' demo_tampered_world
       = (Inr [demo_blank_record], demo_tampered_world)"
    by (simp add: getHealthRecords_def getDocs_by_user_ok [OF f] docs rd sort_by_date_desc_def)
  from bad one many show ?thesis by blast
qed



subsection \<open>The record cipher\<close>

text \<open>
  Claim C7. Let the configured key decode to exactly 32 bytes and the nonce drawn have
  12. Provided the platform's base64 codec and AES-GCM undo each other, and JSON and
  UTF-8 coding round-trip on the value \<open>j\<close> at hand, \<^verbatim>\<open>encryptObject\<close> succeeds on
  \<open>j\<close> and \<^verbatim>\<open>decryptObject\<close> of its blob gives back \<open>j\<close>.
\<close>

theorem encryptObject_roundtrip:
  assumes key: "env_ENCRYPTION_KEY p = Some keyB64" "keyB64 \<noteq> []"
      "length (base64_decode p keyB64) = 32"
    and nonce: "length iv_rand = 12"
    and b64: "\<forall>b. base64_decode p (base64_encode p b) = b"
    and aes: "\<forall>k n m. length k = 32 \<and> length n = 12 \<longrightarrow>
                aes_gcm_decrypt p k n (aes_gcm_encrypt p k n m) = Inr m"
    and utf8: "utf8_decode p (utf8_encode p (json_stringify p j)) = json_stringify p j"
    and json: "json_parse p (json_stringify p j) = Inr j"
  shows "\<exists>blob. encryptObject p iv_rand j = Inr blob \<and> decryptObject p blob = Inr j"
proof -
  let ?k = "base64_decode p keyB64"
  let ?ct = "aes_gcm_encrypt p ?k iv_rand (utf8_encode p (json_stringify p j))"
  let ?blob = "\<lparr>eb_ciphertext = base64_encode p ?ct, eb_iv = base64_encode p iv_rand,
                 eb_alg = ALGORITHM, eb_v = VERSION\<rparr>"
  have k: "getCryptoKey p = Inr ?k" using key by (simp add: getCryptoKey_def)
  then have enc: "encryptObject p iv_rand j = Inr ?blob"
    by (simp add: encryptObject_def Let_def)
  have "aes_gcm_decrypt p ?k iv_rand ?ct = Inr (utf8_encode p (json_stringify p j))"
    using aes key(3) nonce by blast
  then have "decryptObject p ?blob = Inr j"
    using k b64 utf8 json by (simp add: decryptObject_def)
  with enc show ?thesis by blast
qed

lemma demo_seal_open: "demo_open k n (demo_seal k n m) = Inr m"
  by (simp add: demo_open_def demo_seal_def)

text \<open>The instance: the stand-in platform and the empty object.\<close>

theorem encryptObject_roundtrip_witness:
  "env_ENCRYPTION_KEY demo_platform = Some demo_key \<and> demo_key \<noteq> []
   \<and> length (base64_decode demo_platform demo_key) = 32
   \<and> length ''nonce-000001'' = 12
   \<and> (\<forall>b. base64_decode demo_platform (base64_encode demo_platform b) = b)
   \<and> aes_gcm_decrypt demo_platform demo_key ''nonce-000001''
         (aes_gcm_encrypt demo_platform demo_key ''nonce-000001'' ''{}'') = Inr ''{}''
   \<and> json_parse demo_platform (json_stringify demo_platform (JObj [])) = Inr (JObj [])
   \<and> (\<exists>blob. encryptObject demo_platform ''nonce-000001'' (JObj []) = Inr blob
          \<and> decryptObject demo_platform blob = Inr (JObj []))"
proof -
  have 1: "env_ENCRYPTION_KEY demo_platform = Some demo_key" by (simp add: demo_platform_def)
  have 2: "demo_key \<noteq> []" by (simp add: demo_key_def)
  have 3: "length (base64_decode demo_platform demo_key) = 32"
    by (simp add: demo_platform_def demo_key_def)
  have 4: "length ''nonce-000001'' = 12" by simp
  have 5: "\<forall>b. base64_decode demo_platform (base64_encode demo_platform b) = b"
    by (simp add: demo_platform_def)
  have 6: "\<forall>k n m. length k = 32 \<and> length n = 12 \<longrightarrow>
         aes_gcm_decrypt demo_platform k n (aes_gcm_encrypt demo_platform k n m) = Inr m"
    by (simp add: demo_platform_def demo_seal_open)
  have 7: "utf8_decode demo_platform (utf8_encode demo_platform (json_stringify demo_platform (JObj [])))
            = json_stringify demo_platform (JObj [])"
    by (simp add: demo_platform_def)
  have 8: "json_parse demo_platform (json_stringify demo_platform (JObj [])) = Inr (JObj [])"
    by (simp add: demo_platform_def)
  have 9: "aes_gcm_decrypt demo_platform demo_key ''nonce-000001''
         (aes_gcm_encrypt demo_platform demo_key ''nonce-000001'' ''{}'') = Inr ''{}''"
    by (simp add: demo_platform_def demo_seal_open)
  from encryptObject_roundtrip [OF 1 2 3 4 5 6 7 8] 1 2 3 4 5 9 8 show ?thesis by (intro conjI)
qed

subsection \<open>What the metadata store is given\<close>

lemma map_of_update: "map_of (AList.update k v al) = (map_of al)(k \<mapsto> v)"
  by (rule update_conv')

lemma getCryptoKey_length: "getCryptoKey p = Inr key \<Longrightarrow> length key = 32"
  by (auto simp: getCryptoKey_def Let_def split: option.splits if_splits)

lemma encryptObject_Inr:
  assumes "encryptObject p n j = Inr blob"
  shows "\<exists>key. getCryptoKey p = Inr key \<and> length key = 32
           \<and> blob = \<lparr>eb_ciphertext = base64_encode p
                         (aes_gcm_encrypt p key n (utf8_encode p (json_stringify p j))),
                      eb_iv = base64_encode p n, eb_alg = ''aes-256-gcm'', eb_v = 1\<rparr>"
proof (cases "getCryptoKey p")
  case (Inl e)
  with assms show ?thesis by (simp add: encryptObject_def)
next
  case (Inr key)
  with assms have "blob = \<lparr>eb_ciphertext = base64_encode p
                         (aes_gcm_encrypt p key n (utf8_encode p (json_stringify p j))),
                      eb_iv = base64_encode p n, eb_alg = ''aes-256-gcm'', eb_v = 1\<rparr>"
    by (simp add: encryptObject_def Let_def ALGORITHM_def VERSION_def)
  with Inr getCryptoKey_length [OF Inr] show ?thesis by simp
qed

lemma map_of_opt_prop: "map_of (opt_prop k f x) k' = (if k' = k then map_option f x else None)"
  by (simp add: opt_prop_def split: option.splits)

lemma sensitivePayload_members:
  "member (sensitivePayload rd) ''title'' = Some (JStr (rd_title rd))"
  "member (sensitivePayload rd) ''content'' = Some (JStr (rd_content rd))"
  "member (sensitivePayload rd) ''bloodPressure'' = map_option JStr (rd_bloodPressure rd)"
  "member (sensitivePayload rd) ''pulseRate'' = map_option JNum (rd_pulseRate rd)"
  "member (sensitivePayload rd) ''diagnosis'' = rd_diagnosis rd"
  "member (sensitivePayload rd) ''attachmentUrl'' = map_option JStr (rd_attachmentUrl rd)"
  "member (sensitivePayload rd) ''attachmentCid'' = map_option JStr (rd_attachmentCid rd)"
  "member (sensitivePayload rd) ''attachmentEncryptionKey''
     = map_option JStr (rd_attachmentEncryptionKey rd)"
  "member (sensitivePayload rd) ''attachmentEncryptionIv''
     = map_option JStr (rd_attachmentEncryptionIv rd)"
  by (simp_all add: sensitivePayload_def map_of_opt_prop map_add_def option.map_ident
      split: option.splits)

lemma Timestamp_fromDate_Inr:
  "Timestamp_fromDate ms = Inr stamp \<Longrightarrow>
     stamp = FTimestamp ms \<and> - 62135596800 \<le> ms div 1000 \<and> ms div 1000 < 253402300800"
  by (auto simp: Timestamp_fromDate_def MIN_SECONDS_def MAX_SECONDS_def Let_def split: if_splits)

lemma addHealthRecord_Inr:
  assumes "addHealthRecord p iv_rand newId now u rd w = (Inr rid, w')"
  shows "\<exists>blob. encryptObject p iv_rand (sensitivePayload rd) = Inr blob \<and> rid = newId
      \<and> - 62135596800 \<le> rd_date rd div 1000 \<and> rd_date rd div 1000 < 253402300800
      \<and> healthRecords w' = AList.update newId
           [''userId'' \<mapsto> FString u, ''type'' \<mapsto> FString (rd_type rd),
            ''date'' \<mapsto> FTimestamp (rd_date rd), ''createdAt'' \<mapsto> FTimestamp now,
            ''encryptedData'' \<mapsto> FBlob blob] (healthRecords w)
      \<and> users w' = users w"
proof (cases "encryptObject p iv_rand (sensitivePayload rd)")
  case (Inl e)
  with assms show ?thesis by (simp add: addHealthRecord_def)
next
  case enc: (Inr blob)
  show ?thesis
  proof (cases "Timestamp_fromDate (rd_date rd)")
    case (Inl e)
    with assms enc show ?thesis by (simp add: addHealthRecord_def)
  next
    case (Inr stamp)
    note st = Timestamp_fromDate_Inr [OF Inr]
    obtain f w1 where t: "take_fault w = (f, w1)" by (cases "take_fault w")
    note keeps = take_fault_keeps [OF t]
    from assms enc Inr st t keeps show ?thesis
      by (cases f) (auto simp: addHealthRecord_def addDoc_record_def)
  qed
qed

lemma fail_is_not_ok: "fail_result m \<noteq> ok_result"
  by (simp add: fail_result_def ok_result_def)

lemma addDiagnosis_cases:
  assumes "addDiagnosis p iv_rand nowIso rid dg w = (res, w')"
  shows "res \<noteq> ok_result \<and> healthRecords w' = healthRecords w
     \<or> res = ok_result
        \<and> (\<exists>doc decrypted blob. map_of (healthRecords w) rid = Some doc
          \<and> (if truthy (doc ''encryptedData'') then decrypt_field p (doc ''encryptedData'')
              else Inr (JObj [])) = Inr decrypted
          \<and> encryptObject p iv_rand
               (JObj (AList.update ''diagnosis'' (diagnosis_json dg nowIso) (own_properties decrypted)))
              = Inr blob
          \<and> healthRecords w'
              = AList.update rid (doc ++ [''encryptedData'' \<mapsto> FBlob blob]) (healthRecords w))"
proof -
  obtain r1 w1 where g: "getDoc_record rid w = (r1, w1)" by (cases "getDoc_record rid w")
  then have k1: "healthRecords w1 = healthRecords w"
    and c1: "r1 = Inr (map_of (healthRecords w) rid) \<or> (\<exists>e. r1 = Inl e)"
    by (auto simp: getDoc_record_def split: prod.splits bool.splits dest: take_fault_keeps)
  show ?thesis
  proof (cases r1)
    case (Inl e)
    with assms g k1 show ?thesis by (auto simp: addDiagnosis_def fail_is_not_ok)
  next
    case (Inr snap)
    with c1 have snap: "snap = map_of (healthRecords w) rid" by simp
    show ?thesis
    proof (cases snap)
      case None
      with assms g k1 Inr show ?thesis by (auto simp: addDiagnosis_def fail_is_not_ok)
    next
      case (Some doc)
      let ?dec = "if truthy (doc ''encryptedData'') then decrypt_field p (doc ''encryptedData'')
                  else Inr (JObj [])"
      show ?thesis
      proof (cases ?dec)
        case (Inl e)
        with assms g k1 Inr Some show ?thesis by (auto simp: addDiagnosis_def fail_is_not_ok)
      next
        case dec: (Inr decrypted)
        let ?payload = "JObj (AList.update ''diagnosis'' (diagnosis_json dg nowIso)
                                (own_properties decrypted))"
        show ?thesis
        proof (cases "encryptObject p iv_rand ?payload")
          case (Inl e)
          with assms g k1 Inr Some dec show ?thesis by (auto simp: addDiagnosis_def fail_is_not_ok)
        next
          case enc: (Inr blob)
          obtain r2 w2 where u: "updateDoc_record rid [''encryptedData'' \<mapsto> FBlob blob] w1 = (r2, w2)"
            by (cases "updateDoc_record rid [''encryptedData'' \<mapsto> FBlob blob] w1")
          then have either: "(\<exists>e. r2 = Inl e) \<and> healthRecords w2 = healthRecords w
             \<or> r2 = Inr () \<and> healthRecords w2
                 = AList.update rid (doc ++ [''encryptedData'' \<mapsto> FBlob blob]) (healthRecords w)"
            using k1 snap Some
            by (auto simp: updateDoc_record_def split: prod.splits bool.splits option.splits
                dest!: take_fault_keeps)
          have stored: "map_of (healthRecords w) rid = Some doc" using snap Some by simp
          from either show ?thesis
          proof
            assume f: "(\<exists>e. r2 = Inl e) \<and> healthRecords w2 = healthRecords w"
            then obtain e where e: "r2 = Inl e" by (elim conjE exE)
            have "res = fail_result ''Failed to add diagnosis.'' \<and> w' = w2"
              using assms g Inr Some dec enc u e by (auto simp: addDiagnosis_def)
            with f show ?thesis by (simp add: fail_is_not_ok)
          next
            assume s: "r2 = Inr () \<and> healthRecords w2
                 = AList.update rid (doc ++ [''encryptedData'' \<mapsto> FBlob blob]) (healthRecords w)"
            have same: "res = ok_result \<and> w' = w2"
              using assms g Inr Some dec enc u s by (auto simp: addDiagnosis_def)
            have "\<exists>doc decrypted blob. map_of (healthRecords w) rid = Some doc
                \<and> (if truthy (doc ''encryptedData'') then decrypt_field p (doc ''encryptedData'')
                    else Inr (JObj [])) = Inr decrypted
                \<and> encryptObject p iv_rand
                     (JObj (AList.update ''diagnosis'' (diagnosis_json dg nowIso) (own_properties decrypted)))
                    = Inr blob
                \<and> healthRecords w'
                    = AList.update rid (doc ++ [''encryptedData'' \<mapsto> FBlob blob]) (healthRecords w)"
              using stored dec enc s same
              by (intro exI [of _ doc] exI [of _ decrypted] exI [of _ blob] conjI) simp_all
            with same show ?thesis by (intro disjI2 conjI) simp_all
          qed
        qed
      qed
    qed
  qed
qed

lemma decrypted_source:
  assumes "(if truthy (doc ''encryptedData'') then decrypt_field p (doc ''encryptedData'')
            else Inr (JObj [])) = Inr decrypted"
  shows "\<not> truthy (doc ''encryptedData'') \<and> decrypted = JObj []
       \<or> (\<exists>old. doc ''encryptedData'' = Some (FBlob old) \<and> decryptObject p old = Inr decrypted)"
proof (cases "truthy (doc ''encryptedData'')")
  case False
  with assms show ?thesis by simp
next
  case True
  with assms have "decrypt_field p (doc ''encryptedData'') = Inr decrypted" by simp
  then have "\<exists>old. doc ''encryptedData'' = Some (FBlob old) \<and> decryptObject p old = Inr decrypted"
    by (auto simp: decrypt_field_def split: option.splits fvalue.splits)
  then show ?thesis by (rule disjI2)
qed

lemma addHealthRecord_document:
  assumes a: "addHealthRecord p iv_rand newId now u rd w = (Inr rid, w')"
  shows "\<exists>key blob doc.
                getCryptoKey p = Inr key \<and> length key = 32
              \<and> blob = \<lparr>eb_ciphertext = base64_encode p
                            (aes_gcm_encrypt p key iv_rand
                               (utf8_encode p (json_stringify p (sensitivePayload rd)))),
                         eb_iv = base64_encode p iv_rand, eb_alg = ''aes-256-gcm'', eb_v = 1\<rparr>
              \<and> - 62135596800 \<le> rd_date rd div 1000 \<and> rd_date rd div 1000 < 253402300800
              \<and> map_of (healthRecords w') rid = Some doc
              \<and> doc = [''userId'' \<mapsto> FString u, ''type'' \<mapsto> FString (rd_type rd),
                       ''date'' \<mapsto> FTimestamp (rd_date rd), ''createdAt'' \<mapsto> FTimestamp now,
                       ''encryptedData'' \<mapsto> FBlob blob]
              \<and> dom doc = {''userId'', ''type'', ''date'', ''createdAt'', ''encryptedData''}
              \<and> (\<forall>k. k \<noteq> rid \<longrightarrow> map_of (healthRecords w') k = map_of (healthRecords w) k)"
proof -
  from addHealthRecord_Inr [OF a] obtain blob where
    b: "encryptObject p iv_rand (sensitivePayload rd) = Inr blob" "rid = newId"
      "healthRecords w' = AList.update newId
           [''userId'' \<mapsto> FString u, ''type'' \<mapsto> FString (rd_type rd),
            ''date'' \<mapsto> FTimestamp (rd_date rd), ''createdAt'' \<mapsto> FTimestamp now,
            ''encryptedData'' \<mapsto> FBlob blob] (healthRecords w)"
    and range: "- 62135596800 \<le> rd_date rd div 1000" "rd_date rd div 1000 < 253402300800"
    by (elim exE conjE)
  from encryptObject_Inr [OF b(1)] obtain key where
    key: "getCryptoKey p = Inr key" "length key = 32"
    and blob: "blob = \<lparr>eb_ciphertext = base64_encode p
                            (aes_gcm_encrypt p key iv_rand
                               (utf8_encode p (json_stringify p (sensitivePayload rd)))),
                         eb_iv = base64_encode p iv_rand, eb_alg = ''aes-256-gcm'', eb_v = 1\<rparr>"
    by (elim exE conjE)
  let ?doc = "[''userId'' \<mapsto> FString u, ''type'' \<mapsto> FString (rd_type rd),
                       ''date'' \<mapsto> FTimestamp (rd_date rd), ''createdAt'' \<mapsto> FTimestamp now,
                       ''encryptedData'' \<mapsto> FBlob blob]"
  have 1: "map_of (healthRecords w') rid = Some ?doc" using b by (simp add: map_of_update)
  have 2: "dom ?doc = {''userId'', ''type'', ''date'', ''createdAt'', ''encryptedData''}"
    by auto
  have 3: "\<forall>k. k \<noteq> rid \<longrightarrow> map_of (healthRecords w') k = map_of (healthRecords w) k"
    using b by (simp add: map_of_update)
  show ?thesis
    by (intro exI [of _ key] exI [of _ blob] exI [of _ ?doc] conjI)
       (fact key blob range 1 2 3 refl)+
qed

lemma addDiagnosis_written:
  assumes a: "addDiagnosis p iv2 nowIso rid2 dg w' = (ok_result, w'')"
  shows "\<exists>key doc decrypted blob.
             getCryptoKey p = Inr key \<and> length key = 32
           \<and> map_of (healthRecords w') rid2 = Some doc
           \<and> (\<not> truthy (doc ''encryptedData'') \<and> decrypted = JObj []
              \<or> (\<exists>old. doc ''encryptedData'' = Some (FBlob old)
                      \<and> decryptObject p old = Inr decrypted))
           \<and> blob = \<lparr>eb_ciphertext = base64_encode p
                         (aes_gcm_encrypt p key iv2
                            (utf8_encode p (json_stringify p
                               (JObj (AList.update ''diagnosis'' (diagnosis_json dg nowIso)
                                        (own_properties decrypted)))))),
                      eb_iv = base64_encode p iv2, eb_alg = ''aes-256-gcm'', eb_v = 1\<rparr>
           \<and> map_of (healthRecords w'') rid2 = Some (doc(''encryptedData'' \<mapsto> FBlob blob))"
proof -
  from addDiagnosis_cases [OF a]
  have "\<exists>doc decrypted blob. map_of (healthRecords w') rid2 = Some doc
          \<and> (if truthy (doc ''encryptedData'') then decrypt_field p (doc ''encryptedData'')
              else Inr (JObj [])) = Inr decrypted
          \<and> encryptObject p iv2
               (JObj (AList.update ''diagnosis'' (diagnosis_json dg nowIso) (own_properties decrypted)))
              = Inr blob
          \<and> healthRecords w''
              = AList.update rid2 (doc ++ [''encryptedData'' \<mapsto> FBlob blob]) (healthRecords w')"
    by simp
  then obtain doc decrypted blob where
    o1: "map_of (healthRecords w') rid2 = Some doc"
    and o2: "(if truthy (doc ''encryptedData'') then decrypt_field p (doc ''encryptedData'')
              else Inr (JObj [])) = Inr decrypted"
    and o3: "encryptObject p iv2
               (JObj (AList.update ''diagnosis'' (diagnosis_json dg nowIso) (own_properties decrypted)))
              = Inr blob"
    and o4: "healthRecords w''
              = AList.update rid2 (doc ++ [''encryptedData'' \<mapsto> FBlob blob]) (healthRecords w')"
    by (elim exE conjE)
  from encryptObject_Inr [OF o3] obtain key where
    key: "getCryptoKey p = Inr key" "length key = 32"
    and blob: "blob = \<lparr>eb_ciphertext = base64_encode p
                         (aes_gcm_encrypt p key iv2
                            (utf8_encode p (json_stringify p
                               (JObj (AList.update ''diagnosis'' (diagnosis_json dg nowIso)
                                        (own_properties decrypted)))))),
                      eb_iv = base64_encode p iv2, eb_alg = ''aes-256-gcm'', eb_v = 1\<rparr>"
    by (elim exE conjE)
  note src = decrypted_source [of doc p decrypted, OF o2]
  have got: "map_of (healthRecords w'') rid2 = Some (doc(''encryptedData'' \<mapsto> FBlob blob))"
    using o4 by (simp add: map_of_update)
  show ?thesis
    by (intro exI [of _ key] exI [of _ doc] exI [of _ decrypted] exI [of _ blob] conjI)
       (fact key o1 src blob got)+
qed

lemma addDiagnosis_failed:
  assumes a: "addDiagnosis p iv2 nowIso rid2 dg w' = (res, w'')" and f: "res \<noteq> ok_result"
  shows "healthRecords w'' = healthRecords w'"
  using addDiagnosis_cases [OF a] f by simp

lemma addDiagnosis_document:
  assumes a: "addDiagnosis p iv2 nowIso rid2 dg w' = (res, w'')"
    and d: "map_of (healthRecords w') k = Some doc"
  shows "\<exists>doc'. map_of (healthRecords w'') k = Some doc'
                  \<and> (\<forall>f. f \<noteq> ''encryptedData'' \<longrightarrow> doc' f = doc f)
                  \<and> dom doc' = dom doc \<union> (if doc' = doc then {} else {''encryptedData''})
                  \<and> (k \<noteq> rid2 \<longrightarrow> doc' = doc)"
proof -
  let ?goal = "\<lambda>doc'. map_of (healthRecords w'') k = Some doc'
                  \<and> (\<forall>f. f \<noteq> ''encryptedData'' \<longrightarrow> doc' f = doc f)
                  \<and> dom doc' = dom doc \<union> (if doc' = doc then {} else {''encryptedData''})
                  \<and> (k \<noteq> rid2 \<longrightarrow> doc' = doc)"
  have kept: "?goal doc" if got: "map_of (healthRecords w'') k = Some doc"
    using got by simp
  from addDiagnosis_cases [OF a]
  show "\<exists>doc'. ?goal doc'"
  proof
    assume "res \<noteq> ok_result \<and> healthRecords w'' = healthRecords w'"
    with d have "map_of (healthRecords w'') k = Some doc" by simp
    from kept [OF this] show ?thesis by (rule exI [of "?goal" doc])
  next
    assume "res = ok_result
        \<and> (\<exists>doc decrypted blob. map_of (healthRecords w') rid2 = Some doc
          \<and> (if truthy (doc ''encryptedData'') then decrypt_field p (doc ''encryptedData'')
              else Inr (JObj [])) = Inr decrypted
          \<and> encryptObject p iv2
               (JObj (AList.update ''diagnosis'' (diagnosis_json dg nowIso) (own_properties decrypted)))
              = Inr blob
          \<and> healthRecords w''
              = AList.update rid2 (doc ++ [''encryptedData'' \<mapsto> FBlob blob]) (healthRecords w'))"
    then obtain doc0 and blob :: EncryptedBlob where
      o1: "map_of (healthRecords w') rid2 = Some doc0"
      and o3: "healthRecords w''
              = AList.update rid2 (doc0 ++ [''encryptedData'' \<mapsto> FBlob blob]) (healthRecords w')"
      by (elim exE conjE)
    show ?thesis
    proof (cases "k = rid2")
      case False
      with d o3 have "map_of (healthRecords w'') k = Some doc" by (simp add: map_of_update)
      from kept [OF this] show ?thesis by (rule exI [of "?goal" doc])
    next
      case True
      with d o1 have same: "doc0 = doc" by simp
      let ?doc' = "doc ++ [''encryptedData'' \<mapsto> FBlob blob]"
      have got: "map_of (healthRecords w'') k = Some ?doc'"
        using True o3 same by (simp add: map_of_update)
      have dm: "dom ?doc' = dom doc \<union> (if ?doc' = doc then {} else {''encryptedData''})"
      proof (cases "?doc' = doc")
        case True
        then have "dom ?doc' = dom doc" by simp
        with True show ?thesis by simp
      next
        case False
        have "dom ?doc' = dom doc \<union> {''encryptedData''}" by auto
        with False show ?thesis by simp
      qed
      have others: "\<forall>f. f \<noteq> ''encryptedData'' \<longrightarrow> ?doc' f = doc f"
        by (simp add: map_add_def)
      have last: "k \<noteq> rid2 \<longrightarrow> ?doc' = doc" using True by simp
      have "?goal ?doc'"
        by (intro conjI) (fact got others dm last)+
      then show ?thesis by (rule exI [of "?goal" "?doc'"])
    qed
  qed
qed

lemma addDiagnosis_no_new_document:
  assumes a: "addDiagnosis p iv2 nowIso rid2 dg w' = (res, w'')"
    and d: "map_of (healthRecords w') k = None"
  shows "map_of (healthRecords w'') k = None"
  using addDiagnosis_cases [OF a]
proof
  assume "res \<noteq> ok_result \<and> healthRecords w'' = healthRecords w'"
  with d show ?thesis by simp
next
  assume "res = ok_result
        \<and> (\<exists>doc decrypted blob. map_of (healthRecords w') rid2 = Some doc
          \<and> (if truthy (doc ''encryptedData'') then decrypt_field p (doc ''encryptedData'')
              else Inr (JObj [])) = Inr decrypted
          \<and> encryptObject p iv2
               (JObj (AList.update ''diagnosis'' (diagnosis_json dg nowIso) (own_properties decrypted)))
              = Inr blob
          \<and> healthRecords w''
              = AList.update rid2 (doc ++ [''encryptedData'' \<mapsto> FBlob blob]) (healthRecords w'))"
  then obtain doc0 and blob :: EncryptedBlob where
    o1: "map_of (healthRecords w') rid2 = Some doc0"
    and o3: "healthRecords w''
            = AList.update rid2 (doc0 ++ [''encryptedData'' \<mapsto> FBlob blob]) (healthRecords w')"
    by (elim exE conjE)
  from o1 d have "k \<noteq> rid2" by auto
  with o3 d show ?thesis by (simp add: map_of_update)
qed

text \<open>
  Claim C2. When \<^verbatim>\<open>addHealthRecord\<close> returns an id, the key of the installation is
  32 bytes long and the new document is exactly: \<open>userId\<close> the owner, \<open>type\<close> the record
  type, \<open>date\<close> the record date (within the range the store accepts), \<open>createdAt\<close> the
  server time, and \<open>encryptedData\<close> the blob tagged \<open>aes-256-gcm\<close>, version 1, whose
  ciphertext is the base64 text of the AES-GCM encryption, under that key and the drawn
  nonce, of the UTF-8 bytes of the JSON text of the sensitive payload; no other document
  changes. The sensitive payload holds the title, the content and, where given, blood
  pressure, pulse rate, diagnosis, attachment URL, attachment CID, attachment key and
  attachment IV. \<^verbatim>\<open>addDiagnosisToRecord\<close> of the store layer leaves all documents as
  they were when it does not report success; when it reports success the addressed
  document existed and its \<open>encryptedData\<close> is now the blob, made in the same way, of
  the payload that the old blob decrypted to (the empty object when there was none)
  with its \<open>diagnosis\<close> member set to the signed diagnosis. In either case every field
  other than \<open>encryptedData\<close> of every document is as it was, no field but
  \<open>encryptedData\<close> is added, documents other than the addressed one are unchanged, and
  no document is created.
\<close>

theorem sensitive_fields_encrypted:
  shows "(addHealthRecord p iv_rand newId now u rd w = (Inr rid, w') \<longrightarrow>
            (\<exists>key blob doc.
                getCryptoKey p = Inr key \<and> length key = 32
              \<and> blob = \<lparr>eb_ciphertext = base64_encode p
                            (aes_gcm_encrypt p key iv_rand
                               (utf8_encode p (json_stringify p (sensitivePayload rd)))),
                         eb_iv = base64_encode p iv_rand, eb_alg = ''aes-256-gcm'', eb_v = 1\<rparr>
              \<and> - 62135596800 \<le> rd_date rd div 1000 \<and> rd_date rd div 1000 < 253402300800
              \<and> map_of (healthRecords w') rid = Some doc
              \<and> doc = [''userId'' \<mapsto> FString u, ''type'' \<mapsto> FString (rd_type rd),
                       ''date'' \<mapsto> FTimestamp (rd_date rd), ''createdAt'' \<mapsto> FTimestamp now,
                       ''encryptedData'' \<mapsto> FBlob blob]
              \<and> dom doc = {''userId'', ''type'', ''date'', ''createdAt'', ''encryptedData''}
              \<and> (\<forall>k. k \<noteq> rid \<longrightarrow> map_of (healthRecords w') k = map_of (healthRecords w) k)))
       \<and> member (sensitivePayload rd) ''title'' = Some (JStr (rd_title rd))
       \<and> member (sensitivePayload rd) ''content'' = Some (JStr (rd_content rd))
       \<and> member (sensitivePayload rd) ''bloodPressure'' = map_option JStr (rd_bloodPressure rd)
       \<and> member (sensitivePayload rd) ''pulseRate'' = map_option JNum (rd_pulseRate rd)
       \<and> member (sensitivePayload rd) ''diagnosis'' = rd_diagnosis rd
       \<and> member (sensitivePayload rd) ''attachmentUrl'' = map_option JStr (rd_attachmentUrl rd)
       \<and> member (sensitivePayload rd) ''attachmentCid'' = map_option JStr (rd_attachmentCid rd)
       \<and> member (sensitivePayload rd) ''attachmentEncryptionKey''
           = map_option JStr (rd_attachmentEncryptionKey rd)
       \<and> member (sensitivePayload rd) ''attachmentEncryptionIv''
           = map_option JStr (rd_attachmentEncryptionIv rd)
       \<and> (addDiagnosis p iv2 nowIso rid2 dg w' = (res, w'') \<longrightarrow>
            (res \<noteq> ok_result \<longrightarrow> healthRecords w'' = healthRecords w')
          \<and> (res = ok_result \<longrightarrow>
               (\<exists>key doc decrypted blob.
                   getCryptoKey p = Inr key \<and> length key = 32
                 \<and> map_of (healthRecords w') rid2 = Some doc
                 \<and> (\<not> truthy (doc ''encryptedData'') \<and> decrypted = JObj []
                    \<or> (\<exists>old. doc ''encryptedData'' = Some (FBlob old)
                            \<and> decryptObject p old = Inr decrypted))
                 \<and> blob = \<lparr>eb_ciphertext = base64_encode p
                               (aes_gcm_encrypt p key iv2
                                  (utf8_encode p (json_stringify p
                                     (JObj (AList.update ''diagnosis'' (diagnosis_json dg nowIso)
                                              (own_properties decrypted)))))),
                            eb_iv = base64_encode p iv2, eb_alg = ''aes-256-gcm'', eb_v = 1\<rparr>
                 \<and> map_of (healthRecords w'') rid2 = Some (doc(''encryptedData'' \<mapsto> FBlob blob))))
          \<and> (\<forall>k doc. map_of (healthRecords w') k = Some doc \<longrightarrow>
               (\<exists>doc'. map_of (healthRecords w'') k = Some doc'
                  \<and> (\<forall>f. f \<noteq> ''encryptedData'' \<longrightarrow> doc' f = doc f)
                  \<and> dom doc' = dom doc \<union> (if doc' = doc then {} else {''encryptedData''})
                  \<and> (k \<noteq> rid2 \<longrightarrow> doc' = doc)))
          \<and> (\<forall>k. map_of (healthRecords w') k = None \<longrightarrow> map_of (healthRecords w'') k = None))"
    (is "?added \<and> ?m1 \<and> ?m2 \<and> ?m3 \<and> ?m4 \<and> ?m5 \<and> ?m6 \<and> ?m7 \<and> ?m8 \<and> ?m9
          \<and> (?diagnosed \<longrightarrow> ?failed \<and> ?written \<and> ?fields \<and> ?none_new)")
proof (intro conjI)
  show ?added by (rule impI) (rule addHealthRecord_document)
  show ?m1 by (fact sensitivePayload_members(1))
  show ?m2 by (fact sensitivePayload_members(2))
  show ?m3 by (fact sensitivePayload_members(3))
  show ?m4 by (fact sensitivePayload_members(4))
  show ?m5 by (fact sensitivePayload_members(5))
  show ?m6 by (fact sensitivePayload_members(6))
  show ?m7 by (fact sensitivePayload_members(7))
  show ?m8 by (fact sensitivePayload_members(8))
  show ?m9 by (fact sensitivePayload_members(9))
  show "?diagnosed \<longrightarrow> ?failed \<and> ?written \<and> ?fields \<and> ?none_new"
  proof (rule impI, intro conjI)
    assume a: ?diagnosed
    show ?failed by (rule impI) (rule addDiagnosis_failed [OF a])
    show ?written
    proof (rule impI)
      assume "res = ok_result"
      with a have "addDiagnosis p iv2 nowIso rid2 dg w' = (ok_result, w'')" by simp
      then show "\<exists>key doc decrypted blob.
                   getCryptoKey p = Inr key \<and> length key = 32
                 \<and> map_of (healthRecords w') rid2 = Some doc
                 \<and> (\<not> truthy (doc ''encryptedData'') \<and> decrypted = JObj []
                    \<or> (\<exists>old. doc ''encryptedData'' = Some (FBlob old)
                            \<and> decryptObject p old = Inr decrypted))
                 \<and> blob = \<lparr>eb_ciphertext = base64_encode p
                               (aes_gcm_encrypt p key iv2
                                  (utf8_encode p (json_stringify p
                                     (JObj (AList.update ''diagnosis'' (diagnosis_json dg nowIso)
                                              (own_properties decrypted)))))),
                            eb_iv = base64_encode p iv2, eb_alg = ''aes-256-gcm'', eb_v = 1\<rparr>
                 \<and> map_of (healthRecords w'') rid2 = Some (doc(''encryptedData'' \<mapsto> FBlob blob))"
        by (rule addDiagnosis_written)
    qed
    show ?fields by (intro allI impI) (rule addDiagnosis_document [OF a])
    show ?none_new by (intro allI impI) (rule addDiagnosis_no_new_document [OF a])
  qed
qed

lemma demo_record_date: "rd_date demo_record_data = 1700000200000"
  by (simp add: demo_record_data_def)

lemma demo_key_configured: "getCryptoKey demo_platform = Inr demo_key"
  by (simp add: getCryptoKey_def demo_platform_def demo_key_def)

lemma demo_addHealthRecord:
  "fst (addHealthRecord demo_platform ''nonce-000003'' ''rec3'' 1700000200500 ''pat1''
          demo_record_data demo_world) = Inr ''rec3''"
  by (simp add: addHealthRecord_def encryptObject_def demo_key_configured
      Timestamp_fromDate_def MIN_SECONDS_def MAX_SECONDS_def demo_record_date
      addDoc_record_def take_fault_def demo_world_def Let_def)

lemma demo_getDoc: "getDoc_record ''rec1'' demo_world = (Inr (Some demo_document), demo_world)"
  by (simp add: getDoc_record_def take_fault_def demo_world_def)

lemma demo_decrypt_field:
  "truthy (demo_document ''encryptedData'')
   \<and> decrypt_field demo_platform (demo_document ''encryptedData'') = Inr (JObj [])"
  by (simp add: truthy_def decrypt_field_def demo_document_def demo_blob_opens)

lemma demo_encrypt: "\<exists>blob. encryptObject demo_platform n j = Inr blob"
  by (simp add: encryptObject_def demo_key_configured Let_def)

lemma demo_updateDoc:
  "fst (updateDoc_record ''rec1'' upd demo_world) = Inr ()"
  by (simp add: updateDoc_record_def take_fault_def demo_world_def)

lemma demo_addDiagnosis:
  "fst (addDiagnosis demo_platform ''nonce-000004'' ''2024-01-01T00:00:00.000Z'' ''rec1''
          demo_signed_diagnosis demo_world) = ok_result"
proof -
  obtain blob where b: "encryptObject demo_platform ''nonce-000004''
       (JObj (AList.update ''diagnosis''
                (diagnosis_json demo_signed_diagnosis ''2024-01-01T00:00:00.000Z'')
                (own_properties (JObj [])))) = Inr blob"
    using demo_encrypt [of "''nonce-000004''" "JObj (AList.update ''diagnosis''
                (diagnosis_json demo_signed_diagnosis ''2024-01-01T00:00:00.000Z'')
                (own_properties (JObj [])))"] by (elim exE)
  obtain r w2 where u: "updateDoc_record ''rec1'' [''encryptedData'' \<mapsto> FBlob blob] demo_world = (r, w2)"
    by (cases "updateDoc_record ''rec1'' [''encryptedData'' \<mapsto> FBlob blob] demo_world")
  with demo_updateDoc [of "[''encryptedData'' \<mapsto> FBlob blob]"] have r: "r = Inr ()" by simp
  show ?thesis
    unfolding addDiagnosis_def
    by (simp add: demo_getDoc demo_decrypt_field b u r Let_def del: own_properties.simps)
qed

lemma demo_sealed:
  "\<lparr>eb_ciphertext = base64_encode demo_platform
       (aes_gcm_encrypt demo_platform demo_key n (utf8_encode demo_platform (json_stringify demo_platform j))),
     eb_iv = base64_encode demo_platform n, eb_alg = ''aes-256-gcm'', eb_v = 1\<rparr>
   = \<lparr>eb_ciphertext = demo_key @ n @ ''{}'', eb_iv = n, eb_alg = ''aes-256-gcm'', eb_v = 1\<rparr>"
  by (simp add: demo_platform_def demo_seal_def)

text \<open>
  The instance: a record is added to the small installation and a diagnosis is written
  to its existing record. Both documents hold the four metadata fields and a blob
  tagged \<open>aes-256-gcm\<close> whose ciphertext is the sealed JSON text (the stand-in cipher
  puts key and nonce in front of the text, and the stand-in JSON writer gives \<open>{}\<close>).
\<close>

theorem sensitive_fields_encrypted_witness:
  "fst (addHealthRecord demo_platform ''nonce-000003'' ''rec3'' 1700000200500 ''pat1''
          demo_record_data demo_world) = Inr ''rec3''
   \<and> fst (addDiagnosis demo_platform ''nonce-000004'' ''2024-01-01T00:00:00.000Z'' ''rec1''
          demo_signed_diagnosis demo_world) = ok_result
   \<and> map_of (healthRecords demo_world) ''rec1'' = Some demo_document
   \<and> map_of (healthRecords (snd (addHealthRecord demo_platform ''nonce-000003'' ''rec3''
                  1700000200500 ''pat1'' demo_record_data demo_world))) ''rec3''
       = Some [''userId'' \<mapsto> FString ''pat1'', ''type'' \<mapsto> FString ''lab_report'',
               ''date'' \<mapsto> FTimestamp 1700000200000, ''createdAt'' \<mapsto> FTimestamp 1700000200500,
               ''encryptedData'' \<mapsto> FBlob \<lparr>eb_ciphertext = demo_key @ ''nonce-000003'' @ ''{}'',
                                             eb_iv = ''nonce-000003'', eb_alg = ''aes-256-gcm'',
                                             eb_v = 1\<rparr>]
   \<and> map_of (healthRecords (snd (addDiagnosis demo_platform ''nonce-000004''
                  ''2024-01-01T00:00:00.000Z'' ''rec1'' demo_signed_diagnosis demo_world))) ''rec1''
       = Some (demo_document(''encryptedData'' \<mapsto>
                 FBlob \<lparr>eb_ciphertext = demo_key @ ''nonce-000004'' @ ''{}'',
                        eb_iv = ''nonce-000004'', eb_alg = ''aes-256-gcm'', eb_v = 1\<rparr>))"
proof -
  let ?add = "addHealthRecord demo_platform ''nonce-000003'' ''rec3'' 1700000200500 ''pat1''
                  demo_record_data demo_world"
  let ?diag = "addDiagnosis demo_platform ''nonce-000004'' ''2024-01-01T00:00:00.000Z'' ''rec1''
                  demo_signed_diagnosis demo_world"
  have 1: "?add = (Inr ''rec3'', snd ?add)"
    using demo_addHealthRecord by (simp add: prod_eq_iff)
  have 2: "?diag = (ok_result, snd ?diag)"
    using demo_addDiagnosis by (simp add: prod_eq_iff)
  have 3: "map_of (healthRecords demo_world) ''rec1'' = Some demo_document"
    by (simp add: demo_world_def)
  have rt: "rd_type demo_record_data = ''lab_report''" by (simp add: demo_record_data_def)
  note add_part = sensitive_fields_encrypted [of demo_platform "''nonce-000003''" "''rec3''"
      1700000200500 "''pat1''" demo_record_data demo_world "''rec3''" "snd ?add",
      THEN conjunct1, THEN mp, OF 1]
  then obtain key and blob :: EncryptedBlob and doc where
    k1: "getCryptoKey demo_platform = Inr key"
    and b1: "blob = \<lparr>eb_ciphertext = base64_encode demo_platform
                            (aes_gcm_encrypt demo_platform key ''nonce-000003''
                               (utf8_encode demo_platform
                                  (json_stringify demo_platform (sensitivePayload demo_record_data)))),
                         eb_iv = base64_encode demo_platform ''nonce-000003'',
                         eb_alg = ''aes-256-gcm'', eb_v = 1\<rparr>"
    and a1: "map_of (healthRecords (snd ?add)) ''rec3'' = Some doc"
    and a2: "doc = [''userId'' \<mapsto> FString ''pat1'', ''type'' \<mapsto> FString (rd_type demo_record_data),
                       ''date'' \<mapsto> FTimestamp (rd_date demo_record_data),
                       ''createdAt'' \<mapsto> FTimestamp 1700000200500,
                       ''encryptedData'' \<mapsto> FBlob blob]"
    by (elim exE conjE)
  from k1 have key1: "key = demo_key" by (simp add: demo_key_configured)
  have blob1: "blob = \<lparr>eb_ciphertext = demo_key @ ''nonce-000003'' @ ''{}'',
                       eb_iv = ''nonce-000003'', eb_alg = ''aes-256-gcm'', eb_v = 1\<rparr>"
    unfolding b1 key1 by (rule demo_sealed)
  have a: "map_of (healthRecords (snd ?add)) ''rec3''
       = Some [''userId'' \<mapsto> FString ''pat1'', ''type'' \<mapsto> FString ''lab_report'',
               ''date'' \<mapsto> FTimestamp 1700000200000, ''createdAt'' \<mapsto> FTimestamp 1700000200500,
               ''encryptedData'' \<mapsto> FBlob \<lparr>eb_ciphertext = demo_key @ ''nonce-000003'' @ ''{}'',
                                             eb_iv = ''nonce-000003'', eb_alg = ''aes-256-gcm'',
                                             eb_v = 1\<rparr>]"
    unfolding a1 a2 blob1 rt demo_record_date by (rule refl)
  note diag_part = sensitive_fields_encrypted [of demo_platform _ _ _ _ _ _ _ demo_world
      "''nonce-000004''" "''2024-01-01T00:00:00.000Z''" "''rec1''" demo_signed_diagnosis
      ok_result "snd ?diag", THEN conjunct2, THEN conjunct2, THEN conjunct2, THEN conjunct2,
      THEN conjunct2, THEN conjunct2, THEN conjunct2, THEN conjunct2, THEN conjunct2,
      THEN conjunct2, THEN mp, OF 2, THEN conjunct2, THEN conjunct1, THEN mp, OF refl]
  then obtain key2 doc2 decrypted and blob2 :: EncryptedBlob where
    k2: "getCryptoKey demo_platform = Inr key2"
    and d0: "map_of (healthRecords demo_world) ''rec1'' = Some doc2"
    and b2: "blob2 = \<lparr>eb_ciphertext = base64_encode demo_platform
                               (aes_gcm_encrypt demo_platform key2 ''nonce-000004''
                                  (utf8_encode demo_platform (json_stringify demo_platform
                                     (JObj (AList.update ''diagnosis''
                                              (diagnosis_json demo_signed_diagnosis ''2024-01-01T00:00:00.000Z'')
                                              (own_properties decrypted)))))),
                            eb_iv = base64_encode demo_platform ''nonce-000004'',
                            eb_alg = ''aes-256-gcm'', eb_v = 1\<rparr>"
    and d1: "map_of (healthRecords (snd ?diag)) ''rec1'' = Some (doc2(''encryptedData'' \<mapsto> FBlob blob2))"
    by (elim exE conjE)
  from k2 have key2: "key2 = demo_key" by (simp add: demo_key_configured)
  from d0 3 have doc2: "doc2 = demo_document" by simp
  have blob2: "blob2 = \<lparr>eb_ciphertext = demo_key @ ''nonce-000004'' @ ''{}'',
                        eb_iv = ''nonce-000004'', eb_alg = ''aes-256-gcm'', eb_v = 1\<rparr>"
    unfolding b2 key2 by (rule demo_sealed)
  have b: "map_of (healthRecords (snd ?diag)) ''rec1''
       = Some (demo_document(''encryptedData'' \<mapsto>
                 FBlob \<lparr>eb_ciphertext = demo_key @ ''nonce-000004'' @ ''{}'',
                        eb_iv = ''nonce-000004'', eb_alg = ''aes-256-gcm'', eb_v = 1\<rparr>))"
    unfolding d1 doc2 blob2 by (rule refl)
  from demo_addHealthRecord demo_addDiagnosis 3 a b show ?thesis by (intro conjI)
qed


subsection \<open>Registering a file on the ledger\<close>

lemma find_first_hit:
  "(\<forall>y \<in> set pre. \<not> P y) \<Longrightarrow> P x \<Longrightarrow> find P (pre @ x # post) = Some x"
  by (induction pre) auto

lemma is_FileCreated_iff:
  "is_FileCreated c l \<longleftrightarrow> (\<exists>args. parseLog c l = ParseOk ''FileCreated'' args)"
  by (cases "parseLog c l") (auto simp: is_FileCreated_def)

lemma first_arg_or_zero_eq: "first_arg_or_zero args = (case args of [] \<Rightarrow> 0 | a # rest \<Rightarrow> a)"
  by (cases args) (auto simp: first_arg_or_zero_def)

text \<open>
  Claim C9. When a signer is available and the \<^verbatim>\<open>createFile\<close> transaction is
  submitted and its receipt arrives, \<^verbatim>\<open>createFileOnChain\<close> returns the receipt's
  transaction hash together with the first argument of the first log that parses as a
  \<^verbatim>\<open>FileCreated\<close> event; when no log of the receipt parses as one (the parser
  throwing counts as not parsing), it queries \<^verbatim>\<open>getTotalFiles\<close> and returns that
  number as the file id with the same transaction hash, or fails as that query fails.
\<close>

theorem createFileOnChain_fileId:
  assumes signer: "getContractWithSigner c = Inr ()"
    and tx: "createFile c cid hash mimeType fsize = Inr (Inr receipt)"
  shows "(\<forall>pre ev post args.
            rc_logs receipt = pre @ ev # post
          \<and> (\<forall>l \<in> set pre. \<not> is_FileCreated c l)
          \<and> parseLog c ev = ParseOk ''FileCreated'' args
          \<longrightarrow> createFileOnChain c cid hash mimeType fsize
                = Inr \<lparr>txHash = rc_hash receipt,
                       fileId = (case args of [] \<Rightarrow> 0 | a # rest \<Rightarrow> a)\<rparr>)
       \<and> ((\<forall>l \<in> set (rc_logs receipt). \<not> is_FileCreated c l) \<longrightarrow>
             (\<forall>n. getTotalFiles c = Inr n \<longrightarrow>
                createFileOnChain c cid hash mimeType fsize
                  = Inr \<lparr>txHash = rc_hash receipt, fileId = n\<rparr>)
           \<and> (\<forall>e. getTotalFiles c = Inl e \<longrightarrow>
                createFileOnChain c cid hash mimeType fsize = Inl e))"
proof (intro conjI allI impI)
  fix pre ev post args
  assume h: "rc_logs receipt = pre @ ev # post
          \<and> (\<forall>l \<in> set pre. \<not> is_FileCreated c l)
          \<and> parseLog c ev = ParseOk ''FileCreated'' args"
  then have "is_FileCreated c ev" by (simp add: is_FileCreated_iff)
  with h have "find (is_FileCreated c) (rc_logs receipt) = Some ev"
    by (simp add: find_first_hit)
  with h signer tx show "createFileOnChain c cid hash mimeType fsize
                = Inr \<lparr>txHash = rc_hash receipt,
                       fileId = (case args of [] \<Rightarrow> 0 | a # rest \<Rightarrow> a)\<rparr>"
    by (simp add: createFileOnChain_def first_arg_or_zero_eq)
next
  fix n
  assume "\<forall>l \<in> set (rc_logs receipt). \<not> is_FileCreated c l" and n: "getTotalFiles c = Inr n"
  then have "find (is_FileCreated c) (rc_logs receipt) = None" by (simp add: find_None_iff)
  with n signer tx show "createFileOnChain c cid hash mimeType fsize
                  = Inr \<lparr>txHash = rc_hash receipt, fileId = n\<rparr>"
    by (simp add: createFileOnChain_def)
next
  fix e
  assume "\<forall>l \<in> set (rc_logs receipt). \<not> is_FileCreated c l" and e: "getTotalFiles c = Inl e"
  then have "find (is_FileCreated c) (rc_logs receipt) = None" by (simp add: find_None_iff)
  with e signer tx show "createFileOnChain c cid hash mimeType fsize = Inl e"
    by (simp add: createFileOnChain_def)
qed

text \<open>
  The instances: a receipt whose third log is the event of file 42, and a receipt
  without such a log on a ledger that counts 9 files.
\<close>

theorem createFileOnChain_fileId_witness:
  "getContractWithSigner (demo_ledger [1, 2, 3, 4]) = Inr ()
   \<and> createFile (demo_ledger [1, 2, 3, 4]) ''bafy1'' ''9f86d0'' ''application/pdf'' 2048
       = Inr (Inr \<lparr>rc_hash = ''0xabc123'', rc_logs = [1, 2, 3, 4]\<rparr>)
   \<and> parseLog (demo_ledger [1, 2, 3, 4]) 3 = ParseOk ''FileCreated'' [42]
   \<and> \<not> is_FileCreated (demo_ledger [1, 2, 3, 4]) 1
   \<and> \<not> is_FileCreated (demo_ledger [1, 2, 3, 4]) 2
   \<and> createFileOnChain (demo_ledger [1, 2, 3, 4]) ''bafy1'' ''9f86d0'' ''application/pdf'' 2048
       = Inr \<lparr>txHash = ''0xabc123'', fileId = 42\<rparr>
   \<and> getContractWithSigner (demo_ledger [1, 2]) = Inr ()
   \<and> \<not> is_FileCreated (demo_ledger [1, 2]) 1
   \<and> \<not> is_FileCreated (demo_ledger [1, 2]) 2
   \<and> getTotalFiles (demo_ledger [1, 2]) = Inr 9
   \<and> createFileOnChain (demo_ledger [1, 2]) ''bafy1'' ''9f86d0'' ''application/pdf'' 2048
       = Inr \<lparr>txHash = ''0xabc123'', fileId = 9\<rparr>"
proof -
  let ?c = "demo_ledger [1, 2, 3, 4]"
  let ?d = "demo_ledger [1, 2]"
  let ?r = "\<lparr>rc_hash = ''0xabc123'', rc_logs = [1, 2, 3, 4 :: nat]\<rparr>"
  let ?s = "\<lparr>rc_hash = ''0xabc123'', rc_logs = [1, 2 :: nat]\<rparr>"
  have 1: "getContractWithSigner ?c = Inr ()" "getContractWithSigner ?d = Inr ()"
    by (simp_all add: getContractWithSigner_def demo_ledger_def)
  have 2: "createFile ?c ''bafy1'' ''9f86d0'' ''application/pdf'' 2048 = Inr (Inr ?r)"
    and 3: "createFile ?d ''bafy1'' ''9f86d0'' ''application/pdf'' 2048 = Inr (Inr ?s)"
    by (simp_all add: demo_ledger_def)
  have 4: "parseLog ?c 3 = ParseOk ''FileCreated'' [42]"
    by (simp add: demo_ledger_def demo_parseLog_def)
  have 5: "\<not> is_FileCreated ?c 1" "\<not> is_FileCreated ?c 2"
    "\<not> is_FileCreated ?d 1" "\<not> is_FileCreated ?d 2"
    by (simp_all add: is_FileCreated_def demo_ledger_def demo_parseLog_def)
  have 6: "getTotalFiles ?d = Inr 9" by (simp add: demo_ledger_def)
  have split: "rc_logs ?r = [1, 2] @ 3 # [4]" by simp
  have before: "\<forall>l \<in> set [1, 2 :: nat]. \<not> is_FileCreated ?c l" using 5 by simp
  have none: "\<forall>l \<in> set (rc_logs ?s). \<not> is_FileCreated ?d l" using 5 by simp
  from createFileOnChain_fileId [OF 1(1) 2, THEN conjunct1, THEN spec, THEN spec, THEN spec,
      THEN spec, THEN mp, OF conjI [OF split conjI [OF before 4]]]
  have a: "createFileOnChain ?c ''bafy1'' ''9f86d0'' ''application/pdf'' 2048
       = Inr \<lparr>txHash = ''0xabc123'', fileId = 42\<rparr>" by simp
  from createFileOnChain_fileId [OF 1(2) 3, THEN conjunct2, THEN mp, OF none, THEN conjunct1,
      THEN spec, THEN mp, OF 6]
  have b: "createFileOnChain ?d ''bafy1'' ''9f86d0'' ''application/pdf'' 2048
       = Inr \<lparr>txHash = ''0xabc123'', fileId = 9\<rparr>" by simp
  from 1 2 4 5 6 a b show ?thesis by (intro conjI)
qed



subsection \<open>Fetching through the gateways\<close>


















subsection \<open>Viewing and downloading an attachment\<close>

lemma str_includes_prefix: "prefix needle hay \<Longrightarrow> str_includes hay needle"
  by (cases hay) auto

lemma fetch_error_text_exhausted:
  "fetch_error_text fallback cid (all_gateways_failed lastError cid')
     = ''Network error: Could not fetch file from IPFS. '' @
       ''This might be due to:\<newline>'' @
       ''1. File not pinned in Pinata\<newline>'' @
       ''2. Network connectivity issues\<newline>'' @
       ''3. CORS restrictions\<newline>\<newline>'' @
       ''CID: '' @ take 20 cid @ ''...\<newline>'' @
       ''Try checking Pinata dashboard to verify the file is pinned.''"
proof -
  let ?m = "''Failed to fetch file from all IPFS gateways. Last error: '' @ last_message lastError
            @ ''. '' @ ''CID: '' @ cid' @ ''. Please verify the file is pinned in Pinata.''"
  have m: "message (all_gateways_failed lastError cid') = ?m"
    by (simp add: all_gateways_failed_def)
  have "prefix ''Failed to fetch'' ?m" by simp
  then have inc: "str_includes ?m ''Failed to fetch''" by (rule str_includes_prefix)
  have ne: "?m \<noteq> []" by simp
  show ?thesis
    unfolding fetch_error_text_def m Let_def
    using inc ne by (simp only: if_False if_True)
qed

lemma getEncryptedFile_error:
  "cid \<noteq> [] \<Longrightarrow> fst (getEncryptedFile p fetch cid) = Inl err \<Longrightarrow>
   \<exists>lastError. err = all_gateways_failed lastError cid"
  by (auto simp: getEncryptedFile_def split: prod.splits sum.splits)

lemma decryptFile_digest: "decryptFile (br\<lparr>sha256_hex := digest\<rparr>) = decryptFile br"
proof (intro ext)
  fix data k n
  have a: "atob (br\<lparr>sha256_hex := digest\<rparr>) = atob br"
    and s: "subtle (br\<lparr>sha256_hex := digest\<rparr>) = subtle br" by simp_all
  show "decryptFile (br\<lparr>sha256_hex := digest\<rparr>) data k n = decryptFile br data k n"
    unfolding decryptFile_def a s by (rule refl)
qed

text \<open>
  Claim C6, as the code has it. For a non-empty CID, what a click on view or download
  ends in is decided by the fetch and by the decryption alone. When the gateways yield
  a buffer and key and nonce are given, that buffer goes straight to decryption: its
  plaintext is opened (or saved), and a rejection is shown as \<^verbatim>\<open>Decryption failed: \<close>
  followed by the reason. Without key or nonce the keys-not-available text is shown. A
  failed fetch is shown as the network-error text with the first 20 characters of the
  CID, the same for both handlers. The digest function of the browser has no influence
  on either handler.
\<close>

theorem viewer_decrypts_without_digest:
  assumes cid: "vp_cid props \<noteq> []"
  shows "(\<forall>data k n.
            fst (getEncryptedFile p fetch (vp_cid props)) = Inr data
          \<and> keys_available props = Some (k, n)
          \<longrightarrow> handleView p br fetch props
                = (case decryptFile br data k n of
                     Inl e \<Rightarrow> ShowError (''Decryption failed: '' @ message e)
                   | Inr d \<Rightarrow> Opened d (vp_mimeType props))
            \<and> handleDownload p br fetch props
                = (case decryptFile br data k n of
                     Inl e \<Rightarrow> ShowError (''Decryption failed: '' @ message e)
                   | Inr d \<Rightarrow> Downloaded d (if vp_fileName props = [] then ''attachment''
                                              else vp_fileName props)))
       \<and> (\<forall>data.
            fst (getEncryptedFile p fetch (vp_cid props)) = Inr data
          \<and> keys_available props = None
          \<longrightarrow> handleView p br fetch props
                = ShowError ''Encryption keys not available. Cannot decrypt file.''
            \<and> handleDownload p br fetch props
                = ShowError ''Encryption keys not available. Cannot decrypt file.'')
       \<and> (\<forall>err.
            fst (getEncryptedFile p fetch (vp_cid props)) = Inl err
          \<longrightarrow> handleView p br fetch props
                = ShowError (''Network error: Could not fetch file from IPFS. '' @
                     ''This might be due to:\<newline>'' @
                     ''1. File not pinned in Pinata\<newline>'' @
                     ''2. Network connectivity issues\<newline>'' @
                     ''3. CORS restrictions\<newline>\<newline>'' @
                     ''CID: '' @ take 20 (vp_cid props) @ ''...\<newline>'' @
                     ''Try checking Pinata dashboard to verify the file is pinned.'')
            \<and> handleDownload p br fetch props = handleView p br fetch props)
       \<and> (\<forall>digest. handleView p (br\<lparr>sha256_hex := digest\<rparr>) fetch props = handleView p br fetch props
                  \<and> handleDownload p (br\<lparr>sha256_hex := digest\<rparr>) fetch props
                      = handleDownload p br fetch props)"
proof (intro conjI allI impI)
  fix data k n
  assume h: "fst (getEncryptedFile p fetch (vp_cid props)) = Inr data
          \<and> keys_available props = Some (k, n)"
  with cid show "handleView p br fetch props
                = (case decryptFile br data k n of
                     Inl e \<Rightarrow> ShowError (''Decryption failed: '' @ message e)
                   | Inr d \<Rightarrow> Opened d (vp_mimeType props))"
    by (simp add: handleView_def)
  from h cid show "handleDownload p br fetch props
                = (case decryptFile br data k n of
                     Inl e \<Rightarrow> ShowError (''Decryption failed: '' @ message e)
                   | Inr d \<Rightarrow> Downloaded d (if vp_fileName props = [] then ''attachment''
                                              else vp_fileName props))"
    by (simp add: handleDownload_def)
next
  fix data
  assume h: "fst (getEncryptedFile p fetch (vp_cid props)) = Inr data
          \<and> keys_available props = None"
  with cid show "handleView p br fetch props
                = ShowError ''Encryption keys not available. Cannot decrypt file.''"
    by (simp add: handleView_def)
  from h cid show "handleDownload p br fetch props
                = ShowError ''Encryption keys not available. Cannot decrypt file.''"
    by (simp add: handleDownload_def)
next
  fix err
  assume h: "fst (getEncryptedFile p fetch (vp_cid props)) = Inl err"
  from getEncryptedFile_error [OF cid h] obtain lastError
    where e: "err = all_gateways_failed lastError (vp_cid props)" by (elim exE)
  have v: "handleView p br fetch props
             = ShowError (fetch_error_text ''Failed to fetch file from Pinata'' (vp_cid props) err)"
    using cid h by (simp add: handleView_def)
  have d: "handleDownload p br fetch props
             = ShowError (fetch_error_text ''Failed to download file'' (vp_cid props) err)"
    using cid h by (simp add: handleDownload_def)
  show "handleView p br fetch props
                = ShowError (''Network error: Could not fetch file from IPFS. '' @
                     ''This might be due to:\<newline>'' @
                     ''1. File not pinned in Pinata\<newline>'' @
                     ''2. Network connectivity issues\<newline>'' @
                     ''3. CORS restrictions\<newline>\<newline>'' @
                     ''CID: '' @ take 20 (vp_cid props) @ ''...\<newline>'' @
                     ''Try checking Pinata dashboard to verify the file is pinned.'')"
    unfolding v e by (simp only: fetch_error_text_exhausted)
  show "handleDownload p br fetch props = handleView p br fetch props"
    unfolding v d e by (simp only: fetch_error_text_exhausted)
next
  fix digest
  show "handleView p (br\<lparr>sha256_hex := digest\<rparr>) fetch props = handleView p br fetch props"
    unfolding handleView_def decryptFile_digest by (rule refl)
  show "handleDownload p (br\<lparr>sha256_hex := digest\<rparr>) fetch props = handleDownload p br fetch props"
    unfolding handleDownload_def decryptFile_digest by (rule refl)
qed


lemma demo_swapped_fetch:
  "fst (getEncryptedFile demo_platform demo_swapped ''bafy1'')
     = Inr (demo_seal demo_key ''nonce-000007'' ''substituted'')"
  by (simp add: getEncryptedFile_def gateways_def try_gateway_def demo_swapped_def res_ok_def
      demo_seal_def demo_key_def)

lemma demo_viewer_keys: "keys_available demo_viewer_props = Some (demo_key, ''nonce-000007'')"
  by (simp add: keys_available_def demo_viewer_props_def demo_key_def)

lemma demo_viewer_decrypt:
  "decryptFile demo_browser (demo_seal demo_key ''nonce-000007'' ''substituted'') demo_key
     ''nonce-000007'' = Inr ''substituted''"
  by (simp add: decryptFile_def demo_browser_def demo_seal_open)

lemma demo_viewer_cid: "vp_cid demo_viewer_props = ''bafy1''"
  by (simp add: demo_viewer_props_def)

text \<open>The instance: the stand-in browser and the gateways that serve the other ciphertext.\<close>

theorem viewer_decrypts_without_digest_witness:
  "vp_cid demo_viewer_props \<noteq> []
   \<and> fst (getEncryptedFile demo_platform demo_swapped (vp_cid demo_viewer_props))
       = Inr (demo_seal demo_key ''nonce-000007'' ''substituted'')
   \<and> keys_available demo_viewer_props = Some (demo_key, ''nonce-000007'')
   \<and> handleView demo_platform demo_browser demo_swapped demo_viewer_props
       = Opened ''substituted'' ''application/pdf''
   \<and> handleDownload demo_platform demo_browser demo_swapped demo_viewer_props
       = Downloaded ''substituted'' ''panel.pdf''"
proof -
  have 1: "vp_cid demo_viewer_props \<noteq> []" by (simp add: demo_viewer_cid)
  have 2: "fst (getEncryptedFile demo_platform demo_swapped (vp_cid demo_viewer_props))
       = Inr (demo_seal demo_key ''nonce-000007'' ''substituted'')"
    by (simp only: demo_viewer_cid demo_swapped_fetch)
  note 3 = demo_viewer_keys
  from viewer_decrypts_without_digest [OF 1, of demo_platform demo_swapped demo_browser,
      THEN conjunct1, THEN spec, THEN spec, THEN spec, THEN mp, OF conjI [OF 2 3]]
  have "handleView demo_platform demo_browser demo_swapped demo_viewer_props
       = Opened ''substituted'' ''application/pdf''
   \<and> handleDownload demo_platform demo_browser demo_swapped demo_viewer_props
       = Downloaded ''substituted'' ''panel.pdf''"
    by (simp add: demo_viewer_decrypt) (simp add: demo_viewer_props_def)
  with 1 2 3 show ?thesis by (intro conjI) simp_all
qed

text \<open>
  Against claim C6 as stated: the buffer the gateways serve has a digest different
  from that of the uploaded ciphertext, and both handlers decrypt it and hand its
  plaintext to the user; no integrity error is reported.
\<close>

theorem digest_verified_first_counterexample:
  "sha256_hex demo_browser (demo_seal demo_key ''nonce-000007'' ''substituted'')
     \<noteq> sha256_hex demo_browser demo_uploaded
   \<and> fst (getEncryptedFile demo_platform demo_swapped ''bafy1'')
       = Inr (demo_seal demo_key ''nonce-000007'' ''substituted'')
   \<and> handleView demo_platform demo_browser demo_swapped demo_viewer_props
       = Opened ''substituted'' ''application/pdf''
   \<and> handleDownload demo_platform demo_browser demo_swapped demo_viewer_props
       = Downloaded ''substituted'' ''panel.pdf''"
proof -
  have d: "sha256_hex demo_browser (demo_seal demo_key ''nonce-000007'' ''substituted'')
     \<noteq> sha256_hex demo_browser demo_uploaded"
    by (simp add: demo_browser_def demo_uploaded_def demo_seal_def)
  have v: "handleView demo_platform demo_browser demo_swapped demo_viewer_props
       = Opened ''substituted'' ''application/pdf''"
    by (simp add: handleView_def demo_viewer_cid demo_swapped_fetch demo_viewer_keys
        demo_viewer_decrypt) (simp add: demo_viewer_props_def)
  have l: "handleDownload demo_platform demo_browser demo_swapped demo_viewer_props
       = Downloaded ''substituted'' ''panel.pdf''"
    by (simp add: handleDownload_def demo_viewer_cid demo_swapped_fetch demo_viewer_keys
        demo_viewer_decrypt) (simp add: demo_viewer_props_def)
  from d demo_swapped_fetch v l show ?thesis by (intro conjI)
qed


subsection \<open>The plain copy of an attachment\<close>

lemma upload_dir_plain:
  assumes "u \<noteq> []" "u \<noteq> ''.''" "u \<noteq> ''..''"
  shows "upload_dir fs u
           = (if fs_cwd fs = ''/'' then [] else fs_cwd fs) @ ''/public/uploads/'' @ u"
  using assms by (simp add: upload_dir_def path_join_def)

lemma replace_special_chars: "set (replace_special s) \<subseteq> {c. is_safe_char c \<or> c = CHR ''_''}"
  by (auto simp: replace_special_def)

lemma collapse_underscores_chars: "set (collapse_underscores s) \<subseteq> set s"
  by (induction s rule: collapse_underscores.induct) auto

lemma strip_underscores_chars: "set (strip_underscores s) \<subseteq> set s"
proof -
  have "set (butlast xs) \<subseteq> set xs" for xs :: string
    by (auto dest: in_set_butlastD)
  then show ?thesis
    by (cases s) (auto simp: strip_underscores_def Let_def dest: in_set_butlastD)
qed

lemma safe_filename_chars: "set (safe_filename s) \<subseteq> {c. is_safe_char c \<or> c = CHR ''_''}"
  unfolding safe_filename_def
  using strip_underscores_chars collapse_underscores_chars replace_special_chars
  by (meson subset_trans)

lemma dot_is_safe: "is_safe_char CHR ''.''"
  by (simp add: is_safe_char_def)

lemma extname_chars: "set (extname n) \<subseteq> insert CHR ''.'' (set n)"
proof -
  have "set (takeWhile P (rev n)) \<subseteq> set n" for P
    using set_takeWhileD [of _ P "rev n"] by auto
  then show ?thesis by (auto simp: extname_def Let_def)
qed

lemma basename_chars: "set (basename n e) \<subseteq> set n"
  by (auto simp: basename_def dest: in_set_takeD)

lemma digit_is_safe: "d < 10 \<Longrightarrow> is_safe_char (char_of (48 + d))"
  for d :: nat
  by (simp add: is_safe_char_def Let_def)

lemma show_nat_chars: "set (show_nat n) \<subseteq> {c. is_safe_char c}"
proof (induction n rule: show_nat.induct)
  case (1 n)
  show ?case
  proof (cases "n < 10")
    case True
    then show ?thesis by (simp add: show_nat.simps [of n] digit_is_safe)
  next
    case False
    have "n mod 10 < 10" by simp
    from digit_is_safe [OF this] 1 [OF False] False show ?thesis
      by (simp add: show_nat.simps [of n])
  qed
qed

lemma numbered_chars:
  assumes "set n \<subseteq> {c. is_safe_char c \<or> c = CHR ''_''}"
  shows "set (numbered (basename n (extname n)) (extname n) k)
           \<subseteq> {c. is_safe_char c \<or> c = CHR ''_''}"
proof -
  have a: "set (basename n (extname n)) \<subseteq> {c. is_safe_char c \<or> c = CHR ''_''}"
    using basename_chars [of n "extname n"] assms by blast
  have e: "set (extname n) \<subseteq> {c. is_safe_char c \<or> c = CHR ''_''}"
    using extname_chars [of n] assms dot_is_safe by auto
  have d: "set (show_nat k) \<subseteq> {c. is_safe_char c \<or> c = CHR ''_''}"
    using show_nat_chars [of k] by auto
  from a e d show ?thesis by (auto simp: numbered_def)
qed

lemma next_free_numbered:
  "\<exists>c. next_free fs d a e k = numbered a e c"
proof (induction fs d a e k rule: next_free.induct)
  case (1 fs d a e k)
  show ?case
  proof (cases "existsSync fs (path_join d (numbered a e k))")
    case True
    with 1 [OF True] show ?thesis by (simp add: next_free.simps [of fs d a e k])
  next
    case False
    then have "next_free fs d a e k = numbered a e k"
      by (simp add: next_free.simps [of fs d a e k])
    then show ?thesis by (rule exI [of _ k])
  qed
qed

lemma numbered_plain: "numbered a e c \<noteq> [] \<and> numbered a e c \<noteq> ''.'' \<and> numbered a e c \<noteq> ''..''"
proof -
  have "CHR ''_'' \<in> set (numbered a e c)" by (simp add: numbered_def)
  then show ?thesis by auto
qed

lemma final_filename_chars:
  "set (final_filename fs d (safe_filename s)) \<subseteq> {c. is_safe_char c \<or> c = CHR ''_''}"
proof (cases "existsSync fs (path_join d (safe_filename s))")
  case False
  then show ?thesis using safe_filename_chars [of s] by (simp add: final_filename_def Let_def)
next
  case True
  let ?n = "safe_filename s"
  obtain c where "next_free fs d (basename ?n (extname ?n)) (extname ?n) 1
                    = numbered (basename ?n (extname ?n)) (extname ?n) c"
    using next_free_numbered [of fs d "basename ?n (extname ?n)" "extname ?n" 1] by (elim exE)
  with True numbered_chars [OF safe_filename_chars [of s], of c] show ?thesis
    by (simp add: final_filename_def Let_def)
qed

lemma final_filename_no_separator: "CHR ''/'' \<notin> set (final_filename fs d (safe_filename s))"
proof
  assume "CHR ''/'' \<in> set (final_filename fs d (safe_filename s))"
  with final_filename_chars [of fs d s] have "is_safe_char CHR ''/'' \<or> CHR ''/'' = CHR ''_''"
    by blast
  then show False by (simp add: is_safe_char_def)
qed

lemma final_filename_named:
  assumes "existsSync fs d"
  shows "final_filename fs d n \<noteq> [] \<and> final_filename fs d n \<noteq> ''.''"
proof (cases "existsSync fs (path_join d n)")
  case True
  obtain c where "next_free fs d (basename n (extname n)) (extname n) 1
                    = numbered (basename n (extname n)) (extname n) c"
    using next_free_numbered [of fs d "basename n (extname n)" "extname n" 1] by (elim exE)
  with True numbered_plain [of "basename n (extname n)" "extname n" c] show ?thesis
    by (simp add: final_filename_def Let_def)
next
  case False
  with assms have "n \<noteq> [] \<and> n \<noteq> ''.''" by (auto simp: path_join_def)
  with False show ?thesis by (simp add: final_filename_def Let_def)
qed

lemma ensureDir_Inr:
  assumes "ensureDir fs d = Inr fs1"
  shows "fs_files fs1 = fs_files fs \<and> fs_cwd fs1 = fs_cwd fs \<and> fs_writable fs1 = fs_writable fs
       \<and> existsSync fs1 d"
  using assms by (auto simp: ensureDir_def existsSync_def split: if_splits)

lemma POST_upload_JsonOk:
  assumes "POST_upload fs (Some (FormFile f)) (Some u) = (JsonOk url fn orig, fs')"
  shows "u \<noteq> []
       \<and> (\<exists>fs1. ensureDir fs (upload_dir fs u) = Inr fs1
            \<and> fn = final_filename fs1 (upload_dir fs u)
                     (safe_filename (if up_name f = [] then ''file'' else up_name f))
            \<and> url = ''/uploads/'' @ u @ ''/'' @ fn
            \<and> fs_files fs' = AList.update (path_join (upload_dir fs u) fn) (up_bytes f) (fs_files fs))"
proof (cases "u = []")
  case True
  with assms show ?thesis by (simp add: POST_upload_def)
next
  case u: False
  show ?thesis
  proof (cases "ensureDir fs (upload_dir fs u)")
    case (Inl e)
    with assms u show ?thesis by (simp add: POST_upload_def)
  next
    case (Inr fs1)
    note kept = ensureDir_Inr [OF Inr]
    let ?fn = "final_filename fs1 (upload_dir fs u)
                     (safe_filename (if up_name f = [] then ''file'' else up_name f))"
    from assms u Inr have sized: "\<not> length (up_bytes f) > MAX_FILE_SIZE"
      and typed: "\<not> (up_type f \<noteq> [] \<and> up_type f \<notin> set ALLOWED_MIME)"
      by (auto simp: POST_upload_def Let_def split: if_splits)
    show ?thesis
    proof (cases "writeFile fs1 (path_join (upload_dir fs u) ?fn) (up_bytes f)")
      case (Inl e)
      with assms u Inr sized typed show ?thesis by (simp add: POST_upload_def Let_def)
    next
      case w: (Inr fs2)
      then have files: "fs_files fs2
          = AList.update (path_join (upload_dir fs u) ?fn) (up_bytes f) (fs_files fs1)"
        by (auto simp: writeFile_def split: if_splits)
      from assms u Inr sized typed w have "url = ''/uploads/'' @ u @ ''/'' @ ?fn"
        and "fn = ?fn" and "fs' = fs2"
        by (auto simp: POST_upload_def Let_def)
      with files kept Inr u show ?thesis by simp
    qed
  qed
qed

lemma safe_name_kept:
  assumes "\<forall>c \<in> set s. is_safe_char c"
  shows "safe_filename s = s"
proof -
  have under: "\<not> is_safe_char CHR ''_''" by (simp add: is_safe_char_def)
  with assms have none: "CHR ''_'' \<notin> set s" by blast
  from assms have 1: "replace_special s = s" by (simp add: replace_special_def map_idI)
  have 2: "CHR ''_'' \<notin> set t \<Longrightarrow> collapse_underscores t = t" for t
    by (induction t rule: collapse_underscores.induct) auto
  have 3: "strip_underscores s = s"
  proof (cases s)
    case Nil
    then show ?thesis by (simp add: strip_underscores_def)
  next
    case (Cons c cs)
    with none have "c \<noteq> CHR ''_''" and "last s \<noteq> CHR ''_''"
      using last_in_set [of s] by auto
    with Cons show ?thesis by (simp add: strip_underscores_def Let_def)
  qed
  from 1 2 [OF none] 3 show ?thesis by (simp add: safe_filename_def)
qed

lemma as_form_part_keeps:
  "up_name (as_form_part file) = up_name file \<and> up_bytes (as_form_part file) = up_bytes file"
  by (simp add: as_form_part_def)

lemma uploadFile_Inr:
  assumes "uploadFile fs u file = (Inr url, fs')"
  shows "u \<noteq> []
       \<and> (\<exists>fs1. ensureDir fs (upload_dir fs u) = Inr fs1
            \<and> url = ''/uploads/'' @ u @ ''/''
                     @ final_filename fs1 (upload_dir fs u)
                         (safe_filename (if up_name file = [] then ''file'' else up_name file))
            \<and> fs_files fs'
                = AList.update
                    (path_join (upload_dir fs u)
                       (final_filename fs1 (upload_dir fs u)
                          (safe_filename (if up_name file = [] then ''file'' else up_name file))))
                    (up_bytes file) (fs_files fs))"
proof -
  obtain res fs2 where p: "POST_upload fs (Some (FormFile (as_form_part file))) (Some u) = (res, fs2)"
    by (cases "POST_upload fs (Some (FormFile (as_form_part file))) (Some u)")
  show ?thesis
  proof (cases res)
    case (JsonError code msg)
    with assms p show ?thesis by (simp add: uploadFile_def)
  next
    case (JsonOk url' fn orig)
    with assms p have same: "url' = url" "fs2 = fs'" by (simp_all add: uploadFile_def)
    from POST_upload_JsonOk [OF p [unfolded JsonOk same]] show ?thesis
      by (auto simp: as_form_part_keeps)
  qed
qed

lemma uploadEncryptedToPinata_Inr:
  assumes "uploadEncryptedToPinata p br sr dr file = (Inr pin, sent)"
  shows "sent = [storage_request p br dr file]"
  using assms
  by (auto simp: uploadEncryptedToPinata_def Let_def split: option.splits sum.splits prod.splits)

lemma onSubmit_created:
  assumes c: "sb_record (onSubmit p br sr dr (Some u) values) = Some rid"
    and a: "fv_attachment values = file # rest"
  shows "\<exists>url fs1 pin w'.
        uploadFile (sr_fs sr) u file = (Inr url, fs1)
      \<and> addHealthRecord p (dr_recordIv dr) (dr_newId dr) (dr_now dr) u
            (form_record values (Some url) (Some pin)) (sr_world sr) = (Inr rid, w')
      \<and> sb_requests (onSubmit p br sr dr (Some u) values)
            = [PostApiUpload file u, storage_request p br dr file]
      \<and> sb_fs (onSubmit p br sr dr (Some u) values) = fs1
      \<and> sb_world (onSubmit p br sr dr (Some u) values) = w'"
proof -
  obtain r1 fs1 where u: "uploadFile (sr_fs sr) u file = (r1, fs1)"
    by (cases "uploadFile (sr_fs sr) u file")
  show ?thesis
  proof (cases r1)
    case (Inl e)
    with c a u show ?thesis by (simp add: onSubmit_def)
  next
    case url: (Inr url)
    obtain r2 sent where e: "uploadEncryptedToPinata p br sr dr file = (r2, sent)"
      by (cases "uploadEncryptedToPinata p br sr dr file")
    show ?thesis
    proof (cases r2)
      case (Inl e2)
      with c a u url e show ?thesis by (simp add: onSubmit_def)
    next
      case pin: (Inr pin)
      from uploadEncryptedToPinata_Inr [OF e [unfolded pin]]
      have sent: "sent = [storage_request p br dr file]" .
      obtain r3 w' where s: "addHealthRecord p (dr_recordIv dr) (dr_newId dr) (dr_now dr) u
            (form_record values (Some url) (Some pin)) (sr_world sr) = (r3, w')"
        by (cases "addHealthRecord p (dr_recordIv dr) (dr_newId dr) (dr_now dr) u
            (form_record values (Some url) (Some pin)) (sr_world sr)")
      show ?thesis
      proof (cases r3)
        case (Inl e3)
        with c a u url e pin s show ?thesis by (simp add: onSubmit_def save_record_def)
      next
        case (Inr rid')
        with c a u url e pin s have rid: "rid' = rid" by (simp add: onSubmit_def save_record_def)
        have 1: "uploadFile (sr_fs sr) u file = (Inr url, fs1)" using u url by simp
        have 2: "addHealthRecord p (dr_recordIv dr) (dr_newId dr) (dr_now dr) u
            (form_record values (Some url) (Some pin)) (sr_world sr) = (Inr rid, w')"
          using s Inr rid by simp
        have 3: "sb_requests (onSubmit p br sr dr (Some u) values)
            = [PostApiUpload file u, storage_request p br dr file]"
          and 4: "sb_fs (onSubmit p br sr dr (Some u) values) = fs1"
          and 5: "sb_world (onSubmit p br sr dr (Some u) values) = w'"
          using a u url e pin sent s Inr by (simp_all add: onSubmit_def save_record_def)
        show ?thesis
          by (intro exI [of _ url] exI [of _ fs1] exI [of _ pin] exI [of _ w'] conjI)
             (fact 1 2 3 4 5)+
      qed
    qed
  qed
qed

text \<open>
  Claim C3. Let a submission of the record form with a file attached create a record,
  for a user id that is one path segment. Then exactly two requests were sent, first
  the file itself with the user id to \<^verbatim>\<open>/api/upload\<close>, then the ciphertext of its
  bytes to \<^verbatim>\<open>/api/storage/upload\<close>. The server's disk afterwards holds the file's
  bytes, as they are, under the directory \<open>public/uploads/<user id>\<close> of the working
  directory, in a file whose name is the sanitised name of the upload (numbered when
  that name was taken): a non-empty name without a separator, and the upload's own
  name when that consists of letters, digits, dots and hyphens and was free. The URL
  \<open>/uploads/<user id>/<stored name>\<close> is the \<open>attachmentUrl\<close> member of the payload
  whose encryption is stored in the new record.
\<close>

theorem attachment_plaintext_copy:
  assumes created: "sb_record (onSubmit p br sr dr (Some u) values) = Some rid"
    and attached: "fv_attachment values = file # rest"
    and segment: "CHR ''/'' \<notin> set u \<and> u \<noteq> ''.'' \<and> u \<noteq> ''..''"
  shows "\<exists>disk stored url pin key.
       ensureDir (sr_fs sr) (upload_dir (sr_fs sr) u) = Inr disk
     \<and> upload_dir (sr_fs sr) u
         = (if fs_cwd (sr_fs sr) = ''/'' then [] else fs_cwd (sr_fs sr)) @ ''/public/uploads/'' @ u
     \<and> stored = final_filename disk (upload_dir (sr_fs sr) u)
                  (safe_filename (if up_name file = [] then ''file'' else up_name file))
     \<and> stored \<noteq> [] \<and> stored \<noteq> ''.'' \<and> CHR ''/'' \<notin> set stored
     \<and> ((\<forall>c \<in> set (up_name file). is_safe_char c) \<and> up_name file \<noteq> []
          \<and> \<not> existsSync disk (path_join (upload_dir (sr_fs sr) u) (up_name file))
          \<longrightarrow> stored = up_name file)
     \<and> url = ''/uploads/'' @ u @ ''/'' @ stored
     \<and> sb_requests (onSubmit p br sr dr (Some u) values)
         = [PostApiUpload file u,
            PostApiStorageUpload
              (aes_gcm_encrypt p (dr_fileKey dr) (dr_fileIv dr) (up_bytes file))
              (up_name file) (type_or_pdf file)
              (sha256_hex br (aes_gcm_encrypt p (dr_fileKey dr) (dr_fileIv dr) (up_bytes file)))]
     \<and> map_of (fs_files (sb_fs (onSubmit p br sr dr (Some u) values)))
          (path_join (upload_dir (sr_fs sr) u) stored) = Some (up_bytes file)
     \<and> (stored \<noteq> ''..'' \<longrightarrow>
          path_join (upload_dir (sr_fs sr) u) stored = upload_dir (sr_fs sr) u @ ''/'' @ stored)
     \<and> getCryptoKey p = Inr key
     \<and> map_of (healthRecords (sb_world (onSubmit p br sr dr (Some u) values))) rid
         = Some [''userId'' \<mapsto> FString u, ''type'' \<mapsto> FString (fv_type values),
                 ''date'' \<mapsto> FTimestamp (fv_date values),
                 ''createdAt'' \<mapsto> FTimestamp (dr_now dr),
                 ''encryptedData'' \<mapsto> FBlob
                    \<lparr>eb_ciphertext = base64_encode p
                       (aes_gcm_encrypt p key (dr_recordIv dr)
                          (utf8_encode p (json_stringify p
                             (sensitivePayload (form_record values (Some url) (Some pin)))))),
                     eb_iv = base64_encode p (dr_recordIv dr), eb_alg = ''aes-256-gcm'',
                     eb_v = 1\<rparr>]
     \<and> member (sensitivePayload (form_record values (Some url) (Some pin))) ''attachmentUrl''
         = Some (JStr url)"
proof -
  let ?out = "onSubmit p br sr dr (Some u) values"
  let ?dir = "upload_dir (sr_fs sr) u"
  let ?name = "if up_name file = [] then ''file'' else up_name file"
  from onSubmit_created [OF created attached] obtain url fs1 pin w' where
    up: "uploadFile (sr_fs sr) u file = (Inr url, fs1)"
    and add: "addHealthRecord p (dr_recordIv dr) (dr_newId dr) (dr_now dr) u
            (form_record values (Some url) (Some pin)) (sr_world sr) = (Inr rid, w')"
    and reqs: "sb_requests ?out = [PostApiUpload file u, storage_request p br dr file]"
    and fs: "sb_fs ?out = fs1"
    and world: "sb_world ?out = w'"
    by (elim exE conjE)
  from uploadFile_Inr [OF up] obtain disk where
    u: "u \<noteq> []"
    and disk: "ensureDir (sr_fs sr) ?dir = Inr disk"
    and url: "url = ''/uploads/'' @ u @ ''/'' @ final_filename disk ?dir (safe_filename ?name)"
    and files: "fs_files fs1
                = AList.update (path_join ?dir (final_filename disk ?dir (safe_filename ?name)))
                    (up_bytes file) (fs_files (sr_fs sr))"
    by (elim exE conjE)
  let ?stored = "final_filename disk ?dir (safe_filename ?name)"
  have dir: "?dir = (if fs_cwd (sr_fs sr) = ''/'' then [] else fs_cwd (sr_fs sr))
                      @ ''/public/uploads/'' @ u"
    using u segment by (intro upload_dir_plain) simp_all
  have there: "existsSync disk ?dir" using ensureDir_Inr [OF disk] by simp
  from final_filename_named [OF there, of "safe_filename ?name"]
  have named: "?stored \<noteq> []" "?stored \<noteq> ''.''" by simp_all
  have sep: "CHR ''/'' \<notin> set ?stored" by (rule final_filename_no_separator)
  have own: "(\<forall>c \<in> set (up_name file). is_safe_char c) \<and> up_name file \<noteq> []
          \<and> \<not> existsSync disk (path_join ?dir (up_name file))
          \<longrightarrow> ?stored = up_name file"
  proof (intro impI, elim conjE)
    assume s: "\<forall>c \<in> set (up_name file). is_safe_char c" and n: "up_name file \<noteq> []"
      and f: "\<not> existsSync disk (path_join ?dir (up_name file))"
    from n safe_name_kept [OF s] have "safe_filename ?name = up_name file" by simp
    with f show "?stored = up_name file" by (simp add: final_filename_def Let_def)
  qed
  have sent: "sb_requests ?out
         = [PostApiUpload file u,
            PostApiStorageUpload
              (aes_gcm_encrypt p (dr_fileKey dr) (dr_fileIv dr) (up_bytes file))
              (up_name file) (type_or_pdf file)
              (sha256_hex br (aes_gcm_encrypt p (dr_fileKey dr) (dr_fileIv dr) (up_bytes file)))]"
    using reqs by (simp add: storage_request_def file_ciphertext_def)
  have held: "map_of (fs_files (sb_fs ?out)) (path_join ?dir ?stored) = Some (up_bytes file)"
    unfolding fs files by (simp add: map_of_update)
  have root: "?dir \<noteq> ''/''" unfolding dir by simp
  have below: "?stored \<noteq> ''..'' \<longrightarrow> path_join ?dir ?stored = ?dir @ ''/'' @ ?stored"
    using named root by (simp add: path_join_def)
  from addHealthRecord_document [OF add] obtain key and blob :: EncryptedBlob and doc where
    key: "getCryptoKey p = Inr key"
    and blob: "blob = \<lparr>eb_ciphertext = base64_encode p
                            (aes_gcm_encrypt p key (dr_recordIv dr)
                               (utf8_encode p (json_stringify p
                                  (sensitivePayload (form_record values (Some url) (Some pin)))))),
                         eb_iv = base64_encode p (dr_recordIv dr), eb_alg = ''aes-256-gcm'',
                         eb_v = 1\<rparr>"
    and got: "map_of (healthRecords w') rid = Some doc"
    and doc: "doc = [''userId'' \<mapsto> FString u,
                     ''type'' \<mapsto> FString (rd_type (form_record values (Some url) (Some pin))),
                     ''date'' \<mapsto> FTimestamp (rd_date (form_record values (Some url) (Some pin))),
                     ''createdAt'' \<mapsto> FTimestamp (dr_now dr),
                     ''encryptedData'' \<mapsto> FBlob blob]"
    by (elim exE conjE)
  have rec: "map_of (healthRecords (sb_world ?out)) rid
         = Some [''userId'' \<mapsto> FString u, ''type'' \<mapsto> FString (fv_type values),
                 ''date'' \<mapsto> FTimestamp (fv_date values),
                 ''createdAt'' \<mapsto> FTimestamp (dr_now dr),
                 ''encryptedData'' \<mapsto> FBlob
                    \<lparr>eb_ciphertext = base64_encode p
                       (aes_gcm_encrypt p key (dr_recordIv dr)
                          (utf8_encode p (json_stringify p
                             (sensitivePayload (form_record values (Some url) (Some pin)))))),
                     eb_iv = base64_encode p (dr_recordIv dr), eb_alg = ''aes-256-gcm'',
                     eb_v = 1\<rparr>]"
    unfolding world got doc blob by (simp add: form_record_def)
  have link: "member (sensitivePayload (form_record values (Some url) (Some pin))) ''attachmentUrl''
         = Some (JStr url)"
    by (simp add: sensitivePayload_members(6) form_record_def)
  show ?thesis
    by (intro exI [of _ disk] exI [of _ ?stored] exI [of _ url] exI [of _ pin] exI [of _ key] conjI)
       (fact disk dir refl named sep own url sent held below key rec link)+
qed

lemma demo_upload_dir: "upload_dir demo_disk ''pat1'' = ''/srv/app/public/uploads/pat1''"
  by (simp add: upload_dir_def path_join_def demo_disk_def)

lemma demo_ensureDir:
  "ensureDir demo_disk ''/srv/app/public/uploads/pat1''
     = Inr (demo_disk\<lparr>fs_dirs := [''/srv/app/public/uploads/pat1'', ''/srv/app/public/uploads'',
                                    ''/srv/app/public'', ''/srv/app'']\<rparr>)"
  by (simp add: ensureDir_def existsSync_def is_file_def parent_dir_def demo_disk_def Let_def)

lemma demo_file_name_safe: "\<forall>c \<in> set ''panel.pdf''. is_safe_char c"
  by (simp add: is_safe_char_def Let_def)

lemma demo_final_filename:
  "final_filename (demo_disk\<lparr>fs_dirs := [''/srv/app/public/uploads/pat1'', ''/srv/app/public/uploads'',
                                    ''/srv/app/public'', ''/srv/app'']\<rparr>)
     ''/srv/app/public/uploads/pat1'' (safe_filename ''panel.pdf'') = ''panel.pdf''"
  by (simp add: safe_name_kept [OF demo_file_name_safe] final_filename_def existsSync_def
      path_join_def demo_disk_def Let_def)

lemma demo_uploadFile:
  "uploadFile demo_disk ''pat1'' demo_file
     = (Inr ''/uploads/pat1/panel.pdf'',
        demo_disk\<lparr>fs_dirs := [''/srv/app/public/uploads/pat1'', ''/srv/app/public/uploads'',
                                ''/srv/app/public'', ''/srv/app''],
                   fs_files := [(''/srv/app/public/uploads/pat1/panel.pdf'', ''%PDF-1.7 blood panel'')]\<rparr>)"
proof -
  have part: "as_form_part demo_file = demo_file" by (simp add: as_form_part_def demo_file_def)
  have name: "up_name demo_file = ''panel.pdf''" and bytes: "up_bytes demo_file = ''%PDF-1.7 blood panel''"
    and mime: "up_type demo_file = ''application/pdf''"
    by (simp_all add: demo_file_def)
  have wrote: "writeFile (demo_disk\<lparr>fs_dirs := [''/srv/app/public/uploads/pat1'', ''/srv/app/public/uploads'',
                                    ''/srv/app/public'', ''/srv/app'']\<rparr>)
                 ''/srv/app/public/uploads/pat1/panel.pdf'' ''%PDF-1.7 blood panel''
     = Inr (demo_disk\<lparr>fs_dirs := [''/srv/app/public/uploads/pat1'', ''/srv/app/public/uploads'',
                                ''/srv/app/public'', ''/srv/app''],
                   fs_files := [(''/srv/app/public/uploads/pat1/panel.pdf'', ''%PDF-1.7 blood panel'')]\<rparr>)"
    by (simp add: writeFile_def parent_dir_def demo_disk_def Let_def)
  have join: "path_join ''/srv/app/public/uploads/pat1'' ''panel.pdf''
                = ''/srv/app/public/uploads/pat1/panel.pdf''"
    by (simp add: path_join_def)
  show ?thesis
    by (simp add: uploadFile_def POST_upload_def part name bytes mime demo_upload_dir
        demo_ensureDir demo_final_filename join wrote MAX_FILE_SIZE_def ALLOWED_MIME_def Let_def)
qed

lemma demo_pinned:
  "\<exists>pin. uploadEncryptedToPinata demo_platform demo_browser demo_surroundings demo_drawn demo_file
           = (Inr pin, [storage_request demo_platform demo_browser demo_drawn demo_file])"
  by (simp add: uploadEncryptedToPinata_def demo_browser_def demo_surroundings_def Let_def)

lemma demo_form_date: "rd_date (form_record demo_values url pin) = 1700000200000"
  by (simp add: form_record_def demo_values_def)

lemma demo_saved:
  "fst (addHealthRecord demo_platform (dr_recordIv demo_drawn) (dr_newId demo_drawn)
          (dr_now demo_drawn) ''pat1'' (form_record demo_values url pin) demo_world)
     = Inr ''rec4''"
  by (simp add: addHealthRecord_def encryptObject_def demo_key_configured
      Timestamp_fromDate_def MIN_SECONDS_def MAX_SECONDS_def demo_form_date
      addDoc_record_def take_fault_def demo_world_def demo_drawn_def Let_def)

lemma demo_submission:
  "sb_record (onSubmit demo_platform demo_browser demo_surroundings demo_drawn (Some ''pat1'')
                demo_values) = Some ''rec4''"
proof -
  obtain pin where pin: "uploadEncryptedToPinata demo_platform demo_browser demo_surroundings
           demo_drawn demo_file
           = (Inr pin, [storage_request demo_platform demo_browser demo_drawn demo_file])"
    using demo_pinned by (elim exE)
  have files: "fv_attachment demo_values = [demo_file]" by (simp add: demo_values_def)
  have disk: "sr_fs demo_surroundings = demo_disk" and world: "sr_world demo_surroundings = demo_world"
    by (simp_all add: demo_surroundings_def)
  obtain r w' where s: "addHealthRecord demo_platform (dr_recordIv demo_drawn) (dr_newId demo_drawn)
          (dr_now demo_drawn) ''pat1''
          (form_record demo_values (Some ''/uploads/pat1/panel.pdf'') (Some pin)) demo_world = (r, w')"
    by (cases "addHealthRecord demo_platform (dr_recordIv demo_drawn) (dr_newId demo_drawn)
          (dr_now demo_drawn) ''pat1''
          (form_record demo_values (Some ''/uploads/pat1/panel.pdf'') (Some pin)) demo_world")
  with demo_saved [of "Some ''/uploads/pat1/panel.pdf''" "Some pin"] have r: "r = Inr ''rec4''"
    by simp
  show ?thesis
    by (simp add: onSubmit_def files disk world demo_uploadFile pin save_record_def s r)
qed

text \<open>
  The instance: on a server with an empty disk, the patient of the small installation
  submits a laboratory report with the file \<open>panel.pdf\<close>. The record is created, the
  file went out in the clear before its ciphertext did, and the disk holds its bytes at
  \<open>/srv/app/public/uploads/pat1/panel.pdf\<close>.
\<close>

theorem attachment_plaintext_copy_witness:
  "formSchema demo_values
   \<and> fv_attachment demo_values = [demo_file]
   \<and> sb_record (onSubmit demo_platform demo_browser demo_surroundings demo_drawn (Some ''pat1'')
                  demo_values) = Some ''rec4''
   \<and> sb_requests (onSubmit demo_platform demo_browser demo_surroundings demo_drawn (Some ''pat1'')
                    demo_values)
       = [PostApiUpload demo_file ''pat1'',
          PostApiStorageUpload
            (''fedcba9876543210fedcba9876543210'' @ ''nonce-000005'' @ ''%PDF-1.7 blood panel'')
            ''panel.pdf'' ''application/pdf''
            (''fedcba9876543210fedcba9876543210'' @ ''nonce-000005'' @ ''%PDF-1.7 blood panel'')]
   \<and> map_of (fs_files (sb_fs (onSubmit demo_platform demo_browser demo_surroundings demo_drawn
                                  (Some ''pat1'') demo_values)))
        ''/srv/app/public/uploads/pat1/panel.pdf'' = Some ''%PDF-1.7 blood panel''"
proof -
  let ?out = "onSubmit demo_platform demo_browser demo_surroundings demo_drawn (Some ''pat1'')
                demo_values"
  have schema: "formSchema demo_values"
    by (simp add: formSchema_def demo_values_def demo_file_def FORM_MAX_FILE_SIZE_def
        ACCEPTED_FILE_TYPES_def)
  have files: "fv_attachment demo_values = [demo_file]" by (simp add: demo_values_def)
  have segment: "CHR ''/'' \<notin> set ''pat1'' \<and> ''pat1'' \<noteq> ''.'' \<and> ''pat1'' \<noteq> ''..''" by simp
  have disk0: "sr_fs demo_surroundings = demo_disk" by (simp add: demo_surroundings_def)
  have name: "up_name demo_file = ''panel.pdf''" and bytes: "up_bytes demo_file = ''%PDF-1.7 blood panel''"
    by (simp_all add: demo_file_def)
  from attachment_plaintext_copy [OF demo_submission files segment]
  obtain disk stored where
    d: "ensureDir (sr_fs demo_surroundings) (upload_dir (sr_fs demo_surroundings) ''pat1'') = Inr disk"
    and st: "stored = final_filename disk (upload_dir (sr_fs demo_surroundings) ''pat1'')
                  (safe_filename (if up_name demo_file = [] then ''file'' else up_name demo_file))"
    and reqs: "sb_requests ?out
         = [PostApiUpload demo_file ''pat1'',
            PostApiStorageUpload
              (aes_gcm_encrypt demo_platform (dr_fileKey demo_drawn) (dr_fileIv demo_drawn)
                 (up_bytes demo_file))
              (up_name demo_file) (type_or_pdf demo_file)
              (sha256_hex demo_browser
                 (aes_gcm_encrypt demo_platform (dr_fileKey demo_drawn) (dr_fileIv demo_drawn)
                    (up_bytes demo_file)))]"
    and held: "map_of (fs_files (sb_fs ?out))
          (path_join (upload_dir (sr_fs demo_surroundings) ''pat1'') stored) = Some (up_bytes demo_file)"
    by (elim exE conjE)
  from d have disk: "disk = demo_disk\<lparr>fs_dirs := [''/srv/app/public/uploads/pat1'',
                         ''/srv/app/public/uploads'', ''/srv/app/public'', ''/srv/app'']\<rparr>"
    by (simp add: disk0 demo_upload_dir demo_ensureDir)
  have stored: "stored = ''panel.pdf''"
    unfolding st disk disk0 demo_upload_dir name by (simp add: demo_final_filename)
  have 1: "sb_requests ?out
       = [PostApiUpload demo_file ''pat1'',
          PostApiStorageUpload
            (''fedcba9876543210fedcba9876543210'' @ ''nonce-000005'' @ ''%PDF-1.7 blood panel'')
            ''panel.pdf'' ''application/pdf''
            (''fedcba9876543210fedcba9876543210'' @ ''nonce-000005'' @ ''%PDF-1.7 blood panel'')]"
    unfolding reqs
    by (simp add: demo_platform_def demo_seal_def demo_drawn_def demo_browser_def demo_file_def
        type_or_pdf_def)
  have 2: "map_of (fs_files (sb_fs ?out)) ''/srv/app/public/uploads/pat1/panel.pdf''
             = Some ''%PDF-1.7 blood panel''"
    using held unfolding stored disk0 demo_upload_dir bytes by (simp add: path_join_def)
  from schema files demo_submission 1 2 show ?thesis by (intro conjI)
qed


end
